theory Spec2Isabelle
  imports Complex_Main
begin

section \<open>Data model of the local planner\<close>

text \<open>
  The planner computes in single-precision floats. They are modelled as \<^typ>\<open>real\<close>:
  every comparison and every arithmetic step is the exact one, rounding is left out, and
  a division whose divisor is zero (NaN or infinity in the program) is excluded by a
  hypothesis wherever a theorem speaks about its result.
\<close>

datatype Vector3f = Vector3f (vx: real) (vy: real) (vz: real)

datatype PolarPoint = PolarPoint (pe: real) (pz: real) (pr: real)

text \<open>The enumeration behind \<open>waypoint_type_\<close>.\<close>

datatype waypoint_choice = hover | costmap | tryPath | direct | reachHeight | goBack

definition vminus :: "Vector3f \<Rightarrow> Vector3f \<Rightarrow> Vector3f" where
  "vminus a b = Vector3f (vx a - vx b) (vy a - vy b) (vz a - vz b)"

definition vnorm :: "Vector3f \<Rightarrow> real" where
  "vnorm a = sqrt (vx a * vx a + vy a * vy a + vz a * vz a)"

text \<open>The norm of a two-dimensional vector (\<open>Eigen::Vector2f::norm\<close>).\<close>

definition norm2 :: "real \<times> real \<Rightarrow> real" where
  "norm2 v = sqrt (fst v * fst v + snd v * snd v)"

text \<open>
  A histogram is read through its two accessors \<open>get_dist(e, z)\<close> and
  \<open>get_age(e, z)\<close>.
\<close>

record Histogram =
  get_dist :: "int \<Rightarrow> int \<Rightarrow> real"
  get_age :: "int \<Rightarrow> int \<Rightarrow> int"

record Box =
  radius :: real

record candidateDirection =
  cost :: real
  elevation_angle :: real
  azimuth_angle :: real

record costParameters =
  goal_cost_param :: real
  heading_cost_param :: real
  smooth_cost_param :: real
  height_change_cost_param :: real
  height_change_cost_param_adapted :: real

record LaserScan =
  angle_increment :: real
  range_min :: real
  range_max :: real
  ranges :: "real list"

text \<open>
  The tree planner is a separate class; the planner increments its public counter
  \<open>tree_age_\<close> and reads \<open>path_node_positions_\<close>, everything else goes through its
  methods, which are parameters of the model (see \<open>externals\<close>).
\<close>

record StarPlanner =
  tree_age :: int
  path_node_positions :: "Vector3f list"

text \<open>The dynamic-reconfigure message, with the fields the planner reads.\<close>

record LocalPlannerNodeConfig =
  cfg_box_radius :: real
  cfg_goal_cost_param :: real
  cfg_heading_cost_param :: real
  cfg_smooth_cost_param :: real
  cfg_velocity_around_obstacles :: real
  cfg_velocity_far_from_obstacles :: real
  cfg_keep_distance :: real
  cfg_reproj_age :: real
  cfg_velocity_sigmoid_slope :: real
  cfg_no_progress_slope :: real
  cfg_min_cloud_size :: nat
  cfg_min_realsense_dist :: real
  cfg_min_dist_backoff :: real
  cfg_timeout_critical :: real
  cfg_timeout_termination :: real
  cfg_children_per_node :: int
  cfg_n_expanded_nodes :: int
  cfg_smoothing_margin_degrees :: real
  cfg_goal_z_param :: real
  cfg_use_vel_setpoints :: bool
  cfg_stop_in_front :: bool
  cfg_use_back_off :: bool
  cfg_use_VFH_star :: bool
  cfg_adapt_cost_params :: bool
  cfg_send_obstacles_fcu :: bool

text \<open>
  The state of a \<open>LocalPlanner\<close> object: its member variables, under their names
  without the trailing underscore. \<open>min_cloud_size\<close> is a count and is compared with
  the size of a container, so it is a natural number here.
\<close>

record LocalPlanner =
  position :: Vector3f
  position_old :: Vector3f
  goal :: Vector3f
  take_off_pose :: Vector3f
  velocity :: Vector3f
  last_sent_waypoint :: Vector3f
  closest_point :: Vector3f
  back_off_point :: Vector3f
  back_off_start_point :: Vector3f
  curr_yaw_fcu_frame :: real
  curr_pitch_fcu_frame :: real
  ground_distance :: real
  starting_height :: real
  distance_to_closest_point :: real
  keep_distance :: real
  min_dist_backoff :: real
  min_realsense_dist :: real
  reproj_age :: real
  no_progress_slope :: real
  h_FOV :: real
  v_FOV :: real
  velocity_around_obstacles :: real
  velocity_far_from_obstacles :: real
  velocity_sigmoid_slope :: real
  smoothing_margin_degrees :: real
  timeout_critical :: real
  timeout_termination :: real
  integral_time_old :: real
  last_path_time :: real
  costmap_direction_e :: real
  costmap_direction_z :: real
  currently_armed :: bool
  offboard :: bool
  mission :: bool
  disable_rise_to_goal_altitude :: bool
  reach_altitude :: bool
  stop_in_front :: bool
  stop_in_front_active :: bool
  first_brake :: bool
  use_back_off :: bool
  back_off :: bool
  use_VFH_star :: bool
  adapt_cost_params :: bool
  send_obstacles_fcu :: bool
  use_vel_setpoints :: bool
  obstacle :: bool
  hist_is_empty :: bool
  waypoint_outside_FOV :: bool
  min_cloud_size :: nat
  counter_close_points_backoff :: int
  children_per_node :: int
  n_expanded_nodes :: int
  dist_incline_window_size :: nat
  e_FOV_min :: int
  e_FOV_max :: int
  z_FOV_idx :: "int list"
  complete_cloud :: "Vector3f list list"
  final_cloud :: "Vector3f list"
  reprojected_points :: "Vector3f list"
  reprojected_points_age :: "int list"
  goal_dist_incline :: "real list"
  histogram_image_data :: "int list"
  cost_image_data :: "int list"
  histogram_box :: Box
  polar_histogram :: Histogram
  to_fcu_histogram :: Histogram
  cost_params :: costParameters
  cost_matrix :: "int \<Rightarrow> int \<Rightarrow> real"
  candidate_vector :: "candidateDirection list"
  waypoint_type :: waypoint_choice
  distance_data :: LaserScan
  star_planner :: StarPlanner

datatype Quaternionf = Quaternionf (qw: real) (qx: real) (qy: real) (qz: real)

text \<open>What \<open>filterPointCloud\<close> writes through its four output references.\<close>

record filter_result =
  fr_final_cloud :: "Vector3f list"
  fr_closest_point :: Vector3f
  fr_distance_to_closest_point :: real
  fr_counter_close_points_backoff :: int

text \<open>
  The surroundings of the two source files: the constant \<open>ALPHA_RES\<close> of the histogram
  header, the clock (\<open>ros::Time::now()\<close>, in seconds), and the functions of the
  geometry, histogram, cost and tree-planner modules that the planner calls. Each of them
  is a parameter, applied to the arguments the planner passes, in the order of the call;
  an output reference becomes part of the result.
\<close>

record externals =
  ALPHA_RES :: int
  now :: real
  getYawFromQuaternion :: "Quaternionf \<Rightarrow> real"
  getPitchFromQuaternion :: "Quaternionf \<Rightarrow> real"
  histogramIndexToPolar :: "int \<Rightarrow> int \<Rightarrow> int \<Rightarrow> real \<Rightarrow> PolarPoint"
  polarToCartesian :: "PolarPoint \<Rightarrow> Vector3f \<Rightarrow> Vector3f"
  cartesianToPolar :: "Vector3f \<Rightarrow> Vector3f \<Rightarrow> PolarPoint"
  calculateFOV :: "real \<Rightarrow> real \<Rightarrow> real \<Rightarrow> real \<Rightarrow> int list \<times> int \<times> int"
  setBoxLimits :: "Vector3f \<Rightarrow> real \<Rightarrow> Box \<Rightarrow> Box"
  filterPointCloud ::
    "Vector3f list list \<Rightarrow> nat \<Rightarrow> real \<Rightarrow> Box \<Rightarrow> Vector3f \<Rightarrow> real \<Rightarrow> filter_result"
  propagateHistogram :: "Vector3f list \<Rightarrow> int list \<Rightarrow> Vector3f \<Rightarrow> Histogram"
  generateNewHistogram :: "Vector3f list \<Rightarrow> Vector3f \<Rightarrow> Histogram"
  combinedHistogram ::
    "Histogram \<Rightarrow> Histogram \<Rightarrow> bool \<Rightarrow> int list \<Rightarrow> int \<Rightarrow> int \<Rightarrow> bool \<times> Histogram"
  compressHistogramElevation :: "Histogram \<Rightarrow> Histogram"
  getCostMatrix ::
    "Histogram \<Rightarrow> Vector3f \<Rightarrow> Vector3f \<Rightarrow> real \<Rightarrow> Vector3f \<Rightarrow> costParameters \<Rightarrow> bool \<Rightarrow> real
      \<Rightarrow> (int \<Rightarrow> int \<Rightarrow> real) \<times> int list"
  getBestCandidatesFromCostMatrix :: "(int \<Rightarrow> int \<Rightarrow> real) \<Rightarrow> nat \<Rightarrow> candidateDirection list"
  star_setPose :: "Vector3f \<Rightarrow> real \<Rightarrow> StarPlanner \<Rightarrow> StarPlanner"
  star_setGoal :: "Vector3f \<Rightarrow> StarPlanner \<Rightarrow> StarPlanner"
  star_dynamicReconfigureSetStarParams ::
    "LocalPlannerNodeConfig \<Rightarrow> nat \<Rightarrow> StarPlanner \<Rightarrow> StarPlanner"
  star_setParams :: "costParameters \<Rightarrow> StarPlanner \<Rightarrow> StarPlanner"
  star_setFOV :: "real \<Rightarrow> real \<Rightarrow> StarPlanner \<Rightarrow> StarPlanner"
  star_setReprojectedPoints :: "Vector3f list \<Rightarrow> int list \<Rightarrow> StarPlanner \<Rightarrow> StarPlanner"
  star_setCloud :: "Vector3f list \<Rightarrow> StarPlanner \<Rightarrow> StarPlanner"
  star_setLastDirection :: "Vector3f \<Rightarrow> StarPlanner \<Rightarrow> StarPlanner"
  star_buildLookAheadTree :: "StarPlanner \<Rightarrow> StarPlanner"

text \<open>Division of C++ \<open>int\<close>s truncates towards zero.\<close>

definition c_div :: "int \<Rightarrow> int \<Rightarrow> int" where
  "c_div a b = sgn a * sgn b * (\<bar>a\<bar> div \<bar>b\<bar>)"

text \<open>
  Modelled from the spec: the histogram header is not among the sources; the grid has
  \<open>E = 180/\<alpha>\<close> elevation rows and \<open>Z = 360/\<alpha>\<close> azimuth columns for the angular
  resolution \<open>\<alpha> = ALPHA_RES\<close>.
\<close>

definition GRID_LENGTH_E :: "externals \<Rightarrow> int" where
  "GRID_LENGTH_E ext = c_div 180 (ALPHA_RES ext)"

definition GRID_LENGTH_Z :: "externals \<Rightarrow> int" where
  "GRID_LENGTH_Z ext = c_div 360 (ALPHA_RES ext)"

text \<open>\<open>FLT_MIN\<close>, the smallest positive normalised float, and \<open>UINT16_MAX\<close>.\<close>

definition FLT_MIN :: real where
  "FLT_MIN = 1 / 2 ^ 126"

definition UINT16_MAX :: real where
  "UINT16_MAX = 65535"

text \<open>\<open>std::round\<close> rounds halfway cases away from zero.\<close>

definition std_round :: "real \<Rightarrow> real" where
  "std_round a = (if 0 \<le> a then of_int \<lfloor>a + 1 / 2\<rfloor> else of_int \<lceil>a - 1 / 2\<rceil>)"

text \<open>\<open>Histogram::setZero\<close>: every distance and every age is zero.\<close>

definition Histogram_setZero :: Histogram where
  "Histogram_setZero = \<lparr>get_dist = (\<lambda>e z. 0), get_age = (\<lambda>e z. 0)\<rparr>"

section \<open>The planner's operations\<close>

definition setPose :: "externals \<Rightarrow> Vector3f \<Rightarrow> Quaternionf \<Rightarrow> LocalPlanner \<Rightarrow> LocalPlanner" where
  "setPose ext pos q s =
    (let s1 = s\<lparr>position := pos,
                curr_yaw_fcu_frame := getYawFromQuaternion ext q,
                curr_pitch_fcu_frame := getPitchFromQuaternion ext q\<rparr>;
         s2 = s1\<lparr>star_planner :=
                star_setPose ext (position s1) (curr_yaw_fcu_frame s1) (star_planner s1)\<rparr>
     in if \<not> currently_armed s2 \<and> \<not> disable_rise_to_goal_altitude s2
        then s2\<lparr>take_off_pose := position s2, reach_altitude := False\<rparr>
        else s2)"

definition applyGoal :: "externals \<Rightarrow> LocalPlanner \<Rightarrow> LocalPlanner" where
  "applyGoal ext s =
    s\<lparr>star_planner := star_setGoal ext (goal s) (star_planner s),
      goal_dist_incline := []\<rparr>"

definition setGoal :: "externals \<Rightarrow> Vector3f \<Rightarrow> LocalPlanner \<Rightarrow> LocalPlanner" where
  "setGoal ext g s = applyGoal ext (s\<lparr>goal := g\<rparr>)"

definition getGoal :: "LocalPlanner \<Rightarrow> Vector3f" where
  "getGoal s = goal s"

definition dynamicReconfigureSetParams ::
  "externals \<Rightarrow> LocalPlannerNodeConfig \<Rightarrow> nat \<Rightarrow> LocalPlanner \<Rightarrow> LocalPlanner" where
  "dynamicReconfigureSetParams ext config level s =
    (let s1 = s\<lparr>histogram_box := (histogram_box s)\<lparr>radius := cfg_box_radius config\<rparr>,
                cost_params := (cost_params s)
                  \<lparr>goal_cost_param := cfg_goal_cost_param config,
                   heading_cost_param := cfg_heading_cost_param config,
                   smooth_cost_param := cfg_smooth_cost_param config\<rparr>,
                velocity_around_obstacles := cfg_velocity_around_obstacles config,
                velocity_far_from_obstacles := cfg_velocity_far_from_obstacles config,
                keep_distance := cfg_keep_distance config,
                reproj_age := cfg_reproj_age config,
                velocity_sigmoid_slope := cfg_velocity_sigmoid_slope config,
                no_progress_slope := cfg_no_progress_slope config,
                min_cloud_size := cfg_min_cloud_size config,
                min_realsense_dist := cfg_min_realsense_dist config,
                min_dist_backoff := cfg_min_dist_backoff config,
                timeout_critical := cfg_timeout_critical config,
                timeout_termination := cfg_timeout_termination config,
                children_per_node := cfg_children_per_node config,
                n_expanded_nodes := cfg_n_expanded_nodes config,
                smoothing_margin_degrees := cfg_smoothing_margin_degrees config\<rparr>;
         s2 = (if vz (getGoal s1) \<noteq> cfg_goal_z_param config
               then setGoal ext (Vector3f (vx (getGoal s1)) (vy (getGoal s1)) (cfg_goal_z_param config)) s1
               else s1);
         s3 = s2\<lparr>use_vel_setpoints := cfg_use_vel_setpoints config,
                 stop_in_front := cfg_stop_in_front config,
                 use_back_off := cfg_use_back_off config,
                 use_VFH_star := cfg_use_VFH_star config,
                 adapt_cost_params := cfg_adapt_cost_params config,
                 send_obstacles_fcu := cfg_send_obstacles_fcu config\<rparr>
     in s3\<lparr>star_planner :=
            star_dynamicReconfigureSetStarParams ext config level (star_planner s3)\<rparr>)"

text \<open>
  \<open>generateHistogramImage\<close>: one byte per cell, rows from the highest elevation index
  down; the cast to \<open>int\<close> of a value clamped to \<open>[0, 255]\<close> is its floor.
\<close>

definition generateHistogramImage :: "externals \<Rightarrow> Histogram \<Rightarrow> LocalPlanner \<Rightarrow> LocalPlanner" where
  "generateHistogramImage ext histogram s =
    s\<lparr>histogram_image_data :=
        concat (map (\<lambda>e. map (\<lambda>z.
            \<lfloor>max 0 (min 255 (255 * get_dist histogram e z / radius (histogram_box s)))\<rfloor>)
          [0 .. GRID_LENGTH_Z ext - 1]) (rev [0 .. GRID_LENGTH_E ext - 1]))\<rparr>"

text \<open>
  \<open>updateObstacleDistanceMsg(hist)\<close>: the field-of-view indices are turned by half a
  ring, then one range per azimuth index is written. The header (time stamp and frame
  name) is left out.
\<close>

definition north_idx :: "externals \<Rightarrow> int \<Rightarrow> int" where
  "north_idx ext i =
    (let new_idx = i + c_div (GRID_LENGTH_Z ext) 2
     in if new_idx \<ge> GRID_LENGTH_Z ext then new_idx - GRID_LENGTH_Z ext else new_idx)"

definition z_FOV_idx_north :: "externals \<Rightarrow> int list \<Rightarrow> int list" where
  "z_FOV_idx_north ext idxs = map (north_idx ext) idxs"

definition hist_idx :: "externals \<Rightarrow> int \<Rightarrow> int" where
  "hist_idx ext idx =
    (let hist_idx0 = idx - c_div (GRID_LENGTH_Z ext) 2
     in if hist_idx0 < 0 then hist_idx0 + GRID_LENGTH_Z ext else hist_idx0)"

definition obstacle_range :: "externals \<Rightarrow> Histogram \<Rightarrow> int list \<Rightarrow> real \<Rightarrow> int \<Rightarrow> real" where
  "obstacle_range ext hist north rmax idx =
    (if idx \<notin> set north then UINT16_MAX
     else if get_dist hist 0 (hist_idx ext idx) = 0 then rmax + 1
     else get_dist hist 0 (hist_idx ext idx))"

definition updateObstacleDistanceMsg :: "externals \<Rightarrow> Histogram \<Rightarrow> LocalPlanner \<Rightarrow> LocalPlanner" where
  "updateObstacleDistanceMsg ext hist s =
    (let north = z_FOV_idx_north ext (z_FOV_idx s)
     in s\<lparr>distance_data :=
          \<lparr>angle_increment = of_int (ALPHA_RES ext) * pi / 180,
           range_min = 0.2,
           range_max = 20,
           ranges = map (obstacle_range ext hist north 20) [0 .. GRID_LENGTH_Z ext - 1]\<rparr>\<rparr>)"

text \<open>
  \<open>reprojectPoints\<close>: the four corners of a cell, in the order of \<open>temp_array\<close>, each
  cast from the previous position \<open>position_old_\<close>.
\<close>

definition half_res :: "externals \<Rightarrow> real" where
  "half_res ext = of_int (c_div (ALPHA_RES ext) 2)"

definition cell_corners :: "externals \<Rightarrow> Histogram \<Rightarrow> Vector3f \<Rightarrow> int \<Rightarrow> int \<Rightarrow> Vector3f list" where
  "cell_corners ext histogram pos_old e z =
    (let p = histogramIndexToPolar ext e z (ALPHA_RES ext) (get_dist histogram e z);
         h = half_res ext
     in [polarToCartesian ext (PolarPoint (pe p + h) (pz p + h) (pr p)) pos_old,
         polarToCartesian ext (PolarPoint (pe p - h) (pz p + h) (pr p)) pos_old,
         polarToCartesian ext (PolarPoint (pe p + h) (pz p - h) (pr p)) pos_old,
         polarToCartesian ext (PolarPoint (pe p - h) (pz p - h) (pr p)) pos_old])"

text \<open>The test that lets a corner into the reprojected cloud.\<close>

definition reproject_keep :: "LocalPlanner \<Rightarrow> Vector3f \<Rightarrow> int \<Rightarrow> bool" where
  "reproject_keep s p age =
    (let dist = vnorm (vminus (position s) p)
     in dist < 2 * radius (histogram_box s) \<and> dist > 0.3 \<and> of_int age < reproj_age s)"

definition reproject_cell ::
  "externals \<Rightarrow> Histogram \<Rightarrow> LocalPlanner \<Rightarrow> int \<Rightarrow> int \<Rightarrow> (Vector3f \<times> int) list" where
  "reproject_cell ext histogram s e z =
    (if get_dist histogram e z > FLT_MIN
     then filter (\<lambda>(p, age). reproject_keep s p age)
            (map (\<lambda>p. (p, get_age histogram e z))
                 (cell_corners ext histogram (position_old s) e z))
     else [])"

definition reproject_all ::
  "externals \<Rightarrow> Histogram \<Rightarrow> LocalPlanner \<Rightarrow> (Vector3f \<times> int) list" where
  "reproject_all ext histogram s =
    concat (map (\<lambda>e. concat (map (\<lambda>z. reproject_cell ext histogram s e z)
                                  [0 .. GRID_LENGTH_Z ext - 1]))
                [0 .. GRID_LENGTH_E ext - 1])"

definition reprojectPoints :: "externals \<Rightarrow> Histogram \<Rightarrow> LocalPlanner \<Rightarrow> LocalPlanner" where
  "reprojectPoints ext histogram s =
    (let emitted = reproject_all ext histogram s
     in s\<lparr>reprojected_points := map fst emitted,
          reprojected_points_age := map snd emitted\<rparr>)"

text \<open>
  \<open>evaluateProgressRate\<close>. The window is a deque: the new incline is pushed at the back
  and, when the window has grown past its size, one element is popped at the front.
\<close>

definition window_push :: "nat \<Rightarrow> real list \<Rightarrow> real \<Rightarrow> real list" where
  "window_push n w a = (let w1 = w @ [a] in if length w1 > n then tl w1 else w1)"

definition avg_incline :: "real list \<Rightarrow> real" where
  "avg_incline w = sum_list w / of_nat (length w)"

definition evaluateProgressRate :: "externals \<Rightarrow> LocalPlanner \<Rightarrow> LocalPlanner" where
  "evaluateProgressRate ext s =
    (if reach_altitude s \<and> adapt_cost_params s then
       (let goal_dist = vnorm (vminus (position s) (goal s));
            goal_dist_old = vnorm (vminus (position_old s) (goal s));
            time = now ext;
            time_diff_sec = time - integral_time_old s;
            incline = (goal_dist - goal_dist_old) / time_diff_sec;
            w = window_push (dist_incline_window_size s) (goal_dist_incline s) incline;
            avg = avg_incline w;
            a0 = height_change_cost_param_adapted (cost_params s);
            a1 = (if avg > no_progress_slope s \<and> length w = dist_incline_window_size s
                  then (if a0 > 0.75 then a0 - 0.02 else a0) else a0);
            a2 = (if avg < no_progress_slope s
                  then (if a1 < height_change_cost_param (cost_params s) - 0.03
                        then a1 + 0.03 else a1)
                  else a1)
        in s\<lparr>integral_time_old := time,
             goal_dist_incline := w,
             cost_params := (cost_params s)\<lparr>height_change_cost_param_adapted := a2\<rparr>\<rparr>)
     else s\<lparr>cost_params := (cost_params s)
             \<lparr>height_change_cost_param_adapted := height_change_cost_param (cost_params s)\<rparr>\<rparr>)"

text \<open>
  \<open>stopInFrontObstacles\<close>: only the first two coordinates of the goal are replaced. The
  quotient by \<open>pose_to_goal.norm()\<close> is a division by zero when the goal lies straight
  above or below the vehicle.
\<close>

definition stopInFrontObstacles :: "LocalPlanner \<Rightarrow> LocalPlanner" where
  "stopInFrontObstacles s =
    (if first_brake s then
       (let braking_distance = \<bar>distance_to_closest_point s - keep_distance s\<bar>;
            xyPos = (vx (position s), vy (position s));
            pose_to_goal = (vx (goal s) - fst xyPos, vy (goal s) - snd xyPos);
            n = norm2 pose_to_goal
        in s\<lparr>goal := Vector3f (fst xyPos + braking_distance * fst pose_to_goal / n)
                               (snd xyPos + braking_distance * snd pose_to_goal / n)
                               (vz (goal s)),
             first_brake := False,
             stop_in_front_active := True\<rparr>)
     else s)"

definition create2DObstacleRepresentation :: "externals \<Rightarrow> bool \<Rightarrow> LocalPlanner \<Rightarrow> LocalPlanner" where
  "create2DObstacleRepresentation ext send_to_fcu s =
    (let s1 = reprojectPoints ext (polar_histogram s) s;
         s2 = s1\<lparr>to_fcu_histogram := Histogram_setZero\<rparr>;
         propagated_histogram =
           propagateHistogram ext (reprojected_points s2) (reprojected_points_age s2) (position s2);
         new_histogram0 = generateNewHistogram ext (final_cloud s2) (position s2);
         combined = combinedHistogram ext new_histogram0 propagated_histogram
                      (waypoint_outside_FOV s2) (z_FOV_idx s2) (e_FOV_min s2) (e_FOV_max s2);
         new_histogram = snd combined;
         s3 = s2\<lparr>hist_is_empty := fst combined\<rparr>;
         s4 = (if send_to_fcu
               then (let s3a = s3\<lparr>to_fcu_histogram := compressHistogramElevation ext new_histogram\<rparr>
                     in updateObstacleDistanceMsg ext (to_fcu_histogram s3a) s3a)
               else s3);
         s5 = s4\<lparr>polar_histogram := new_histogram\<rparr>
     in generateHistogramImage ext (polar_histogram s5) s5)"

text \<open>
  The branch of \<open>determineStrategy\<close> that runs the tree planner (\<open>use_VFH_star_\<close>).
\<close>

definition buildTree :: "externals \<Rightarrow> LocalPlanner \<Rightarrow> LocalPlanner" where
  "buildTree ext s =
    (let sp1 = star_setParams ext (cost_params s) (star_planner s);
         sp2 = star_setFOV ext (h_FOV s) (v_FOV s) sp1;
         sp3 = star_setReprojectedPoints ext (reprojected_points s) (reprojected_points_age s) sp2;
         sp4 = star_setCloud ext (final_cloud s) sp3;
         last_wp_pol = cartesianToPolar ext (last_sent_waypoint s) (position s);
         last_wp_pol1 = PolarPoint (pe last_wp_pol) (pz last_wp_pol)
                          (vnorm (vminus (position s) (goal s)));
         projected_last_wp = polarToCartesian ext last_wp_pol1 (position s);
         sp5 = star_setLastDirection ext projected_last_wp sp4;
         sp6 = star_buildLookAheadTree ext sp5
     in s\<lparr>star_planner := sp6, waypoint_type := tryPath, last_path_time := now ext\<rparr>)"

text \<open>
  The branch of \<open>determineStrategy\<close> that takes the best candidate of the cost matrix
  (\<open>use_VFH_star_\<close> off).
\<close>

definition pickCandidate :: "externals \<Rightarrow> LocalPlanner \<Rightarrow> LocalPlanner" where
  "pickCandidate ext s =
    (let s1 = s\<lparr>candidate_vector := getBestCandidatesFromCostMatrix ext (cost_matrix s) 1\<rparr>
     in if candidate_vector s1 = []
        then (stopInFrontObstacles s1)\<lparr>waypoint_type := direct, stop_in_front := True\<rparr>
        else s1\<lparr>costmap_direction_e := elevation_angle (hd (candidate_vector s1)),
                costmap_direction_z := azimuth_angle (hd (candidate_vector s1)),
                waypoint_type := costmap\<rparr>)"

text \<open>The last alternative of \<open>determineStrategy\<close>: plan on the histogram.\<close>

definition planOnHistogram :: "externals \<Rightarrow> LocalPlanner \<Rightarrow> LocalPlanner" where
  "planOnHistogram ext s =
    (let s1 = evaluateProgressRate ext s;
         s2 = create2DObstacleRepresentation ext (send_obstacles_fcu s1) s1;
         s3 = (if hist_is_empty s2 then s2\<lparr>obstacle := False, waypoint_type := tryPath\<rparr> else s2);
         s4 = (if \<not> hist_is_empty s3 \<and> reach_altitude s3 then
                 (let s3a = s3\<lparr>obstacle := True\<rparr>;
                      yaw_angle_histogram_frame =
                        std_round (- curr_yaw_fcu_frame s3a * 180 / pi) + 90;
                      cm = getCostMatrix ext (polar_histogram s3a) (goal s3a) (position s3a)
                             yaw_angle_histogram_frame (last_sent_waypoint s3a) (cost_params s3a)
                             (vnorm (velocity s3a) < 0.1) (smoothing_margin_degrees s3a);
                      s3b = s3a\<lparr>cost_matrix := fst cm, cost_image_data := snd cm\<rparr>
                  in if use_VFH_star s3b then buildTree ext s3b else pickCandidate ext s3b)
               else s3)
     in s4\<lparr>first_brake := True\<rparr>)"

definition determineStrategy :: "externals \<Rightarrow> LocalPlanner \<Rightarrow> LocalPlanner" where
  "determineStrategy ext s =
    (let s0 = s\<lparr>star_planner := (star_planner s)\<lparr>tree_age := tree_age (star_planner s) + 1\<rparr>,
                cost_image_data :=
                  replicate (nat (3 * GRID_LENGTH_E ext * GRID_LENGTH_Z ext)) 0\<rparr>;
         s1 = (if disable_rise_to_goal_altitude s0 then s0\<lparr>reach_altitude := True\<rparr> else s0);
         s2 =
          (if \<not> reach_altitude s1 then
             (let a = s1\<lparr>starting_height := max (vz (goal s1) - 0.5) (vz (take_off_pose s1) + 1.0),
                         waypoint_type := reachHeight\<rparr>;
                  b = (if vz (position a) > starting_height a
                       then a\<lparr>reach_altitude := True, waypoint_type := direct\<rparr> else a)
              in if send_obstacles_fcu b then create2DObstacleRepresentation ext True b else b)
           else if length (final_cloud s1) > min_cloud_size s1 \<and> stop_in_front s1
                   \<and> reach_altitude s1 then
             (let a = (stopInFrontObstacles (s1\<lparr>obstacle := True\<rparr>))\<lparr>waypoint_type := direct\<rparr>
              in if send_obstacles_fcu a then create2DObstacleRepresentation ext True a else a)
           else if ((counter_close_points_backoff s1 > 200
                      \<and> length (final_cloud s1) > min_cloud_size s1) \<or> back_off s1)
                   \<and> reach_altitude s1 \<and> use_back_off s1 then
             (let a = (if \<not> back_off s1
                       then s1\<lparr>back_off_point := closest_point s1,
                               back_off_start_point := position s1,
                               back_off := True\<rparr>
                       else (let dist = vnorm (vminus (position s1) (back_off_point s1))
                             in if dist > min_dist_backoff s1 + 1.0
                                then s1\<lparr>back_off := False\<rparr> else s1));
                  b = a\<lparr>waypoint_type := goBack\<rparr>
              in if send_obstacles_fcu b then create2DObstacleRepresentation ext True b else b)
           else planOnHistogram ext s1)
     in s2\<lparr>position_old := position s2\<rparr>)"

text \<open>
  \<open>runPlanner\<close>, in two parts: everything before the call of \<open>determineStrategy\<close>
  (the latch is reset, the field of view, the box limits and the filtered cloud are
  computed), then \<open>determineStrategy\<close> itself.
\<close>

definition runPlanner_filter :: "externals \<Rightarrow> LocalPlanner \<Rightarrow> LocalPlanner" where
  "runPlanner_filter ext s =
    (let s1 = s\<lparr>stop_in_front_active := False\<rparr>;
         fov = calculateFOV ext (h_FOV s1) (v_FOV s1)
                 (curr_yaw_fcu_frame s1) (curr_pitch_fcu_frame s1);
         s2 = s1\<lparr>z_FOV_idx := fst fov, e_FOV_min := fst (snd fov), e_FOV_max := snd (snd fov)\<rparr>;
         s3 = s2\<lparr>histogram_box := setBoxLimits ext (position s2) (ground_distance s2)
                                     (histogram_box s2)\<rparr>;
         fr = filterPointCloud ext (complete_cloud s3) (min_cloud_size s3) (min_dist_backoff s3)
                (histogram_box s3) (position s3) (min_realsense_dist s3)
     in s3\<lparr>final_cloud := fr_final_cloud fr,
           closest_point := fr_closest_point fr,
           distance_to_closest_point := fr_distance_to_closest_point fr,
           counter_close_points_backoff := fr_counter_close_points_backoff fr\<rparr>)"

definition runPlanner :: "externals \<Rightarrow> LocalPlanner \<Rightarrow> LocalPlanner" where
  "runPlanner ext s = determineStrategy ext (runPlanner_filter ext s)"

section \<open>The node: planner inputs, failsafe and worker thread\<close>

text \<open>
  What \<open>updatePlannerInfo\<close> hands to the planner before a tick: the clouds of all
  cameras, already transformed to the local frame, the newest pose and velocity, the
  flight state, a new goal if one has arrived, the age and the value of the last
  ground-distance measurement, and the last waypoint sent.
\<close>

record planner_info =
  in_clouds :: "Vector3f list list"
  in_position :: Vector3f
  in_orientation :: Quaternionf
  in_velocity :: Vector3f
  in_armed :: bool
  in_offboard :: bool
  in_mission :: bool
  in_new_goal :: "Vector3f option"
  in_ground_distance_age :: real
  in_bottom_clearance :: real
  in_newest_waypoint_position :: Vector3f

definition updatePlannerInfo :: "externals \<Rightarrow> planner_info \<Rightarrow> LocalPlanner \<Rightarrow> LocalPlanner" where
  "updatePlannerInfo ext inp s =
    (let s1 = s\<lparr>complete_cloud := in_clouds inp\<rparr>;
         s2 = setPose ext (in_position inp) (in_orientation inp) s1;
         s3 = s2\<lparr>velocity := in_velocity inp\<rparr>;
         s4 = s3\<lparr>currently_armed := in_armed inp,
                 offboard := in_offboard inp,
                 mission := in_mission inp\<rparr>;
         s5 = (case in_new_goal inp of Some g \<Rightarrow> setGoal ext g s4 | None \<Rightarrow> s4);
         s6 = s5\<lparr>ground_distance :=
                  (if in_ground_distance_age inp < 0.5 then in_bottom_clearance inp else 2.0)\<rparr>
     in s6\<lparr>last_sent_waypoint := in_newest_waypoint_position inp\<rparr>)"

text \<open>
  Consecutive ticks of the planner, each with its own surroundings and inputs: the node
  updates the planner's inputs, then the worker runs the planner.
\<close>

fun run_ticks :: "(externals \<times> planner_info) list \<Rightarrow> LocalPlanner \<Rightarrow> LocalPlanner" where
  "run_ticks [] s = s"
| "run_ticks (t # ts) s = run_ticks ts (runPlanner (fst t) (updatePlannerInfo (fst t) (snd t) s))"

text \<open>
  The values of the MAVLink enumeration \<open>MAV_STATE\<close>; \<open>status_msg_.state\<close> holds one of
  them. Durations are in seconds.
\<close>

datatype MAV_STATE =
    MAV_STATE_UNINIT | MAV_STATE_BOOT | MAV_STATE_CALIBRATING | MAV_STATE_STANDBY
  | MAV_STATE_ACTIVE | MAV_STATE_CRITICAL | MAV_STATE_EMERGENCY | MAV_STATE_POWEROFF
  | MAV_STATE_FLIGHT_TERMINATION

text \<open>
  What \<open>checkFailsafe\<close> reads and writes: the two members \<open>status_msg_.state\<close> and
  \<open>position_received_\<close> of the node and its two reference parameters. The text of the
  log messages is left out.
\<close>

record failsafe =
  status_msg_state :: MAV_STATE
  position_received :: bool
  planner_is_healthy :: bool
  hover_request :: bool

definition checkFailsafe :: "LocalPlanner \<Rightarrow> real \<Rightarrow> real \<Rightarrow> failsafe \<Rightarrow> failsafe" where
  "checkFailsafe local_planner since_last_cloud since_start f =
    (let timeout_termination' = timeout_termination local_planner;
         timeout_critical' = timeout_critical local_planner
     in if since_last_cloud > timeout_termination' \<and> since_start > timeout_termination' then
          (if planner_is_healthy f
           then f\<lparr>planner_is_healthy := False, status_msg_state := MAV_STATE_FLIGHT_TERMINATION\<rparr>
           else f)
        else if since_last_cloud > timeout_critical' \<and> since_start > timeout_critical' then
          (if position_received f
           then f\<lparr>hover_request := True, status_msg_state := MAV_STATE_CRITICAL\<rparr>
           else f)
        else f)"

text \<open>
  \<open>threadFunction\<close>, one step of the worker at a time. The worker is at the loop test, in
  \<open>data_ready_cv_.wait(lk, pred)\<close>, at the test after the wait, inside a tick, or has
  returned. A wait with a predicate returns only when the predicate holds: woken while
  it does not hold, the thread goes on waiting. A tick is \<open>runPlanner\<close> followed by the
  publication of its data; it is one step, so nothing of the model can stop it half way.
\<close>

datatype worker_pc = LoopTest | Waiting | ExitTest | Tick | Returned

record worker =
  pc :: worker_pc
  should_exit :: bool
  data_ready :: bool
  never_run :: bool
  planner :: LocalPlanner

definition wait_predicate :: "worker \<Rightarrow> bool" where
  "wait_predicate w = (data_ready w \<and> \<not> should_exit w)"

definition worker_step :: "externals \<Rightarrow> worker \<Rightarrow> worker" where
  "worker_step ext w =
    (case pc w of
       LoopTest \<Rightarrow> if \<not> should_exit w then w\<lparr>pc := Waiting\<rparr> else w\<lparr>pc := Returned\<rparr>
     | Waiting \<Rightarrow> if wait_predicate w then w\<lparr>data_ready := False, pc := ExitTest\<rparr> else w
     | ExitTest \<Rightarrow> if should_exit w then w\<lparr>pc := Returned\<rparr> else w\<lparr>pc := Tick\<rparr>
     | Tick \<Rightarrow> w\<lparr>never_run := False, planner := runPlanner ext (planner w), pc := LoopTest\<rparr>
     | Returned \<Rightarrow> w)"

text \<open>
  The other threads, as far as the worker sees them: \<open>updatePlanner\<close> sets
  \<open>data_ready_\<close> and notifies, a shutdown sets \<open>should_exit_\<close> and notifies. A
  notification wakes the worker, which is its next step.
\<close>

datatype event = WorkerStep | DataReady | Shutdown

fun run_event :: "externals \<Rightarrow> event \<Rightarrow> worker \<Rightarrow> worker" where
  "run_event ext WorkerStep w = worker_step ext w"
| "run_event ext DataReady w = w\<lparr>data_ready := True\<rparr>"
| "run_event ext Shutdown w = w\<lparr>should_exit := True\<rparr>"

fun run_events :: "externals \<Rightarrow> event list \<Rightarrow> worker \<Rightarrow> worker" where
  "run_events ext [] w = w"
| "run_events ext (e # es) w = run_events ext es (run_event ext e w)"

section \<open>Example surroundings and states\<close>

text \<open>
  A concrete environment: resolution 6 degrees, constant geometry, an empty field of
  view, a filter that returns three points with the closest one 3 m ahead, an occupied
  histogram and no candidate direction.
\<close>

definition hist0 :: Histogram where
  "hist0 = \<lparr>get_dist = (\<lambda>e z. if e = 0 \<and> z = 0 then 5 else 0), get_age = (\<lambda>e z. 1)\<rparr>"

definition sp0 :: StarPlanner where
  "sp0 = \<lparr>tree_age = 0, path_node_positions = []\<rparr>"

definition fr0 :: filter_result where
  "fr0 = \<lparr>fr_final_cloud = [Vector3f 3 0 5, Vector3f 3 1 5, Vector3f 3 (-1) 5],
          fr_closest_point = Vector3f 3 0 5,
          fr_distance_to_closest_point = 3,
          fr_counter_close_points_backoff = 0\<rparr>"

definition ext0 :: externals where
  "ext0 = \<lparr>ALPHA_RES = 6,
           now = 10,
           getYawFromQuaternion = (\<lambda>q. 0),
           getPitchFromQuaternion = (\<lambda>q. 0),
           histogramIndexToPolar = (\<lambda>e z res r. PolarPoint (of_int (e * res + 3 - 90)) (of_int (z * res + 3 - 180)) r),
           polarToCartesian = (\<lambda>p pos. Vector3f (vx pos + pr p) (vy pos) (vz pos)),
           cartesianToPolar = (\<lambda>p pos. PolarPoint 0 0 0),
           calculateFOV = (\<lambda>h v yaw pitch. ([], 0, 0)),
           setBoxLimits = (\<lambda>pos d b. b),
           filterPointCloud = (\<lambda>cloud n d b pos m. fr0),
           propagateHistogram = (\<lambda>pts ages pos. hist0),
           generateNewHistogram = (\<lambda>pts pos. hist0),
           combinedHistogram = (\<lambda>new prop w idx emin emax. (False, new)),
           compressHistogramElevation = (\<lambda>h. h),
           getCostMatrix = (\<lambda>h g pos yaw wp cp still margin. ((\<lambda>e z. 0), [])),
           getBestCandidatesFromCostMatrix = (\<lambda>m n. []),
           star_setPose = (\<lambda>pos yaw sp. sp),
           star_setGoal = (\<lambda>g sp. sp),
           star_dynamicReconfigureSetStarParams = (\<lambda>c l sp. sp),
           star_setParams = (\<lambda>c sp. sp),
           star_setFOV = (\<lambda>h v sp. sp),
           star_setReprojectedPoints = (\<lambda>pts ages sp. sp),
           star_setCloud = (\<lambda>c sp. sp),
           star_setLastDirection = (\<lambda>d sp. sp),
           star_buildLookAheadTree = (\<lambda>sp. sp)\<rparr>"

text \<open>
  A planner in flight at \<open>(0, 0, 5)\<close> with the goal at \<open>(10, 0, 5)\<close>, past the
  reach-altitude phase, keeping 2 m from obstacles.
\<close>

definition lp0 :: LocalPlanner where
  "lp0 = \<lparr>position = Vector3f 0 0 5,
          position_old = Vector3f 0 0 5,
          goal = Vector3f 10 0 5,
          take_off_pose = Vector3f 0 0 0,
          velocity = Vector3f 0 0 0,
          last_sent_waypoint = Vector3f 0 0 5,
          closest_point = Vector3f 0 0 0,
          back_off_point = Vector3f 0 0 0,
          back_off_start_point = Vector3f 0 0 0,
          curr_yaw_fcu_frame = 0,
          curr_pitch_fcu_frame = 0,
          ground_distance = 2,
          starting_height = 0,
          distance_to_closest_point = 0,
          keep_distance = 2,
          min_dist_backoff = 3,
          min_realsense_dist = 0.2,
          reproj_age = 10,
          no_progress_slope = 0,
          h_FOV = 59,
          v_FOV = 46,
          velocity_around_obstacles = 1,
          velocity_far_from_obstacles = 3,
          velocity_sigmoid_slope = 3,
          smoothing_margin_degrees = 40,
          timeout_critical = 0.5,
          timeout_termination = 15,
          integral_time_old = 9,
          last_path_time = 0,
          costmap_direction_e = 0,
          costmap_direction_z = 0,
          currently_armed = True,
          offboard = True,
          mission = False,
          disable_rise_to_goal_altitude = False,
          reach_altitude = True,
          stop_in_front = True,
          stop_in_front_active = False,
          first_brake = True,
          use_back_off = True,
          back_off = False,
          use_VFH_star = False,
          adapt_cost_params = True,
          send_obstacles_fcu = False,
          use_vel_setpoints = False,
          obstacle = False,
          hist_is_empty = True,
          waypoint_outside_FOV = False,
          min_cloud_size = 2,
          counter_close_points_backoff = 0,
          children_per_node = 1,
          n_expanded_nodes = 5,
          dist_incline_window_size = 10,
          e_FOV_min = 0,
          e_FOV_max = 0,
          z_FOV_idx = [],
          complete_cloud = [],
          final_cloud = [],
          reprojected_points = [],
          reprojected_points_age = [],
          goal_dist_incline = [],
          histogram_image_data = [],
          cost_image_data = [],
          histogram_box = \<lparr>radius = 10\<rparr>,
          polar_histogram = hist0,
          to_fcu_histogram = hist0,
          cost_params = \<lparr>goal_cost_param = 2, heading_cost_param = 1, smooth_cost_param = 1,
                         height_change_cost_param = 4, height_change_cost_param_adapted = 4\<rparr>,
          cost_matrix = (\<lambda>e z. 0),
          candidate_vector = [],
          waypoint_type = hover,
          distance_data = \<lparr>angle_increment = 0, range_min = 0, range_max = 0, ranges = []\<rparr>,
          star_planner = sp0\<rparr>"

text \<open>A reconfiguration that moves the goal altitude to 7 m.\<close>

definition cfg0 :: LocalPlannerNodeConfig where
  "cfg0 = \<lparr>cfg_box_radius = 12,
           cfg_goal_cost_param = 2,
           cfg_heading_cost_param = 1,
           cfg_smooth_cost_param = 1,
           cfg_velocity_around_obstacles = 1,
           cfg_velocity_far_from_obstacles = 3,
           cfg_keep_distance = 2,
           cfg_reproj_age = 10,
           cfg_velocity_sigmoid_slope = 3,
           cfg_no_progress_slope = 0,
           cfg_min_cloud_size = 2,
           cfg_min_realsense_dist = 0.2,
           cfg_min_dist_backoff = 3,
           cfg_timeout_critical = 0.5,
           cfg_timeout_termination = 15,
           cfg_children_per_node = 1,
           cfg_n_expanded_nodes = 5,
           cfg_smoothing_margin_degrees = 40,
           cfg_goal_z_param = 7,
           cfg_use_vel_setpoints = False,
           cfg_stop_in_front = True,
           cfg_use_back_off = True,
           cfg_use_VFH_star = False,
           cfg_adapt_cost_params = True,
           cfg_send_obstacles_fcu = False\<rparr>"

text \<open>A healthy node that has not received a position yet.\<close>

definition f0 :: failsafe where
  "f0 = \<lparr>status_msg_state = MAV_STATE_ACTIVE, position_received = False,
          planner_is_healthy = True, hover_request = False\<rparr>"

text \<open>A worker blocked in the wait, no data ready, no shutdown requested yet.\<close>

definition w0 :: worker where
  "w0 = \<lparr>pc = Waiting, should_exit = False, data_ready = False, never_run = True, planner = lp0\<rparr>"

text \<open>The identity rotation.\<close>

definition q0 :: Quaternionf where
  "q0 = Quaternionf 1 0 0 0"

text \<open>
  The planner on the ground before arming, at height 0.2 m, with the goal 5 m above the
  origin.
\<close>

definition lp_ground :: LocalPlanner where
  "lp_ground = lp0\<lparr>currently_armed := False, position := Vector3f 0 0 0.2,
                    goal := Vector3f 0 0 5\<rparr>"

text \<open>
  A planner whose reach-altitude phase is still open although it already flies at 5 m,
  above the starting height.
\<close>

definition lp_rise :: LocalPlanner where
  "lp_rise = lp0\<lparr>reach_altitude := False\<rparr>"

text \<open>A planner that has already braked once: \<open>first_brake_\<close> is false.\<close>

definition lp_braked :: LocalPlanner where
  "lp_braked = lp0\<lparr>first_brake := False\<rparr>"

text \<open>
  Backing off from an obstacle point 3 m ahead, without stop-in-front; and the same
  planner after it has moved 4 m backwards.
\<close>

definition lp_backing :: LocalPlanner where
  "lp_backing = lp0\<lparr>stop_in_front := False, back_off := True,
                     back_off_point := Vector3f 3 0 5\<rparr>"

definition lp_backed :: LocalPlanner where
  "lp_backed = lp_backing\<lparr>position := Vector3f (-4) 0 5\<rparr>"

text \<open>
  Inputs of two ticks that find the vehicle hovering at \<open>(0, 0, 5)\<close> and then 1 m
  further back, with no new goal.
\<close>

definition info0 :: planner_info where
  "info0 = \<lparr>in_clouds = [],
            in_position = Vector3f 0 0 5,
            in_orientation = q0,
            in_velocity = Vector3f 0 0 0,
            in_armed = True,
            in_offboard = True,
            in_mission = False,
            in_new_goal = None,
            in_ground_distance_age = 0.1,
            in_bottom_clearance = 5,
            in_newest_waypoint_position = Vector3f 0 0 5\<rparr>"

definition info1 :: planner_info where
  "info1 = info0\<lparr>in_position := Vector3f (- 1) 0 5\<rparr>"

text \<open>Backing off, with stop-in-front enabled as well.\<close>

definition lp_backing_stop :: LocalPlanner where
  "lp_backing_stop = lp0\<lparr>back_off := True, back_off_point := Vector3f 3 0 5\<rparr>"

text \<open>An environment whose filter counts 250 points closer than the back-off distance.\<close>

definition ext_near :: externals where
  "ext_near = ext0\<lparr>filterPointCloud :=
      (\<lambda>cloud n d b pos m. fr0\<lparr>fr_counter_close_points_backoff := 250\<rparr>)\<rparr>"

text \<open>A planner in flight with stop-in-front switched off.\<close>

definition lp_free :: LocalPlanner where
  "lp_free = lp0\<lparr>stop_in_front := False\<rparr>"

text \<open>An environment whose cost matrix yields one candidate direction.\<close>

definition ext_candidate :: externals where
  "ext_candidate = ext0\<lparr>getBestCandidatesFromCostMatrix :=
      (\<lambda>m n. [\<lparr>cost = 1, elevation_angle = 3, azimuth_angle = 21\<rparr>])\<rparr>"

text \<open>A planner with neither stop-in-front nor back-off enabled.\<close>

definition lp_plan :: LocalPlanner where
  "lp_plan = lp0\<lparr>stop_in_front := False, use_back_off := False\<rparr>"

text \<open>
  Planners for the progress-rate adaptation. The goal is at \<open>(10, 0, 5)\<close>, the previous
  position at \<open>(0, 0, 5)\<close>, one second has passed since the previous call, and the
  progress threshold is 0.9 m/s. The first has moved 3 m away from the goal (incline 3)
  with a full window \<open>[2, 0, 0]\<close> of size 3; the second is the same with the adapted
  weight at 0.76; the third has moved away likewise with an empty window of size 10; the
  fourth has moved 1 m towards the goal (incline \<open>-1\<close>) with the window \<open>[0, 3]\<close> of
  size 3 and the adapted weight at 3; the last has the adaptation switched off.
\<close>

definition lp_stall :: LocalPlanner where
  "lp_stall = lp0\<lparr>position := Vector3f (- 3) 0 5,
                   dist_incline_window_size := 3,
                   goal_dist_incline := [2, 0, 0],
                   no_progress_slope := 0.9\<rparr>"

definition lp_floor :: LocalPlanner where
  "lp_floor = lp_stall\<lparr>cost_params :=
                 (cost_params lp0)\<lparr>height_change_cost_param_adapted := 0.76\<rparr>\<rparr>"

definition lp_early :: LocalPlanner where
  "lp_early = lp0\<lparr>position := Vector3f (- 3) 0 5, no_progress_slope := 0.9\<rparr>"

definition lp_gain :: LocalPlanner where
  "lp_gain = lp0\<lparr>position := Vector3f 1 0 5,
                  dist_incline_window_size := 3,
                  goal_dist_incline := [0, 3],
                  no_progress_slope := 0.9,
                  cost_params := (cost_params lp0)\<lparr>height_change_cost_param_adapted := 3\<rparr>\<rparr>"

definition lp_fixed :: LocalPlanner where
  "lp_fixed = lp0\<lparr>adapt_cost_params := False,
                   cost_params := (cost_params lp0)\<lparr>height_change_cost_param_adapted := 3\<rparr>\<rparr>"

text \<open>
  Surroundings whose geometry shows the angles: a polar point is cast to the origin
  moved by its radius along the first axis, by its elevation along the second and by
  its azimuth along the third.
\<close>

definition ext_geo :: externals where
  "ext_geo = ext0\<lparr>polarToCartesian :=
      (\<lambda>p pos. Vector3f (vx pos + pr p) (vy pos + pe p) (vz pos + pz p))\<rparr>"

text \<open>
  A previous histogram with two occupied neighbour cells at distance 4, the second one
  of age 20; one whose only occupied cell holds the distance \<open>FLT_MIN\<close>; and a planner
  that has moved 1 m since the previous tick, with a box of radius 4.
\<close>

definition hist_cells :: Histogram where
  "hist_cells = \<lparr>get_dist = (\<lambda>e z. if e = 15 \<and> (z = 30 \<or> z = 31) then 4 else 0),
                 get_age = (\<lambda>e z. if z = 31 then 20 else 1)\<rparr>"

definition hist_tiny :: Histogram where
  "hist_tiny = \<lparr>get_dist = (\<lambda>e z. if e = 15 \<and> z = 30 then FLT_MIN else 0),
                get_age = (\<lambda>e z. 1)\<rparr>"

definition lp_moved :: LocalPlanner where
  "lp_moved = lp0\<lparr>position := Vector3f 1 0 5, histogram_box := \<lparr>radius = 4\<rparr>\<rparr>"

text \<open>Backing off while the obstacle distances are sent to the flight controller.\<close>

definition lp_backing_fcu :: LocalPlanner where
  "lp_backing_fcu = lp_backing\<lparr>send_obstacles_fcu := True\<rparr>"

text \<open>A planner whose field of view covers the azimuth indices 29 and 30.\<close>

definition lp_fov :: LocalPlanner where
  "lp_fov = lp0\<lparr>z_FOV_idx := [29, 30]\<rparr>"

text \<open>A compressed histogram with an obstacle 7 m away at azimuth index 30.\<close>

definition hist_fcu :: Histogram where
  "hist_fcu = \<lparr>get_dist = (\<lambda>e z. if e = 0 \<and> z = 30 then 7 else 0), get_age = (\<lambda>e z. 0)\<rparr>"

section \<open>Helper lemmas\<close>

lemma worker_step_waiting:
  "pc w = Waiting \<Longrightarrow> should_exit w \<Longrightarrow> worker_step ext w = w"
  by (simp add: worker_step_def wait_predicate_def)

lemma run_event_waiting:
  "pc w = Waiting \<Longrightarrow> should_exit w \<Longrightarrow>
   pc (run_event ext e w) = Waiting \<and> should_exit (run_event ext e w)"
  by (cases e) (simp_all add: worker_step_waiting)

text \<open>Arithmetic used below.\<close>

lemma norm2_scaled:
  assumes "norm2 (a, c) \<noteq> 0"
  shows "norm2 (b * a / norm2 (a, c), b * c / norm2 (a, c)) = \<bar>b\<bar>"
proof -
  let ?n = "norm2 (a, c)"
  have n2: "?n * ?n = a * a + c * c"
    by (simp add: norm2_def)
  have "(b * a / ?n) * (b * a / ?n) + (b * c / ?n) * (b * c / ?n)
        = b * b * (a * a + c * c) / (?n * ?n)"
    by (simp add: add_divide_distrib algebra_simps)
  also have "\<dots> = b * b * (?n * ?n) / (?n * ?n)"
    by (simp only: n2)
  also have "\<dots> = b * b"
    using assms by simp
  finally have "norm2 (b * a / ?n, b * c / ?n) = sqrt (b * b)"
    by (simp add: norm2_def)
  then show ?thesis by simp
qed

lemma sqrt_100: "sqrt 100 = 10"
  by (rule real_sqrt_unique) simp_all

lemma sqrt_16: "sqrt 16 = 4"
  by (rule real_sqrt_unique) simp_all

lemma sqrt_9: "sqrt 9 = 3"
  by (rule real_sqrt_unique) simp_all

lemma sqrt_49: "sqrt 49 = 7"
  by (rule real_sqrt_unique) simp_all

text \<open>
  What the operations leave alone: each lemma lists fields that an operation does not
  change.
\<close>

lemma runPlanner_filter_keeps:
  "position (runPlanner_filter ext s) = position s"
  "goal (runPlanner_filter ext s) = goal s"
  "keep_distance (runPlanner_filter ext s) = keep_distance s"
  "min_cloud_size (runPlanner_filter ext s) = min_cloud_size s"
  "min_dist_backoff (runPlanner_filter ext s) = min_dist_backoff s"
  "use_back_off (runPlanner_filter ext s) = use_back_off s"
  "use_VFH_star (runPlanner_filter ext s) = use_VFH_star s"
  "reach_altitude (runPlanner_filter ext s) = reach_altitude s"
  "disable_rise_to_goal_altitude (runPlanner_filter ext s) = disable_rise_to_goal_altitude s"
  "stop_in_front (runPlanner_filter ext s) = stop_in_front s"
  "first_brake (runPlanner_filter ext s) = first_brake s"
  "back_off (runPlanner_filter ext s) = back_off s"
  "back_off_point (runPlanner_filter ext s) = back_off_point s"
  "back_off_start_point (runPlanner_filter ext s) = back_off_start_point s"
  "take_off_pose (runPlanner_filter ext s) = take_off_pose s"
  "send_obstacles_fcu (runPlanner_filter ext s) = send_obstacles_fcu s"
  "adapt_cost_params (runPlanner_filter ext s) = adapt_cost_params s"
  by (simp_all add: runPlanner_filter_def Let_def)

lemma reprojectPoints_keeps:
  "waypoint_type (reprojectPoints ext h s) = waypoint_type s"
  "reach_altitude (reprojectPoints ext h s) = reach_altitude s"
  "starting_height (reprojectPoints ext h s) = starting_height s"
  "position (reprojectPoints ext h s) = position s"
  "goal (reprojectPoints ext h s) = goal s"
  "back_off (reprojectPoints ext h s) = back_off s"
  "back_off_point (reprojectPoints ext h s) = back_off_point s"
  "back_off_start_point (reprojectPoints ext h s) = back_off_start_point s"
  "stop_in_front (reprojectPoints ext h s) = stop_in_front s"
  "stop_in_front_active (reprojectPoints ext h s) = stop_in_front_active s"
  "first_brake (reprojectPoints ext h s) = first_brake s"
  "final_cloud (reprojectPoints ext h s) = final_cloud s"
  "closest_point (reprojectPoints ext h s) = closest_point s"
  "distance_to_closest_point (reprojectPoints ext h s) = distance_to_closest_point s"
  "counter_close_points_backoff (reprojectPoints ext h s) = counter_close_points_backoff s"
  "keep_distance (reprojectPoints ext h s) = keep_distance s"
  "use_VFH_star (reprojectPoints ext h s) = use_VFH_star s"
  "min_cloud_size (reprojectPoints ext h s) = min_cloud_size s"
  "candidate_vector (reprojectPoints ext h s) = candidate_vector s"
  "cost_matrix (reprojectPoints ext h s) = cost_matrix s"
  "costmap_direction_e (reprojectPoints ext h s) = costmap_direction_e s"
  "costmap_direction_z (reprojectPoints ext h s) = costmap_direction_z s"
  "send_obstacles_fcu (reprojectPoints ext h s) = send_obstacles_fcu s"
  "obstacle (reprojectPoints ext h s) = obstacle s"
  "use_back_off (reprojectPoints ext h s) = use_back_off s"
  "min_dist_backoff (reprojectPoints ext h s) = min_dist_backoff s"
  "take_off_pose (reprojectPoints ext h s) = take_off_pose s"
  "disable_rise_to_goal_altitude (reprojectPoints ext h s) = disable_rise_to_goal_altitude s"
  by (simp_all add: reprojectPoints_def Let_def)

lemma generateHistogramImage_keeps:
  "waypoint_type (generateHistogramImage ext h s) = waypoint_type s"
  "reach_altitude (generateHistogramImage ext h s) = reach_altitude s"
  "starting_height (generateHistogramImage ext h s) = starting_height s"
  "position (generateHistogramImage ext h s) = position s"
  "goal (generateHistogramImage ext h s) = goal s"
  "back_off (generateHistogramImage ext h s) = back_off s"
  "back_off_point (generateHistogramImage ext h s) = back_off_point s"
  "back_off_start_point (generateHistogramImage ext h s) = back_off_start_point s"
  "stop_in_front (generateHistogramImage ext h s) = stop_in_front s"
  "stop_in_front_active (generateHistogramImage ext h s) = stop_in_front_active s"
  "first_brake (generateHistogramImage ext h s) = first_brake s"
  "final_cloud (generateHistogramImage ext h s) = final_cloud s"
  "closest_point (generateHistogramImage ext h s) = closest_point s"
  "distance_to_closest_point (generateHistogramImage ext h s) = distance_to_closest_point s"
  "counter_close_points_backoff (generateHistogramImage ext h s) = counter_close_points_backoff s"
  "keep_distance (generateHistogramImage ext h s) = keep_distance s"
  "use_VFH_star (generateHistogramImage ext h s) = use_VFH_star s"
  "min_cloud_size (generateHistogramImage ext h s) = min_cloud_size s"
  "candidate_vector (generateHistogramImage ext h s) = candidate_vector s"
  "cost_matrix (generateHistogramImage ext h s) = cost_matrix s"
  "costmap_direction_e (generateHistogramImage ext h s) = costmap_direction_e s"
  "costmap_direction_z (generateHistogramImage ext h s) = costmap_direction_z s"
  "send_obstacles_fcu (generateHistogramImage ext h s) = send_obstacles_fcu s"
  "obstacle (generateHistogramImage ext h s) = obstacle s"
  "use_back_off (generateHistogramImage ext h s) = use_back_off s"
  "min_dist_backoff (generateHistogramImage ext h s) = min_dist_backoff s"
  "take_off_pose (generateHistogramImage ext h s) = take_off_pose s"
  "disable_rise_to_goal_altitude (generateHistogramImage ext h s) = disable_rise_to_goal_altitude s"
  by (simp_all add: generateHistogramImage_def Let_def)

lemma updateObstacleDistanceMsg_keeps:
  "waypoint_type (updateObstacleDistanceMsg ext h s) = waypoint_type s"
  "reach_altitude (updateObstacleDistanceMsg ext h s) = reach_altitude s"
  "starting_height (updateObstacleDistanceMsg ext h s) = starting_height s"
  "position (updateObstacleDistanceMsg ext h s) = position s"
  "goal (updateObstacleDistanceMsg ext h s) = goal s"
  "back_off (updateObstacleDistanceMsg ext h s) = back_off s"
  "back_off_point (updateObstacleDistanceMsg ext h s) = back_off_point s"
  "back_off_start_point (updateObstacleDistanceMsg ext h s) = back_off_start_point s"
  "stop_in_front (updateObstacleDistanceMsg ext h s) = stop_in_front s"
  "stop_in_front_active (updateObstacleDistanceMsg ext h s) = stop_in_front_active s"
  "first_brake (updateObstacleDistanceMsg ext h s) = first_brake s"
  "final_cloud (updateObstacleDistanceMsg ext h s) = final_cloud s"
  "closest_point (updateObstacleDistanceMsg ext h s) = closest_point s"
  "distance_to_closest_point (updateObstacleDistanceMsg ext h s) = distance_to_closest_point s"
  "counter_close_points_backoff (updateObstacleDistanceMsg ext h s) = counter_close_points_backoff s"
  "keep_distance (updateObstacleDistanceMsg ext h s) = keep_distance s"
  "use_VFH_star (updateObstacleDistanceMsg ext h s) = use_VFH_star s"
  "min_cloud_size (updateObstacleDistanceMsg ext h s) = min_cloud_size s"
  "candidate_vector (updateObstacleDistanceMsg ext h s) = candidate_vector s"
  "cost_matrix (updateObstacleDistanceMsg ext h s) = cost_matrix s"
  "costmap_direction_e (updateObstacleDistanceMsg ext h s) = costmap_direction_e s"
  "costmap_direction_z (updateObstacleDistanceMsg ext h s) = costmap_direction_z s"
  "send_obstacles_fcu (updateObstacleDistanceMsg ext h s) = send_obstacles_fcu s"
  "obstacle (updateObstacleDistanceMsg ext h s) = obstacle s"
  "use_back_off (updateObstacleDistanceMsg ext h s) = use_back_off s"
  "min_dist_backoff (updateObstacleDistanceMsg ext h s) = min_dist_backoff s"
  "take_off_pose (updateObstacleDistanceMsg ext h s) = take_off_pose s"
  "disable_rise_to_goal_altitude (updateObstacleDistanceMsg ext h s) = disable_rise_to_goal_altitude s"
  by (simp_all add: updateObstacleDistanceMsg_def Let_def)

lemma create2D_keeps:
  "waypoint_type (create2DObstacleRepresentation ext b s) = waypoint_type s"
  "reach_altitude (create2DObstacleRepresentation ext b s) = reach_altitude s"
  "starting_height (create2DObstacleRepresentation ext b s) = starting_height s"
  "position (create2DObstacleRepresentation ext b s) = position s"
  "goal (create2DObstacleRepresentation ext b s) = goal s"
  "back_off (create2DObstacleRepresentation ext b s) = back_off s"
  "back_off_point (create2DObstacleRepresentation ext b s) = back_off_point s"
  "back_off_start_point (create2DObstacleRepresentation ext b s) = back_off_start_point s"
  "stop_in_front (create2DObstacleRepresentation ext b s) = stop_in_front s"
  "stop_in_front_active (create2DObstacleRepresentation ext b s) = stop_in_front_active s"
  "first_brake (create2DObstacleRepresentation ext b s) = first_brake s"
  "final_cloud (create2DObstacleRepresentation ext b s) = final_cloud s"
  "closest_point (create2DObstacleRepresentation ext b s) = closest_point s"
  "distance_to_closest_point (create2DObstacleRepresentation ext b s) = distance_to_closest_point s"
  "counter_close_points_backoff (create2DObstacleRepresentation ext b s) = counter_close_points_backoff s"
  "keep_distance (create2DObstacleRepresentation ext b s) = keep_distance s"
  "use_VFH_star (create2DObstacleRepresentation ext b s) = use_VFH_star s"
  "min_cloud_size (create2DObstacleRepresentation ext b s) = min_cloud_size s"
  "candidate_vector (create2DObstacleRepresentation ext b s) = candidate_vector s"
  "cost_matrix (create2DObstacleRepresentation ext b s) = cost_matrix s"
  "costmap_direction_e (create2DObstacleRepresentation ext b s) = costmap_direction_e s"
  "costmap_direction_z (create2DObstacleRepresentation ext b s) = costmap_direction_z s"
  "send_obstacles_fcu (create2DObstacleRepresentation ext b s) = send_obstacles_fcu s"
  "obstacle (create2DObstacleRepresentation ext b s) = obstacle s"
  "use_back_off (create2DObstacleRepresentation ext b s) = use_back_off s"
  "min_dist_backoff (create2DObstacleRepresentation ext b s) = min_dist_backoff s"
  "take_off_pose (create2DObstacleRepresentation ext b s) = take_off_pose s"
  "disable_rise_to_goal_altitude (create2DObstacleRepresentation ext b s) = disable_rise_to_goal_altitude s"
  by (simp_all add: create2DObstacleRepresentation_def Let_def reprojectPoints_keeps generateHistogramImage_keeps updateObstacleDistanceMsg_keeps)

lemma evaluateProgressRate_keeps:
  "waypoint_type (evaluateProgressRate ext s) = waypoint_type s"
  "reach_altitude (evaluateProgressRate ext s) = reach_altitude s"
  "starting_height (evaluateProgressRate ext s) = starting_height s"
  "position (evaluateProgressRate ext s) = position s"
  "goal (evaluateProgressRate ext s) = goal s"
  "back_off (evaluateProgressRate ext s) = back_off s"
  "back_off_point (evaluateProgressRate ext s) = back_off_point s"
  "back_off_start_point (evaluateProgressRate ext s) = back_off_start_point s"
  "stop_in_front (evaluateProgressRate ext s) = stop_in_front s"
  "stop_in_front_active (evaluateProgressRate ext s) = stop_in_front_active s"
  "first_brake (evaluateProgressRate ext s) = first_brake s"
  "final_cloud (evaluateProgressRate ext s) = final_cloud s"
  "closest_point (evaluateProgressRate ext s) = closest_point s"
  "distance_to_closest_point (evaluateProgressRate ext s) = distance_to_closest_point s"
  "counter_close_points_backoff (evaluateProgressRate ext s) = counter_close_points_backoff s"
  "keep_distance (evaluateProgressRate ext s) = keep_distance s"
  "use_VFH_star (evaluateProgressRate ext s) = use_VFH_star s"
  "min_cloud_size (evaluateProgressRate ext s) = min_cloud_size s"
  "candidate_vector (evaluateProgressRate ext s) = candidate_vector s"
  "cost_matrix (evaluateProgressRate ext s) = cost_matrix s"
  "costmap_direction_e (evaluateProgressRate ext s) = costmap_direction_e s"
  "costmap_direction_z (evaluateProgressRate ext s) = costmap_direction_z s"
  "send_obstacles_fcu (evaluateProgressRate ext s) = send_obstacles_fcu s"
  "obstacle (evaluateProgressRate ext s) = obstacle s"
  "use_back_off (evaluateProgressRate ext s) = use_back_off s"
  "min_dist_backoff (evaluateProgressRate ext s) = min_dist_backoff s"
  "take_off_pose (evaluateProgressRate ext s) = take_off_pose s"
  "disable_rise_to_goal_altitude (evaluateProgressRate ext s) = disable_rise_to_goal_altitude s"
  "hist_is_empty (evaluateProgressRate ext s) = hist_is_empty s"
  by (simp_all add: evaluateProgressRate_def Let_def)

lemma stopInFrontObstacles_keeps:
  "waypoint_type (stopInFrontObstacles s) = waypoint_type s"
  "reach_altitude (stopInFrontObstacles s) = reach_altitude s"
  "starting_height (stopInFrontObstacles s) = starting_height s"
  "position (stopInFrontObstacles s) = position s"
  "back_off (stopInFrontObstacles s) = back_off s"
  "back_off_point (stopInFrontObstacles s) = back_off_point s"
  "back_off_start_point (stopInFrontObstacles s) = back_off_start_point s"
  "stop_in_front (stopInFrontObstacles s) = stop_in_front s"
  "final_cloud (stopInFrontObstacles s) = final_cloud s"
  "closest_point (stopInFrontObstacles s) = closest_point s"
  "distance_to_closest_point (stopInFrontObstacles s) = distance_to_closest_point s"
  "counter_close_points_backoff (stopInFrontObstacles s) = counter_close_points_backoff s"
  "keep_distance (stopInFrontObstacles s) = keep_distance s"
  "use_VFH_star (stopInFrontObstacles s) = use_VFH_star s"
  "min_cloud_size (stopInFrontObstacles s) = min_cloud_size s"
  "candidate_vector (stopInFrontObstacles s) = candidate_vector s"
  "cost_matrix (stopInFrontObstacles s) = cost_matrix s"
  "costmap_direction_e (stopInFrontObstacles s) = costmap_direction_e s"
  "costmap_direction_z (stopInFrontObstacles s) = costmap_direction_z s"
  "send_obstacles_fcu (stopInFrontObstacles s) = send_obstacles_fcu s"
  "obstacle (stopInFrontObstacles s) = obstacle s"
  "use_back_off (stopInFrontObstacles s) = use_back_off s"
  "min_dist_backoff (stopInFrontObstacles s) = min_dist_backoff s"
  "take_off_pose (stopInFrontObstacles s) = take_off_pose s"
  "disable_rise_to_goal_altitude (stopInFrontObstacles s) = disable_rise_to_goal_altitude s"
  "hist_is_empty (stopInFrontObstacles s) = hist_is_empty s"
  by (simp_all add: stopInFrontObstacles_def Let_def)

lemma buildTree_keeps:
  "reach_altitude (buildTree ext s) = reach_altitude s"
  "starting_height (buildTree ext s) = starting_height s"
  "position (buildTree ext s) = position s"
  "goal (buildTree ext s) = goal s"
  "back_off (buildTree ext s) = back_off s"
  "back_off_point (buildTree ext s) = back_off_point s"
  "back_off_start_point (buildTree ext s) = back_off_start_point s"
  "stop_in_front (buildTree ext s) = stop_in_front s"
  "stop_in_front_active (buildTree ext s) = stop_in_front_active s"
  "first_brake (buildTree ext s) = first_brake s"
  "final_cloud (buildTree ext s) = final_cloud s"
  "closest_point (buildTree ext s) = closest_point s"
  "distance_to_closest_point (buildTree ext s) = distance_to_closest_point s"
  "counter_close_points_backoff (buildTree ext s) = counter_close_points_backoff s"
  "keep_distance (buildTree ext s) = keep_distance s"
  "use_VFH_star (buildTree ext s) = use_VFH_star s"
  "min_cloud_size (buildTree ext s) = min_cloud_size s"
  "candidate_vector (buildTree ext s) = candidate_vector s"
  "cost_matrix (buildTree ext s) = cost_matrix s"
  "costmap_direction_e (buildTree ext s) = costmap_direction_e s"
  "costmap_direction_z (buildTree ext s) = costmap_direction_z s"
  "send_obstacles_fcu (buildTree ext s) = send_obstacles_fcu s"
  "obstacle (buildTree ext s) = obstacle s"
  "use_back_off (buildTree ext s) = use_back_off s"
  "min_dist_backoff (buildTree ext s) = min_dist_backoff s"
  "take_off_pose (buildTree ext s) = take_off_pose s"
  "disable_rise_to_goal_altitude (buildTree ext s) = disable_rise_to_goal_altitude s"
  "hist_is_empty (buildTree ext s) = hist_is_empty s"
  by (simp_all add: buildTree_def Let_def)

lemma pickCandidate_keeps:
  "reach_altitude (pickCandidate ext s) = reach_altitude s"
  "starting_height (pickCandidate ext s) = starting_height s"
  "position (pickCandidate ext s) = position s"
  "back_off (pickCandidate ext s) = back_off s"
  "back_off_point (pickCandidate ext s) = back_off_point s"
  "back_off_start_point (pickCandidate ext s) = back_off_start_point s"
  "final_cloud (pickCandidate ext s) = final_cloud s"
  "closest_point (pickCandidate ext s) = closest_point s"
  "distance_to_closest_point (pickCandidate ext s) = distance_to_closest_point s"
  "counter_close_points_backoff (pickCandidate ext s) = counter_close_points_backoff s"
  "keep_distance (pickCandidate ext s) = keep_distance s"
  "use_VFH_star (pickCandidate ext s) = use_VFH_star s"
  "min_cloud_size (pickCandidate ext s) = min_cloud_size s"
  "cost_matrix (pickCandidate ext s) = cost_matrix s"
  "send_obstacles_fcu (pickCandidate ext s) = send_obstacles_fcu s"
  "obstacle (pickCandidate ext s) = obstacle s"
  "use_back_off (pickCandidate ext s) = use_back_off s"
  "min_dist_backoff (pickCandidate ext s) = min_dist_backoff s"
  "take_off_pose (pickCandidate ext s) = take_off_pose s"
  "disable_rise_to_goal_altitude (pickCandidate ext s) = disable_rise_to_goal_altitude s"
  "hist_is_empty (pickCandidate ext s) = hist_is_empty s"
  by (simp_all add: pickCandidate_def Let_def stopInFrontObstacles_keeps)

lemma planOnHistogram_keeps:
  "position (planOnHistogram ext s) = position s"
  "final_cloud (planOnHistogram ext s) = final_cloud s"
  "closest_point (planOnHistogram ext s) = closest_point s"
  "distance_to_closest_point (planOnHistogram ext s) = distance_to_closest_point s"
  "counter_close_points_backoff (planOnHistogram ext s) = counter_close_points_backoff s"
  "keep_distance (planOnHistogram ext s) = keep_distance s"
  "min_cloud_size (planOnHistogram ext s) = min_cloud_size s"
  "min_dist_backoff (planOnHistogram ext s) = min_dist_backoff s"
  "use_back_off (planOnHistogram ext s) = use_back_off s"
  "back_off (planOnHistogram ext s) = back_off s"
  "back_off_point (planOnHistogram ext s) = back_off_point s"
  "back_off_start_point (planOnHistogram ext s) = back_off_start_point s"
  "reach_altitude (planOnHistogram ext s) = reach_altitude s"
  "starting_height (planOnHistogram ext s) = starting_height s"
  "take_off_pose (planOnHistogram ext s) = take_off_pose s"
  "use_VFH_star (planOnHistogram ext s) = use_VFH_star s"
  by (simp_all add: planOnHistogram_def Let_def create2D_keeps evaluateProgressRate_keeps pickCandidate_keeps buildTree_keeps)

lemma determineStrategy_keeps:
  "position (determineStrategy ext s) = position s"
  "final_cloud (determineStrategy ext s) = final_cloud s"
  "closest_point (determineStrategy ext s) = closest_point s"
  "distance_to_closest_point (determineStrategy ext s) = distance_to_closest_point s"
  "counter_close_points_backoff (determineStrategy ext s) = counter_close_points_backoff s"
  "keep_distance (determineStrategy ext s) = keep_distance s"
  "min_cloud_size (determineStrategy ext s) = min_cloud_size s"
  "min_dist_backoff (determineStrategy ext s) = min_dist_backoff s"
  "use_back_off (determineStrategy ext s) = use_back_off s"
  "take_off_pose (determineStrategy ext s) = take_off_pose s"
  "use_VFH_star (determineStrategy ext s) = use_VFH_star s"
  by (simp_all add: determineStrategy_def Let_def create2D_keeps planOnHistogram_keeps stopInFrontObstacles_keeps)

text \<open>The first part of a tick, and the alternatives of \<open>determineStrategy\<close>.\<close>

lemma runPlanner_filter_sets:
  "stop_in_front_active (runPlanner_filter ext s) = False"
  "final_cloud (runPlanner_filter ext s) =
     fr_final_cloud (filterPointCloud ext (complete_cloud s) (min_cloud_size s) (min_dist_backoff s)
       (setBoxLimits ext (position s) (ground_distance s) (histogram_box s))
       (position s) (min_realsense_dist s))"
  "closest_point (runPlanner_filter ext s) =
     fr_closest_point (filterPointCloud ext (complete_cloud s) (min_cloud_size s) (min_dist_backoff s)
       (setBoxLimits ext (position s) (ground_distance s) (histogram_box s))
       (position s) (min_realsense_dist s))"
  "distance_to_closest_point (runPlanner_filter ext s) =
     fr_distance_to_closest_point (filterPointCloud ext (complete_cloud s) (min_cloud_size s)
       (min_dist_backoff s) (setBoxLimits ext (position s) (ground_distance s) (histogram_box s))
       (position s) (min_realsense_dist s))"
  "counter_close_points_backoff (runPlanner_filter ext s) =
     fr_counter_close_points_backoff (filterPointCloud ext (complete_cloud s) (min_cloud_size s)
       (min_dist_backoff s) (setBoxLimits ext (position s) (ground_distance s) (histogram_box s))
       (position s) (min_realsense_dist s))"
  by (simp_all add: runPlanner_filter_def Let_def)

lemma runPlanner_keeps:
  "position (runPlanner ext s) = position s"
  "keep_distance (runPlanner ext s) = keep_distance s"
  "min_cloud_size (runPlanner ext s) = min_cloud_size s"
  "min_dist_backoff (runPlanner ext s) = min_dist_backoff s"
  "final_cloud (runPlanner ext s) = final_cloud (runPlanner_filter ext s)"
  "closest_point (runPlanner ext s) = closest_point (runPlanner_filter ext s)"
  "distance_to_closest_point (runPlanner ext s) =
     distance_to_closest_point (runPlanner_filter ext s)"
  "counter_close_points_backoff (runPlanner ext s) =
     counter_close_points_backoff (runPlanner_filter ext s)"
  by (simp_all add: runPlanner_def determineStrategy_keeps runPlanner_filter_keeps)

lemma stopInFrontObstacles_cases:
  "first_brake s \<Longrightarrow> stopInFrontObstacles s =
     s\<lparr>goal := Vector3f
          (vx (position s) + \<bar>distance_to_closest_point s - keep_distance s\<bar>
             * (vx (goal s) - vx (position s))
             / norm2 (vx (goal s) - vx (position s), vy (goal s) - vy (position s)))
          (vy (position s) + \<bar>distance_to_closest_point s - keep_distance s\<bar>
             * (vy (goal s) - vy (position s))
             / norm2 (vx (goal s) - vx (position s), vy (goal s) - vy (position s)))
          (vz (goal s)),
       first_brake := False, stop_in_front_active := True\<rparr>"
  "\<not> first_brake s \<Longrightarrow> stopInFrontObstacles s = s"
  by (simp_all add: stopInFrontObstacles_def Let_def)

lemma determineStrategy_rise:
  assumes "\<not> reach_altitude s" and "\<not> disable_rise_to_goal_altitude s"
  shows "starting_height (determineStrategy ext s) =
           max (vz (goal s) - 0.5) (vz (take_off_pose s) + 1.0)"
    and "vz (position s) > max (vz (goal s) - 0.5) (vz (take_off_pose s) + 1.0) \<Longrightarrow>
           reach_altitude (determineStrategy ext s) \<and>
           waypoint_type (determineStrategy ext s) = direct"
    and "vz (position s) \<le> max (vz (goal s) - 0.5) (vz (take_off_pose s) + 1.0) \<Longrightarrow>
           \<not> reach_altitude (determineStrategy ext s) \<and>
           waypoint_type (determineStrategy ext s) = reachHeight"
    and "back_off (determineStrategy ext s) = back_off s"
  using assms by (auto simp add: determineStrategy_def Let_def create2D_keeps)

lemma determineStrategy_stop:
  assumes "reach_altitude s \<or> disable_rise_to_goal_altitude s"
    and "length (final_cloud s) > min_cloud_size s"
    and "stop_in_front s"
  shows "waypoint_type (determineStrategy ext s) = direct"
    and "obstacle (determineStrategy ext s)"
    and "goal (determineStrategy ext s) = goal (stopInFrontObstacles s)"
    and "stop_in_front_active (determineStrategy ext s) =
           (first_brake s \<or> stop_in_front_active s)"
    and "first_brake (determineStrategy ext s) = False"
    and "back_off (determineStrategy ext s) = back_off s"
  using assms
  by (auto simp add: determineStrategy_def Let_def create2D_keeps stopInFrontObstacles_keeps
      stopInFrontObstacles_def)

lemma determineStrategy_back_off:
  assumes "reach_altitude s \<or> disable_rise_to_goal_altitude s"
    and "\<not> (length (final_cloud s) > min_cloud_size s \<and> stop_in_front s)"
    and "use_back_off s"
  shows "back_off s \<Longrightarrow>
           waypoint_type (determineStrategy ext s) = goBack \<and>
           back_off_point (determineStrategy ext s) = back_off_point s \<and>
           back_off_start_point (determineStrategy ext s) = back_off_start_point s \<and>
           back_off (determineStrategy ext s) =
             (\<not> vnorm (vminus (position s) (back_off_point s)) > min_dist_backoff s + 1.0)"
    and "\<not> back_off s \<Longrightarrow> counter_close_points_backoff s > 200 \<Longrightarrow>
         length (final_cloud s) > min_cloud_size s \<Longrightarrow>
           waypoint_type (determineStrategy ext s) = goBack \<and>
           back_off (determineStrategy ext s) \<and>
           back_off_point (determineStrategy ext s) = closest_point s \<and>
           back_off_start_point (determineStrategy ext s) = position s"
  using assms by (auto simp add: determineStrategy_def Let_def create2D_keeps)

lemma determineStrategy_back_off_persists:
  assumes "back_off s"
    and "\<not> vnorm (vminus (position s) (back_off_point s)) > min_dist_backoff s + 1.0"
  shows "back_off (determineStrategy ext s)"
  using assms
  by (auto simp add: determineStrategy_def Let_def create2D_keeps planOnHistogram_keeps
      stopInFrontObstacles_keeps)

lemma determineStrategy_back_off_point:
  assumes "back_off s"
  shows "back_off_point (determineStrategy ext s) = back_off_point s"
  using assms
  by (auto simp add: determineStrategy_def Let_def create2D_keeps planOnHistogram_keeps
      stopInFrontObstacles_keeps)

lemma setGoal_keeps:
  "back_off (setGoal ext g s) = back_off s"
  "back_off_point (setGoal ext g s) = back_off_point s"
  "min_dist_backoff (setGoal ext g s) = min_dist_backoff s"
  "position (setGoal ext g s) = position s"
  by (simp_all add: setGoal_def applyGoal_def)

lemma setPose_keeps:
  "back_off (setPose ext pos q s) = back_off s"
  "back_off_point (setPose ext pos q s) = back_off_point s"
  "min_dist_backoff (setPose ext pos q s) = min_dist_backoff s"
  "position (setPose ext pos q s) = pos"
  by (simp_all add: setPose_def Let_def)

lemma updatePlannerInfo_keeps:
  "back_off (updatePlannerInfo ext inp s) = back_off s"
  "back_off_point (updatePlannerInfo ext inp s) = back_off_point s"
  "min_dist_backoff (updatePlannerInfo ext inp s) = min_dist_backoff s"
  "position (updatePlannerInfo ext inp s) = in_position inp"
  by (simp_all add: updatePlannerInfo_def Let_def setPose_keeps setGoal_keeps
      split: option.split)

lemma updatePlannerInfo_not_armed:
  assumes "\<not> currently_armed s" and "\<not> disable_rise_to_goal_altitude s"
  shows "\<not> reach_altitude (updatePlannerInfo ext inp s)"
    and "\<not> disable_rise_to_goal_altitude (updatePlannerInfo ext inp s)"
    and "take_off_pose (updatePlannerInfo ext inp s) = in_position inp"
    and "position (updatePlannerInfo ext inp s) = in_position inp"
  using assms
  by (simp_all add: updatePlannerInfo_def Let_def setPose_def setGoal_def applyGoal_def
      split: option.split)

lemma run_ticks_back_off:
  assumes "back_off s"
    and "\<forall>t \<in> set ts.
           \<not> vnorm (vminus (in_position (snd t)) (back_off_point s)) > min_dist_backoff s + 1.0"
  shows "back_off (run_ticks ts s) \<and> back_off_point (run_ticks ts s) = back_off_point s"
  using assms
proof (induction ts arbitrary: s)
  case Nil
  then show ?case by simp
next
  case (Cons t ts)
  let ?u = "updatePlannerInfo (fst t) (snd t) s"
  let ?s' = "runPlanner (fst t) ?u"
  have u: "back_off ?u" "back_off_point ?u = back_off_point s"
    "min_dist_backoff ?u = min_dist_backoff s" "position ?u = in_position (snd t)"
    using Cons.prems(1) by (simp_all add: updatePlannerInfo_keeps)
  let ?p = "runPlanner_filter (fst t) ?u"
  have p: "back_off ?p" "back_off_point ?p = back_off_point s"
    "min_dist_backoff ?p = min_dist_backoff s" "position ?p = in_position (snd t)"
    using u by (simp_all add: runPlanner_filter_keeps)
  from Cons.prems(2)
  have near: "\<not> vnorm (vminus (position ?p) (back_off_point ?p)) > min_dist_backoff ?p + 1.0"
    unfolding p by simp
  have 1: "back_off ?s'"
    unfolding runPlanner_def by (rule determineStrategy_back_off_persists [OF p(1) near])
  have 2: "back_off_point ?s' = back_off_point s"
    unfolding runPlanner_def using determineStrategy_back_off_point [OF p(1)] p(2) by simp
  have 3: "min_dist_backoff ?s' = min_dist_backoff s"
    using u(3) by (simp add: runPlanner_keeps)
  have "\<forall>t \<in> set ts.
      \<not> vnorm (vminus (in_position (snd t)) (back_off_point ?s')) > min_dist_backoff ?s' + 1.0"
    using Cons.prems(2) unfolding 2 3 by simp
  from Cons.IH [OF 1 this] 2 show ?case by simp
qed

lemma sqrt_81: "sqrt 81 = 9"
  by (rule real_sqrt_unique) simp_all

lemma sqrt_45_bounds: "3 < sqrt 45" "sqrt 45 < 8"
proof -
  have "sqrt 9 < sqrt 45" by (rule real_sqrt_less_mono) simp
  then show "3 < sqrt 45" by (simp only: sqrt_9)
  have "sqrt 45 < sqrt 64" by (rule real_sqrt_less_mono) simp
  moreover have "sqrt 64 = 8" by (rule real_sqrt_unique) simp_all
  ultimately show "sqrt 45 < 8" by (simp only:)
qed

lemma vnorm_x: "vnorm (vminus (Vector3f a b c) (Vector3f x b c)) = \<bar>a - x\<bar>"
proof -
  have "sqrt ((a - x) * (a - x)) = \<bar>a - x\<bar>"
    by (simp add: power2_eq_square [symmetric])
  then show ?thesis by (simp add: vnorm_def vminus_def)
qed

text \<open>
  The goal that \<open>stopInFrontObstacles\<close> writes on the first braking, where the closest
  point is not nearer than \<open>keep_distance\<close> and the goal is not straight above or below
  the vehicle.
\<close>

lemma stopInFrontObstacles_goal:
  assumes "first_brake s"
  shows "vz (goal (stopInFrontObstacles s)) = vz (goal s)"
    and "norm2 (vx (goal s) - vx (position s), vy (goal s) - vy (position s)) \<noteq> 0 \<Longrightarrow>
         keep_distance s \<le> distance_to_closest_point s \<Longrightarrow>
         vx (goal (stopInFrontObstacles s)) =
           vx (position s) + (distance_to_closest_point s - keep_distance s)
             * (vx (goal s) - vx (position s))
             / norm2 (vx (goal s) - vx (position s), vy (goal s) - vy (position s)) \<and>
         vy (goal (stopInFrontObstacles s)) =
           vy (position s) + (distance_to_closest_point s - keep_distance s)
             * (vy (goal s) - vy (position s))
             / norm2 (vx (goal s) - vx (position s), vy (goal s) - vy (position s)) \<and>
         norm2 (vx (goal (stopInFrontObstacles s)) - vx (position s),
                vy (goal (stopInFrontObstacles s)) - vy (position s))
           = distance_to_closest_point s - keep_distance s"
proof -
  note g = stopInFrontObstacles_cases(1) [OF assms]
  show "vz (goal (stopInFrontObstacles s)) = vz (goal s)"
    unfolding g by simp
  assume n: "norm2 (vx (goal s) - vx (position s), vy (goal s) - vy (position s)) \<noteq> 0"
    and k: "keep_distance s \<le> distance_to_closest_point s"
  from k have b: "\<bar>distance_to_closest_point s - keep_distance s\<bar> =
      distance_to_closest_point s - keep_distance s"
    by simp
  from norm2_scaled [OF n, of "distance_to_closest_point s - keep_distance s"] b
  show "vx (goal (stopInFrontObstacles s)) =
           vx (position s) + (distance_to_closest_point s - keep_distance s)
             * (vx (goal s) - vx (position s))
             / norm2 (vx (goal s) - vx (position s), vy (goal s) - vy (position s)) \<and>
         vy (goal (stopInFrontObstacles s)) =
           vy (position s) + (distance_to_closest_point s - keep_distance s)
             * (vy (goal s) - vy (position s))
             / norm2 (vx (goal s) - vx (position s), vy (goal s) - vy (position s)) \<and>
         norm2 (vx (goal (stopInFrontObstacles s)) - vx (position s),
                vy (goal (stopInFrontObstacles s)) - vy (position s))
           = distance_to_closest_point s - keep_distance s"
    unfolding g by simp
qed

section \<open>Goal changes\<close>

text \<open>
  C10. After \<open>setGoal\<close> the stored goal is the argument, the tree planner has been given
  that goal through its own \<open>setGoal\<close>, and the window of goal-distance inclines is
  empty. The same holds after \<open>dynamicReconfigureSetParams\<close> when \<open>goal_z_param\<close>
  differs from the altitude of the current goal: the goal keeps its horizontal
  coordinates, takes the new altitude, is handed to the tree planner (before the tree
  planner's own reconfiguration), and the window is empty.
\<close>

theorem setGoal_resets:
  "goal (setGoal ext g s) = g \<and>
   star_planner (setGoal ext g s) = star_setGoal ext g (star_planner s) \<and>
   goal_dist_incline (setGoal ext g s) = [] \<and>
   (vz (goal s) \<noteq> cfg_goal_z_param config \<longrightarrow>
      goal (dynamicReconfigureSetParams ext config level s) =
        Vector3f (vx (goal s)) (vy (goal s)) (cfg_goal_z_param config) \<and>
      star_planner (dynamicReconfigureSetParams ext config level s) =
        star_dynamicReconfigureSetStarParams ext config level
          (star_setGoal ext (Vector3f (vx (goal s)) (vy (goal s)) (cfg_goal_z_param config))
             (star_planner s)) \<and>
      goal_dist_incline (dynamicReconfigureSetParams ext config level s) = [])"
  by (simp add: setGoal_def applyGoal_def dynamicReconfigureSetParams_def getGoal_def Let_def)

theorem setGoal_resets_witness:
  "goal_dist_incline (lp0\<lparr>goal_dist_incline := [1, 2]\<rparr>) = [1, 2] \<and>
   goal (setGoal ext0 (Vector3f 1 2 3) (lp0\<lparr>goal_dist_incline := [1, 2]\<rparr>)) = Vector3f 1 2 3 \<and>
   goal_dist_incline (setGoal ext0 (Vector3f 1 2 3) (lp0\<lparr>goal_dist_incline := [1, 2]\<rparr>)) = [] \<and>
   vz (goal (lp0\<lparr>goal_dist_incline := [1, 2]\<rparr>)) \<noteq> cfg_goal_z_param cfg0 \<and>
   goal (dynamicReconfigureSetParams ext0 cfg0 0 (lp0\<lparr>goal_dist_incline := [1, 2]\<rparr>)) =
     Vector3f 10 0 7 \<and>
   goal_dist_incline (dynamicReconfigureSetParams ext0 cfg0 0 (lp0\<lparr>goal_dist_incline := [1, 2]\<rparr>)) = []"
  using setGoal_resets [of ext0 "Vector3f 1 2 3" "lp0\<lparr>goal_dist_incline := [1, 2]\<rparr>" cfg0 0]
  by (simp add: lp0_def cfg0_def)

section \<open>Failsafe\<close>

text \<open>
  C8, as the spec states it, fails: with both durations above \<open>timeout_critical\<close> but
  no position received yet, \<open>checkFailsafe\<close> neither requests hover nor touches the
  status.
\<close>

theorem checkFailsafe_counterexample:
  "1 > timeout_critical lp0 \<and>
   hover_request (checkFailsafe lp0 1 1 f0) = False \<and>
   status_msg_state (checkFailsafe lp0 1 1 f0) = MAV_STATE_ACTIVE"
  by (simp add: checkFailsafe_def Let_def lp0_def f0_def)

text \<open>
  C8, amended. When both durations exceed \<open>timeout_termination\<close>, a healthy planner
  is marked unhealthy and the status becomes flight termination (hover is not
  requested); an already unhealthy one is left as it is. Otherwise, when both durations
  exceed \<open>timeout_critical\<close>, hover is requested and the status becomes critical if a
  position has been received, and nothing changes if none has.
\<close>

theorem checkFailsafe_cases:
  "(since_last_cloud > timeout_termination lp \<and> since_start > timeout_termination lp \<longrightarrow>
      (planner_is_healthy f \<longrightarrow>
         checkFailsafe lp since_last_cloud since_start f =
           f\<lparr>planner_is_healthy := False, status_msg_state := MAV_STATE_FLIGHT_TERMINATION\<rparr>) \<and>
      (\<not> planner_is_healthy f \<longrightarrow> checkFailsafe lp since_last_cloud since_start f = f)) \<and>
   (\<not> (since_last_cloud > timeout_termination lp \<and> since_start > timeout_termination lp) \<and>
    since_last_cloud > timeout_critical lp \<and> since_start > timeout_critical lp \<longrightarrow>
      (position_received f \<longrightarrow>
         checkFailsafe lp since_last_cloud since_start f =
           f\<lparr>hover_request := True, status_msg_state := MAV_STATE_CRITICAL\<rparr>) \<and>
      (\<not> position_received f \<longrightarrow> checkFailsafe lp since_last_cloud since_start f = f))"
  by (simp add: checkFailsafe_def Let_def)

theorem checkFailsafe_cases_witness:
  "1 > timeout_critical lp0 \<and> \<not> 1 > timeout_termination lp0 \<and>
   position_received (f0\<lparr>position_received := True\<rparr>) \<and>
   hover_request (checkFailsafe lp0 1 1 (f0\<lparr>position_received := True\<rparr>)) \<and>
   status_msg_state (checkFailsafe lp0 1 1 (f0\<lparr>position_received := True\<rparr>)) = MAV_STATE_CRITICAL \<and>
   20 > timeout_termination lp0 \<and>
   planner_is_healthy (f0\<lparr>position_received := True\<rparr>) \<and>
   status_msg_state (checkFailsafe lp0 20 20 (f0\<lparr>position_received := True\<rparr>)) =
     MAV_STATE_FLIGHT_TERMINATION \<and>
   \<not> hover_request (checkFailsafe lp0 20 20 (f0\<lparr>position_received := True\<rparr>))"
  using checkFailsafe_cases [where lp = lp0 and since_last_cloud = 1 and since_start = 1
      and f = "f0\<lparr>position_received := True\<rparr>"]
    checkFailsafe_cases [where lp = lp0 and since_last_cloud = 20 and since_start = 20
      and f = "f0\<lparr>position_received := True\<rparr>"]
  by (simp add: lp0_def f0_def)

section \<open>Shutdown of the worker thread\<close>

text \<open>
  C9. The predicate of the wait is \<open>data_ready_ && !should_exit_\<close>, which is false
  once the shutdown flag is set. A worker that is waiting when the flag is set therefore
  stays in the wait at every later wakeup, whatever the other threads do: it never
  reaches the test \<open>if (should_exit_) break\<close> and never returns.
\<close>

theorem waiting_worker_ignores_shutdown:
  "pc w = Waiting \<Longrightarrow> should_exit w \<Longrightarrow>
   pc (run_events ext es w) = Waiting \<and> should_exit (run_events ext es w)"
proof (induction es arbitrary: w)
  case Nil
  then show ?case by simp
next
  case (Cons e es)
  from run_event_waiting [OF Cons.prems, of ext e]
  have "pc (run_event ext e w) = Waiting" and "should_exit (run_event ext e w)"
    by simp_all
  then show ?case using Cons.IH by simp
qed

theorem waiting_worker_ignores_shutdown_witness:
  "pc (run_event ext0 Shutdown w0) = Waiting \<and> should_exit (run_event ext0 Shutdown w0) \<and>
   pc (run_events ext0 [Shutdown, WorkerStep, DataReady, WorkerStep, WorkerStep] w0) = Waiting"
  using waiting_worker_ignores_shutdown
    [of "run_event ext0 Shutdown w0" ext0 "[WorkerStep, DataReady, WorkerStep, WorkerStep]"]
  by (simp add: w0_def)

section \<open>Reaching the starting height\<close>

text \<open>
  C3, as the spec states it, fails on the tick that ends the phase: the planner enters
  the tick with \<open>reach_altitude\<close> false and rise-to-altitude enabled, its height 5 m is
  above the starting height 4.5 m, and the waypoint type of that tick is \<open>direct\<close>, not
  \<open>reachHeight\<close>.
\<close>

theorem reach_height_counterexample:
  "\<not> reach_altitude lp_rise \<and> \<not> disable_rise_to_goal_altitude lp_rise \<and>
   starting_height (runPlanner ext0 lp_rise) = 4.5 \<and>
   waypoint_type (runPlanner ext0 lp_rise) = direct"
proof -
  have a: "\<not> reach_altitude (runPlanner_filter ext0 lp_rise)"
    and b: "\<not> disable_rise_to_goal_altitude (runPlanner_filter ext0 lp_rise)"
    by (simp_all add: runPlanner_filter_keeps lp_rise_def lp0_def)
  have c: "max (vz (goal (runPlanner_filter ext0 lp_rise)) - 0.5)
             (vz (take_off_pose (runPlanner_filter ext0 lp_rise)) + 1.0) = 4.5"
    by (simp add: runPlanner_filter_keeps lp_rise_def lp0_def)
  have d: "vz (position (runPlanner_filter ext0 lp_rise)) = 5"
    by (simp add: runPlanner_filter_keeps lp_rise_def lp0_def)
  from determineStrategy_rise(1) [OF a b, of ext0] determineStrategy_rise(2) [OF a b, of ext0]
  show ?thesis
    unfolding c d runPlanner_def by (simp add: lp_rise_def lp0_def)
qed

text \<open>
  C3, amended. A \<open>setPose\<close> while the vehicle is not armed and rise-to-altitude is
  enabled records the new position as \<open>take_off_pose\<close> and clears \<open>reach_altitude\<close>.
  A \<open>runPlanner\<close> tick entered with \<open>reach_altitude\<close> false (rise-to-altitude enabled)
  sets \<open>starting_height\<close> to \<open>max(goal.z - 0.5, take_off_pose.z + 1.0)\<close>; while the
  height of the vehicle is not above it, \<open>reach_altitude\<close> stays false and the waypoint
  type is \<open>reachHeight\<close>; on the tick that finds the vehicle above it, \<open>reach_altitude\<close>
  becomes true and the waypoint type of that tick is \<open>direct\<close>. A whole tick (the
  node's \<open>updatePlannerInfo\<close>, then \<open>runPlanner\<close>) of a planner that is not armed,
  with rise-to-altitude enabled, records the new position as \<open>take_off_pose\<close> and
  emits \<open>reachHeight\<close>.
\<close>

theorem reach_height_phase:
  "(\<not> currently_armed s \<and> \<not> disable_rise_to_goal_altitude s \<longrightarrow>
      position (setPose ext pos q s) = pos \<and>
      take_off_pose (setPose ext pos q s) = pos \<and>
      \<not> reach_altitude (setPose ext pos q s)) \<and>
   (\<not> reach_altitude s \<and> \<not> disable_rise_to_goal_altitude s \<longrightarrow>
      starting_height (runPlanner ext s) = max (vz (goal s) - 0.5) (vz (take_off_pose s) + 1.0) \<and>
      (vz (position s) > max (vz (goal s) - 0.5) (vz (take_off_pose s) + 1.0) \<longrightarrow>
         reach_altitude (runPlanner ext s) \<and> waypoint_type (runPlanner ext s) = direct) \<and>
      (vz (position s) \<le> max (vz (goal s) - 0.5) (vz (take_off_pose s) + 1.0) \<longrightarrow>
         \<not> reach_altitude (runPlanner ext s) \<and> waypoint_type (runPlanner ext s) = reachHeight)) \<and>
   (\<not> currently_armed s \<and> \<not> disable_rise_to_goal_altitude s \<longrightarrow>
      take_off_pose (runPlanner ext (updatePlannerInfo ext inp s)) = in_position inp \<and>
      \<not> reach_altitude (runPlanner ext (updatePlannerInfo ext inp s)) \<and>
      waypoint_type (runPlanner ext (updatePlannerInfo ext inp s)) = reachHeight)"
proof -
  let ?p = "runPlanner_filter ext s"
  have ground: "take_off_pose (runPlanner ext (updatePlannerInfo ext inp s)) = in_position inp \<and>
      \<not> reach_altitude (runPlanner ext (updatePlannerInfo ext inp s)) \<and>
      waypoint_type (runPlanner ext (updatePlannerInfo ext inp s)) = reachHeight"
    if na: "\<not> currently_armed s" and d: "\<not> disable_rise_to_goal_altitude s"
  proof -
    let ?u = "updatePlannerInfo ext inp s"
    let ?q = "runPlanner_filter ext ?u"
    note u = updatePlannerInfo_not_armed [OF na d, of ext inp]
    have a: "\<not> reach_altitude ?q" and b: "\<not> disable_rise_to_goal_altitude ?q"
      and c: "take_off_pose ?q = in_position inp" "position ?q = in_position inp"
      using u by (simp_all add: runPlanner_filter_keeps)
    have low: "vz (position ?q) \<le> max (vz (goal ?q) - 0.5) (vz (take_off_pose ?q) + 1.0)"
      unfolding c by simp
    from determineStrategy_rise(3) [OF a b low, of ext] c(1)
    show ?thesis
      by (simp add: runPlanner_def determineStrategy_keeps)
  qed
  have pose: "\<not> currently_armed s \<and> \<not> disable_rise_to_goal_altitude s \<longrightarrow>
      position (setPose ext pos q s) = pos \<and>
      take_off_pose (setPose ext pos q s) = pos \<and>
      \<not> reach_altitude (setPose ext pos q s)"
    by (simp add: setPose_def Let_def)
  have tick: "starting_height (runPlanner ext s) =
        max (vz (goal s) - 0.5) (vz (take_off_pose s) + 1.0) \<and>
      (vz (position s) > max (vz (goal s) - 0.5) (vz (take_off_pose s) + 1.0) \<longrightarrow>
         reach_altitude (runPlanner ext s) \<and> waypoint_type (runPlanner ext s) = direct) \<and>
      (vz (position s) \<le> max (vz (goal s) - 0.5) (vz (take_off_pose s) + 1.0) \<longrightarrow>
         \<not> reach_altitude (runPlanner ext s) \<and> waypoint_type (runPlanner ext s) = reachHeight)"
    if r: "\<not> reach_altitude s" and d: "\<not> disable_rise_to_goal_altitude s"
  proof -
    have a: "\<not> reach_altitude ?p" and b: "\<not> disable_rise_to_goal_altitude ?p"
      using r d by (simp_all add: runPlanner_filter_keeps)
    from determineStrategy_rise(1) [OF a b, of ext] determineStrategy_rise(2) [OF a b, of ext]
      determineStrategy_rise(3) [OF a b, of ext]
    show ?thesis
      by (simp add: runPlanner_def runPlanner_filter_keeps)
  qed
  from pose tick ground show ?thesis by blast
qed

theorem reach_height_phase_witness:
  "\<not> currently_armed lp_ground \<and> \<not> disable_rise_to_goal_altitude lp_ground \<and>
   take_off_pose (setPose ext0 (Vector3f 0 0 0.2) q0 lp_ground) = Vector3f 0 0 0.2 \<and>
   \<not> reach_altitude (setPose ext0 (Vector3f 0 0 0.2) q0 lp_ground) \<and>
   starting_height (runPlanner ext0 (setPose ext0 (Vector3f 0 0 0.2) q0 lp_ground)) = 4.5 \<and>
   \<not> reach_altitude (runPlanner ext0 (setPose ext0 (Vector3f 0 0 0.2) q0 lp_ground)) \<and>
   waypoint_type (runPlanner ext0 (setPose ext0 (Vector3f 0 0 0.2) q0 lp_ground)) = reachHeight \<and>
   in_position info0 = Vector3f 0 0 5 \<and>
   take_off_pose (runPlanner ext0 (updatePlannerInfo ext0 info0 lp_ground)) = Vector3f 0 0 5 \<and>
   waypoint_type (runPlanner ext0 (updatePlannerInfo ext0 info0 lp_ground)) = reachHeight"
proof -
  let ?s = "setPose ext0 (Vector3f 0 0 0.2) q0 lp_ground"
  have g: "\<not> currently_armed lp_ground \<and> \<not> disable_rise_to_goal_altitude lp_ground"
    by (simp add: lp_ground_def lp0_def)
  have s: "\<not> reach_altitude ?s" "\<not> disable_rise_to_goal_altitude ?s"
    "vz (goal ?s) = 5" "vz (take_off_pose ?s) = 0.2" "vz (position ?s) = 0.2"
    by (simp_all add: setPose_def Let_def lp_ground_def lp0_def)
  have i: "in_position info0 = Vector3f 0 0 5"
    by (simp add: info0_def)
  from reach_height_phase [of lp_ground ext0 "Vector3f 0 0 0.2" q0 info0] g i
  have 1: "take_off_pose ?s = Vector3f 0 0 0.2 \<and> \<not> reach_altitude ?s \<and>
      take_off_pose (runPlanner ext0 (updatePlannerInfo ext0 info0 lp_ground)) = Vector3f 0 0 5 \<and>
      waypoint_type (runPlanner ext0 (updatePlannerInfo ext0 info0 lp_ground)) = reachHeight"
    by simp
  from reach_height_phase [of ?s ext0 "Vector3f 0 0 0.2" q0 info0] s
  have 2: "starting_height (runPlanner ext0 ?s) = 4.5 \<and>
      \<not> reach_altitude (runPlanner ext0 ?s) \<and> waypoint_type (runPlanner ext0 ?s) = reachHeight"
    by simp
  from g i 1 2 show ?thesis by simp
qed

section \<open>Stopping in front of an obstacle\<close>

text \<open>
  C1, as the spec states it, fails: a planner that has braked before (\<open>first_brake_\<close>
  false, as on the second of two consecutive such ticks) keeps its goal, although the
  braking point 1 m ahead differs from it, and ends the tick with
  \<open>stop_in_front_active\<close> false.
\<close>

theorem stop_in_front_counterexample:
  "reach_altitude lp_braked \<and> stop_in_front lp_braked \<and>
   length (final_cloud (runPlanner ext0 lp_braked)) > min_cloud_size lp_braked \<and>
   stop_in_front_active (runPlanner ext0 lp_braked) = False \<and>
   goal (runPlanner ext0 lp_braked) = Vector3f 10 0 5 \<and>
   position lp_braked = Vector3f 0 0 5 \<and>
   distance_to_closest_point (runPlanner ext0 lp_braked) - keep_distance lp_braked = 1"
proof -
  let ?p = "runPlanner_filter ext0 lp_braked"
  have p: "reach_altitude ?p \<or> disable_rise_to_goal_altitude ?p"
    "length (final_cloud ?p) > min_cloud_size ?p" "stop_in_front ?p" "\<not> first_brake ?p"
    "\<not> stop_in_front_active ?p" "goal ?p = Vector3f 10 0 5"
    "distance_to_closest_point ?p = 3"
    by (simp_all add: runPlanner_filter_keeps runPlanner_filter_sets lp_braked_def lp0_def
        ext0_def fr0_def)
  have 1: "stop_in_front_active (runPlanner ext0 lp_braked) = False"
    "goal (runPlanner ext0 lp_braked) = Vector3f 10 0 5"
    using determineStrategy_stop(3,4) [OF p(1,2,3), of ext0] p(4,5,6)
    by (simp_all add: runPlanner_def stopInFrontObstacles_cases)
  have 3: "length (final_cloud (runPlanner ext0 lp_braked)) > min_cloud_size lp_braked"
    "distance_to_closest_point (runPlanner ext0 lp_braked) - keep_distance lp_braked = 1"
    by (simp_all add: runPlanner_keeps runPlanner_filter_sets lp_braked_def lp0_def
        ext0_def fr0_def)
  have 4: "reach_altitude lp_braked" "stop_in_front lp_braked" "position lp_braked = Vector3f 0 0 5"
    by (simp_all add: lp_braked_def lp0_def)
  from 1 3 4 show ?thesis by simp
qed

text \<open>
  C1, amended. On a tick past the reach-altitude phase whose filtered cloud has more
  than \<open>min_cloud_size\<close> points, with \<open>stop_in_front\<close> enabled, \<open>runPlanner\<close> sets the
  waypoint type to \<open>direct\<close>. If \<open>first_brake\<close> is set, it latches
  \<open>stop_in_front_active\<close> and keeps the altitude of the goal; if moreover the goal is
  not straight above or below the vehicle and the closest point is not nearer than
  \<open>keep_distance\<close>, the horizontal coordinates of the goal are replaced by the point at
  distance \<open>distance_to_closest - keep_distance\<close> from the horizontal position, in the
  horizontal direction of the original goal. If \<open>first_brake\<close> is not set (the planner
  has braked already), the goal is kept and \<open>stop_in_front_active\<close> is false after the
  tick. Nothing is said for a closest point nearer than \<open>keep_distance\<close> or a goal
  straight above or below the vehicle.
\<close>

theorem stop_in_front_tick:
  assumes "reach_altitude s \<or> disable_rise_to_goal_altitude s"
    and "length (final_cloud (runPlanner ext s)) > min_cloud_size s"
    and "stop_in_front s"
  shows "waypoint_type (runPlanner ext s) = direct \<and>
    (first_brake s \<longrightarrow>
       stop_in_front_active (runPlanner ext s) \<and>
       vz (goal (runPlanner ext s)) = vz (goal s) \<and>
       (norm2 (vx (goal s) - vx (position s), vy (goal s) - vy (position s)) \<noteq> 0 \<and>
        keep_distance s \<le> distance_to_closest_point (runPlanner ext s) \<longrightarrow>
          vx (goal (runPlanner ext s)) =
            vx (position s) + (distance_to_closest_point (runPlanner ext s) - keep_distance s)
              * (vx (goal s) - vx (position s))
              / norm2 (vx (goal s) - vx (position s), vy (goal s) - vy (position s)) \<and>
          vy (goal (runPlanner ext s)) =
            vy (position s) + (distance_to_closest_point (runPlanner ext s) - keep_distance s)
              * (vy (goal s) - vy (position s))
              / norm2 (vx (goal s) - vx (position s), vy (goal s) - vy (position s)) \<and>
          norm2 (vx (goal (runPlanner ext s)) - vx (position s),
                 vy (goal (runPlanner ext s)) - vy (position s))
            = distance_to_closest_point (runPlanner ext s) - keep_distance s)) \<and>
    (\<not> first_brake s \<longrightarrow>
       \<not> stop_in_front_active (runPlanner ext s) \<and> goal (runPlanner ext s) = goal s)"
proof -
  let ?p = "runPlanner_filter ext s"
  have p: "reach_altitude ?p \<or> disable_rise_to_goal_altitude ?p"
    "length (final_cloud ?p) > min_cloud_size ?p" "stop_in_front ?p"
    using assms by (simp_all add: runPlanner_filter_keeps runPlanner_keeps)
  have same: "first_brake ?p = first_brake s" "goal ?p = goal s" "position ?p = position s"
    "keep_distance ?p = keep_distance s" "\<not> stop_in_front_active ?p"
    "distance_to_closest_point ?p = distance_to_closest_point (runPlanner ext s)"
    by (simp_all add: runPlanner_filter_keeps runPlanner_filter_sets runPlanner_keeps)
  have wp: "waypoint_type (runPlanner ext s) = direct"
    using determineStrategy_stop(1) [OF p, of ext] by (simp add: runPlanner_def)
  have g: "goal (runPlanner ext s) = goal (stopInFrontObstacles ?p)"
    and a: "stop_in_front_active (runPlanner ext s) = first_brake s"
    using determineStrategy_stop(3,4) [OF p, of ext] same by (simp_all add: runPlanner_def)
  have braked: "goal (runPlanner ext s) = goal s" if "\<not> first_brake s"
    using that g same by (simp add: stopInFrontObstacles_cases)
  have alt: "vz (goal (runPlanner ext s)) = vz (goal s)" if "first_brake s"
  proof -
    from that same have "first_brake ?p" by simp
    from stopInFrontObstacles_goal(1) [OF this] show ?thesis
      unfolding g same by simp
  qed
  have point: "vx (goal (runPlanner ext s)) =
            vx (position s) + (distance_to_closest_point (runPlanner ext s) - keep_distance s)
              * (vx (goal s) - vx (position s))
              / norm2 (vx (goal s) - vx (position s), vy (goal s) - vy (position s)) \<and>
          vy (goal (runPlanner ext s)) =
            vy (position s) + (distance_to_closest_point (runPlanner ext s) - keep_distance s)
              * (vy (goal s) - vy (position s))
              / norm2 (vx (goal s) - vx (position s), vy (goal s) - vy (position s)) \<and>
          norm2 (vx (goal (runPlanner ext s)) - vx (position s),
                 vy (goal (runPlanner ext s)) - vy (position s))
            = distance_to_closest_point (runPlanner ext s) - keep_distance s"
    if f: "first_brake s"
      and n: "norm2 (vx (goal s) - vx (position s), vy (goal s) - vy (position s)) \<noteq> 0"
      and k: "keep_distance s \<le> distance_to_closest_point (runPlanner ext s)"
  proof -
    from f same have f': "first_brake ?p" by simp
    from n have n': "norm2 (vx (goal ?p) - vx (position ?p), vy (goal ?p) - vy (position ?p)) \<noteq> 0"
      unfolding same .
    from k have k': "keep_distance ?p \<le> distance_to_closest_point ?p"
      unfolding same .
    from stopInFrontObstacles_goal(2) [OF f' n' k'] show ?thesis
      unfolding g same .
  qed
  from wp a braked alt point show ?thesis by blast
qed

theorem stop_in_front_tick_witness:
  "reach_altitude lp0 \<and> stop_in_front lp0 \<and> first_brake lp0 \<and>
   length (final_cloud (runPlanner ext0 lp0)) > min_cloud_size lp0 \<and>
   distance_to_closest_point (runPlanner ext0 lp0) = 3 \<and> keep_distance lp0 = 2 \<and>
   position lp0 = Vector3f 0 0 5 \<and> goal lp0 = Vector3f 10 0 5 \<and>
   norm2 (vx (goal lp0) - vx (position lp0), vy (goal lp0) - vy (position lp0)) = 10 \<and>
   waypoint_type (runPlanner ext0 lp0) = direct \<and>
   stop_in_front_active (runPlanner ext0 lp0) \<and>
   vx (goal (runPlanner ext0 lp0)) = 1 \<and>
   vy (goal (runPlanner ext0 lp0)) = 0 \<and>
   vz (goal (runPlanner ext0 lp0)) = 5 \<and>
   \<not> first_brake lp_braked \<and> reach_altitude lp_braked \<and> stop_in_front lp_braked \<and>
   length (final_cloud (runPlanner ext0 lp_braked)) > min_cloud_size lp_braked \<and>
   waypoint_type (runPlanner ext0 lp_braked) = direct \<and>
   \<not> stop_in_front_active (runPlanner ext0 lp_braked) \<and>
   goal (runPlanner ext0 lp_braked) = Vector3f 10 0 5"
proof -
  have h: "reach_altitude lp0" "stop_in_front lp0" "first_brake lp0" "keep_distance lp0 = 2"
    "position lp0 = Vector3f 0 0 5" "goal lp0 = Vector3f 10 0 5"
    by (simp_all add: lp0_def)
  have n: "norm2 (vx (goal lp0) - vx (position lp0), vy (goal lp0) - vy (position lp0)) = 10"
    by (simp add: lp0_def norm2_def sqrt_100)
  have f: "length (final_cloud (runPlanner ext0 lp0)) > min_cloud_size lp0"
    "distance_to_closest_point (runPlanner ext0 lp0) = 3"
    by (simp_all add: runPlanner_keeps runPlanner_filter_sets lp0_def ext0_def fr0_def)
  have b: "\<not> first_brake lp_braked" "reach_altitude lp_braked" "stop_in_front lp_braked"
    "goal lp_braked = Vector3f 10 0 5"
    "length (final_cloud (runPlanner ext0 lp_braked)) > min_cloud_size lp_braked"
    by (simp_all add: runPlanner_keeps runPlanner_filter_sets lp_braked_def lp0_def ext0_def
        fr0_def)
  from stop_in_front_tick [of lp0 ext0] h f
  have "waypoint_type (runPlanner ext0 lp0) = direct \<and>
    stop_in_front_active (runPlanner ext0 lp0) \<and>
    vx (goal (runPlanner ext0 lp0)) = 1 \<and>
    vy (goal (runPlanner ext0 lp0)) = 0 \<and>
    vz (goal (runPlanner ext0 lp0)) = 5"
    by (simp add: norm2_def sqrt_100)
  moreover from stop_in_front_tick [of lp_braked ext0] b
  have "waypoint_type (runPlanner ext0 lp_braked) = direct \<and>
    \<not> stop_in_front_active (runPlanner ext0 lp_braked) \<and>
    goal (runPlanner ext0 lp_braked) = Vector3f 10 0 5"
    by simp
  ultimately show ?thesis using h n f b by simp
qed

section \<open>Backing off\<close>

text \<open>
  C2, as the spec states it, fails: with the back-off state set and \<open>use_back_off\<close>
  enabled, a tick on which stop-in-front takes precedence emits \<open>direct\<close>, not
  \<open>goBack\<close> (the back-off state itself stays set).
\<close>

theorem back_off_counterexample:
  "back_off lp_backing_stop \<and> use_back_off lp_backing_stop \<and>
   reach_altitude lp_backing_stop \<and>
   waypoint_type (runPlanner ext0 lp_backing_stop) = direct \<and>
   back_off (runPlanner ext0 lp_backing_stop)"
proof -
  let ?p = "runPlanner_filter ext0 lp_backing_stop"
  have p: "reach_altitude ?p \<or> disable_rise_to_goal_altitude ?p"
    "length (final_cloud ?p) > min_cloud_size ?p" "stop_in_front ?p" "back_off ?p"
    by (simp_all add: runPlanner_filter_keeps runPlanner_filter_sets lp_backing_stop_def lp0_def
        ext0_def fr0_def)
  have 1: "waypoint_type (runPlanner ext0 lp_backing_stop) = direct"
    "back_off (runPlanner ext0 lp_backing_stop)"
    using determineStrategy_stop(1,6) [OF p(1,2,3), of ext0] p(4)
    by (simp_all add: runPlanner_def)
  have 2: "back_off lp_backing_stop" "use_back_off lp_backing_stop"
    "reach_altitude lp_backing_stop"
    by (simp_all add: lp_backing_stop_def lp0_def)
  from 1 2 show ?thesis by simp
qed

text \<open>
  C2, amended. The back-off state is cleared by no tick on which
  \<open>\<parallel>position - back_off_point\<parallel> > min_dist_backoff + 1.0\<close> fails: over any run of
  ticks whose positions all stay within that distance, the state stays set and
  \<open>back_off_point\<close> stays the same. On a tick past the
  reach-altitude phase that stop-in-front does not take (the filtered cloud has at most
  \<open>min_cloud_size\<close> points or \<open>stop_in_front\<close> is off), with \<open>use_back_off\<close> enabled:
  if the back-off state is set, the waypoint type is \<open>goBack\<close>, \<open>back_off_point\<close> and
  \<open>back_off_start_point\<close> are kept, and the state is cleared exactly when
  \<open>\<parallel>position - back_off_point\<parallel> > min_dist_backoff + 1.0\<close>; if it is not set and more
  than 200 close points were counted in a cloud of more than \<open>min_cloud_size\<close> points,
  the state is set, \<open>back_off_point\<close> is the closest point, \<open>back_off_start_point\<close> is
  the position, and the waypoint type is \<open>goBack\<close>.
\<close>

theorem back_off_tick:
  "(back_off s \<and>
    \<not> vnorm (vminus (position s) (back_off_point s)) > min_dist_backoff s + 1.0 \<longrightarrow>
      back_off (runPlanner ext s)) \<and>
   (back_off s \<and>
    (\<forall>t \<in> set ts.
       \<not> vnorm (vminus (in_position (snd t)) (back_off_point s)) > min_dist_backoff s + 1.0)
      \<longrightarrow> back_off (run_ticks ts s) \<and> back_off_point (run_ticks ts s) = back_off_point s) \<and>
   ((reach_altitude s \<or> disable_rise_to_goal_altitude s) \<and>
    \<not> (length (final_cloud (runPlanner ext s)) > min_cloud_size s \<and> stop_in_front s) \<and>
    use_back_off s \<longrightarrow>
      (back_off s \<longrightarrow>
         waypoint_type (runPlanner ext s) = goBack \<and>
         back_off_point (runPlanner ext s) = back_off_point s \<and>
         back_off_start_point (runPlanner ext s) = back_off_start_point s \<and>
         back_off (runPlanner ext s) =
           (\<not> vnorm (vminus (position s) (back_off_point s)) > min_dist_backoff s + 1.0)) \<and>
      (\<not> back_off s \<and> counter_close_points_backoff (runPlanner ext s) > 200 \<and>
       length (final_cloud (runPlanner ext s)) > min_cloud_size s \<longrightarrow>
         waypoint_type (runPlanner ext s) = goBack \<and>
         back_off (runPlanner ext s) \<and>
         back_off_point (runPlanner ext s) = closest_point (runPlanner ext s) \<and>
         back_off_start_point (runPlanner ext s) = position s))"
proof -
  let ?p = "runPlanner_filter ext s"
  have same: "back_off ?p = back_off s" "position ?p = position s"
    "back_off_point ?p = back_off_point s" "back_off_start_point ?p = back_off_start_point s"
    "min_dist_backoff ?p = min_dist_backoff s" "min_cloud_size ?p = min_cloud_size s"
    "stop_in_front ?p = stop_in_front s" "use_back_off ?p = use_back_off s"
    "reach_altitude ?p = reach_altitude s"
    "disable_rise_to_goal_altitude ?p = disable_rise_to_goal_altitude s"
    "final_cloud ?p = final_cloud (runPlanner ext s)"
    "closest_point ?p = closest_point (runPlanner ext s)"
    "counter_close_points_backoff ?p = counter_close_points_backoff (runPlanner ext s)"
    by (simp_all add: runPlanner_filter_keeps runPlanner_keeps)
  have persists: "back_off (runPlanner ext s)"
    if "back_off s"
      and "\<not> vnorm (vminus (position s) (back_off_point s)) > min_dist_backoff s + 1.0"
    using determineStrategy_back_off_persists [of ?p ext] that same
    by (simp add: runPlanner_def)
  have branch: "(back_off s \<longrightarrow>
         waypoint_type (runPlanner ext s) = goBack \<and>
         back_off_point (runPlanner ext s) = back_off_point s \<and>
         back_off_start_point (runPlanner ext s) = back_off_start_point s \<and>
         back_off (runPlanner ext s) =
           (\<not> vnorm (vminus (position s) (back_off_point s)) > min_dist_backoff s + 1.0)) \<and>
      (\<not> back_off s \<and> counter_close_points_backoff (runPlanner ext s) > 200 \<and>
       length (final_cloud (runPlanner ext s)) > min_cloud_size s \<longrightarrow>
         waypoint_type (runPlanner ext s) = goBack \<and>
         back_off (runPlanner ext s) \<and>
         back_off_point (runPlanner ext s) = closest_point (runPlanner ext s) \<and>
         back_off_start_point (runPlanner ext s) = position s)"
    if "reach_altitude s \<or> disable_rise_to_goal_altitude s"
      and "\<not> (length (final_cloud (runPlanner ext s)) > min_cloud_size s \<and> stop_in_front s)"
      and "use_back_off s"
  proof -
    have p: "reach_altitude ?p \<or> disable_rise_to_goal_altitude ?p"
      "\<not> (length (final_cloud ?p) > min_cloud_size ?p \<and> stop_in_front ?p)"
      "use_back_off ?p"
      using that same by simp_all
    from determineStrategy_back_off(1) [OF p, of ext] determineStrategy_back_off(2) [OF p, of ext]
    show ?thesis
      unfolding runPlanner_def [symmetric] same by blast
  qed
  have trace: "back_off (run_ticks ts s) \<and> back_off_point (run_ticks ts s) = back_off_point s"
    if "back_off s"
      and "\<forall>t \<in> set ts.
         \<not> vnorm (vminus (in_position (snd t)) (back_off_point s)) > min_dist_backoff s + 1.0"
    using that by (rule run_ticks_back_off)
  from persists trace branch show ?thesis by blast
qed

theorem back_off_tick_witness:
  "back_off lp_backing \<and> use_back_off lp_backing \<and> reach_altitude lp_backing \<and>
   \<not> stop_in_front lp_backing \<and>
   vnorm (vminus (position lp_backing) (back_off_point lp_backing)) = 3 \<and>
   min_dist_backoff lp_backing + 1.0 = 4 \<and>
   waypoint_type (runPlanner ext0 lp_backing) = goBack \<and>
   back_off (runPlanner ext0 lp_backing) \<and>
   vnorm (vminus (position lp_backed) (back_off_point lp_backed)) = 7 \<and>
   waypoint_type (runPlanner ext0 lp_backed) = goBack \<and>
   \<not> back_off (runPlanner ext0 lp_backed) \<and>
   \<not> back_off lp_free \<and> counter_close_points_backoff (runPlanner ext_near lp_free) = 250 \<and>
   waypoint_type (runPlanner ext_near lp_free) = goBack \<and>
   back_off (runPlanner ext_near lp_free) \<and>
   back_off_point (runPlanner ext_near lp_free) = Vector3f 3 0 5 \<and>
   back_off_start_point (runPlanner ext_near lp_free) = Vector3f 0 0 5 \<and>
   vnorm (vminus (in_position info0) (back_off_point lp_backing)) = 3 \<and>
   vnorm (vminus (in_position info1) (back_off_point lp_backing)) = 4 \<and>
   back_off (run_ticks [(ext0, info0), (ext0, info1)] lp_backing)"
proof -
  have d: "vnorm (vminus (in_position info0) (back_off_point lp_backing)) = 3"
    "vnorm (vminus (in_position info1) (back_off_point lp_backing)) = 4"
    by (simp_all add: info0_def info1_def lp_backing_def lp0_def vnorm_def vminus_def
        sqrt_9 sqrt_16)
  have a: "back_off lp_backing" "use_back_off lp_backing" "reach_altitude lp_backing"
    "\<not> stop_in_front lp_backing"
    "vnorm (vminus (position lp_backing) (back_off_point lp_backing)) = 3"
    "min_dist_backoff lp_backing + 1.0 = 4"
    by (simp_all add: lp_backing_def lp0_def vnorm_def vminus_def sqrt_9)
  have b: "back_off lp_backed" "use_back_off lp_backed" "reach_altitude lp_backed"
    "\<not> stop_in_front lp_backed"
    "vnorm (vminus (position lp_backed) (back_off_point lp_backed)) = 7"
    "min_dist_backoff lp_backed + 1.0 = 4"
    by (simp_all add: lp_backed_def lp_backing_def lp0_def vnorm_def vminus_def sqrt_49)
  have c: "\<not> back_off lp_free" "use_back_off lp_free" "reach_altitude lp_free"
    "\<not> stop_in_front lp_free" "position lp_free = Vector3f 0 0 5"
    "counter_close_points_backoff (runPlanner ext_near lp_free) = 250"
    "length (final_cloud (runPlanner ext_near lp_free)) > min_cloud_size lp_free"
    "closest_point (runPlanner ext_near lp_free) = Vector3f 3 0 5"
    by (simp_all add: lp_free_def lp0_def runPlanner_keeps runPlanner_filter_sets ext_near_def
        ext0_def fr0_def)
  from back_off_tick [where s = lp_backing and ts = "[(ext0, info0), (ext0, info1)]"
      and ext = ext0] a d
  have 0: "back_off (run_ticks [(ext0, info0), (ext0, info1)] lp_backing)"
    by simp
  from back_off_tick [where s = lp_backing and ts = "[]" and ext = ext0] a
  have 1: "waypoint_type (runPlanner ext0 lp_backing) = goBack \<and>
      back_off (runPlanner ext0 lp_backing)"
    by simp
  from back_off_tick [where s = lp_backed and ts = "[]" and ext = ext0] b
  have 2: "waypoint_type (runPlanner ext0 lp_backed) = goBack \<and>
      \<not> back_off (runPlanner ext0 lp_backed)"
    by simp
  from back_off_tick [where s = lp_free and ts = "[]" and ext = ext_near] c
  have 3: "waypoint_type (runPlanner ext_near lp_free) = goBack \<and>
      back_off (runPlanner ext_near lp_free) \<and>
      back_off_point (runPlanner ext_near lp_free) = Vector3f 3 0 5 \<and>
      back_off_start_point (runPlanner ext_near lp_free) = Vector3f 0 0 5"
    by simp
  from a b c d 0 1 2 3 show ?thesis by simp
qed

section \<open>Planning on the histogram\<close>

lemma create2D_hist_is_empty:
  "hist_is_empty (create2DObstacleRepresentation ext b s) =
     fst (combinedHistogram ext (generateNewHistogram ext (final_cloud s) (position s))
       (propagateHistogram ext (map fst (reproject_all ext (polar_histogram s) s))
          (map snd (reproject_all ext (polar_histogram s) s)) (position s))
       (waypoint_outside_FOV s) (z_FOV_idx s) (e_FOV_min s) (e_FOV_max s))"
proof -
  let ?r = "reprojectPoints ext (polar_histogram s) s"
  have r: "reprojected_points ?r = map fst (reproject_all ext (polar_histogram s) s)"
    "reprojected_points_age ?r = map snd (reproject_all ext (polar_histogram s) s)"
    "final_cloud ?r = final_cloud s" "position ?r = position s"
    "waypoint_outside_FOV ?r = waypoint_outside_FOV s" "z_FOV_idx ?r = z_FOV_idx s"
    "e_FOV_min ?r = e_FOV_min s" "e_FOV_max ?r = e_FOV_max s"
    by (simp_all add: reprojectPoints_def Let_def)
  have u: "hist_is_empty (updateObstacleDistanceMsg ext h t) = hist_is_empty t" for h t
    by (simp add: updateObstacleDistanceMsg_def Let_def)
  have g: "hist_is_empty (generateHistogramImage ext h t) = hist_is_empty t" for h t
    by (simp add: generateHistogramImage_def)
  show ?thesis
    by (simp add: create2DObstacleRepresentation_def Let_def u g r)
qed

lemma planOnHistogram_hist_is_empty:
  "hist_is_empty (planOnHistogram ext s) =
     hist_is_empty (create2DObstacleRepresentation ext (send_obstacles_fcu s)
       (evaluateProgressRate ext s))"
  by (simp add: planOnHistogram_def Let_def evaluateProgressRate_keeps
      pickCandidate_keeps buildTree_keeps)

lemma pickCandidate_result:
  "candidate_vector (pickCandidate ext s) =
     getBestCandidatesFromCostMatrix ext (cost_matrix (pickCandidate ext s)) 1"
  "candidate_vector (pickCandidate ext s) = [] \<Longrightarrow>
     waypoint_type (pickCandidate ext s) = direct \<and>
     stop_in_front (pickCandidate ext s) \<and>
     stop_in_front_active (pickCandidate ext s) = (first_brake s \<or> stop_in_front_active s) \<and>
     goal (pickCandidate ext s) = goal (stopInFrontObstacles s)"
  "candidate_vector (pickCandidate ext s) \<noteq> [] \<Longrightarrow>
     waypoint_type (pickCandidate ext s) = costmap \<and>
     costmap_direction_e (pickCandidate ext s) =
       elevation_angle (hd (candidate_vector (pickCandidate ext s))) \<and>
     costmap_direction_z (pickCandidate ext s) =
       azimuth_angle (hd (candidate_vector (pickCandidate ext s))) \<and>
     goal (pickCandidate ext s) = goal s \<and>
     stop_in_front (pickCandidate ext s) = stop_in_front s \<and>
     stop_in_front_active (pickCandidate ext s) = stop_in_front_active s"
  by (simp_all add: pickCandidate_def Let_def stopInFrontObstacles_keeps
      stopInFrontObstacles_def split: if_splits)

lemma planOnHistogram_pick:
  assumes "reach_altitude s" and "\<not> use_VFH_star s"
    and "\<not> hist_is_empty (planOnHistogram ext s)"
  shows "\<exists>u. first_brake u = first_brake s \<and> stop_in_front_active u = stop_in_front_active s \<and>
             goal u = goal s \<and> position u = position s \<and> keep_distance u = keep_distance s \<and>
             distance_to_closest_point u = distance_to_closest_point s \<and>
             stop_in_front u = stop_in_front s \<and>
             planOnHistogram ext s = (pickCandidate ext u)\<lparr>first_brake := True\<rparr>"
proof -
  let ?c = "create2DObstacleRepresentation ext (send_obstacles_fcu s)
       (evaluateProgressRate ext s)"
  let ?cm = "getCostMatrix ext (polar_histogram ?c) (goal ?c) (position ?c)
                (std_round (- curr_yaw_fcu_frame ?c * 180 / pi) + 90)
                (last_sent_waypoint ?c) (cost_params ?c)
                (vnorm (velocity ?c) < 0.1) (smoothing_margin_degrees ?c)"
  let ?u = "?c\<lparr>obstacle := True, cost_matrix := fst ?cm, cost_image_data := snd ?cm\<rparr>"
  have c: "\<not> hist_is_empty ?c" "reach_altitude ?c" "\<not> use_VFH_star ?c"
    "first_brake ?c = first_brake s" "stop_in_front_active ?c = stop_in_front_active s"
    "goal ?c = goal s" "position ?c = position s" "keep_distance ?c = keep_distance s"
    "distance_to_closest_point ?c = distance_to_closest_point s"
    "stop_in_front ?c = stop_in_front s"
    using assms
    by (simp_all add: planOnHistogram_hist_is_empty create2D_keeps evaluateProgressRate_keeps)
  have "planOnHistogram ext s = (pickCandidate ext ?u)\<lparr>first_brake := True\<rparr>"
    using c(1,2,3) by (simp add: planOnHistogram_def Let_def evaluateProgressRate_keeps)
  moreover have "first_brake ?u = first_brake s" "stop_in_front_active ?u = stop_in_front_active s"
    "goal ?u = goal s" "position ?u = position s" "keep_distance ?u = keep_distance s"
    "distance_to_closest_point ?u = distance_to_closest_point s"
    "stop_in_front ?u = stop_in_front s"
    using c(4-10) by simp_all
  ultimately show ?thesis by blast
qed

text \<open>
  The state in which \<open>determineStrategy\<close> enters its last alternative, and the result of
  the tick in terms of it.
\<close>

lemma determineStrategy_plan:
  assumes "reach_altitude s \<or> disable_rise_to_goal_altitude s"
    and "\<not> (length (final_cloud s) > min_cloud_size s \<and> stop_in_front s)"
    and "\<not> (((counter_close_points_backoff s > 200 \<and> length (final_cloud s) > min_cloud_size s)
             \<or> back_off s) \<and> use_back_off s)"
  shows "\<exists>t. reach_altitude t \<and> use_VFH_star t = use_VFH_star s \<and>
             first_brake t = first_brake s \<and> stop_in_front_active t = stop_in_front_active s \<and>
             goal t = goal s \<and> position t = position s \<and> keep_distance t = keep_distance s \<and>
             distance_to_closest_point t = distance_to_closest_point s \<and>
             stop_in_front t = stop_in_front s \<and>
             determineStrategy ext s =
               (planOnHistogram ext t)\<lparr>position_old := position (planOnHistogram ext t)\<rparr>"
proof -
  let ?s0 = "s\<lparr>star_planner := (star_planner s)\<lparr>tree_age := tree_age (star_planner s) + 1\<rparr>,
                cost_image_data :=
                  replicate (nat (3 * GRID_LENGTH_E ext * GRID_LENGTH_Z ext)) 0\<rparr>"
  have c2: "(length (final_cloud s) > min_cloud_size s \<and> stop_in_front s) = False"
    using assms(2) by simp
  have c3: "(((counter_close_points_backoff s > 200 \<and> length (final_cloud s) > min_cloud_size s)
             \<or> back_off s) \<and> use_back_off s) = False"
    using assms(3) by simp
  show ?thesis
  proof (cases "disable_rise_to_goal_altitude s")
    case True
    let ?t = "?s0\<lparr>reach_altitude := True\<rparr>"
    have "determineStrategy ext s =
        (planOnHistogram ext ?t)\<lparr>position_old := position (planOnHistogram ext ?t)\<rparr>"
      using True by (simp add: determineStrategy_def Let_def c2 c3)
    moreover have "reach_altitude ?t" "use_VFH_star ?t = use_VFH_star s"
      "first_brake ?t = first_brake s" "stop_in_front_active ?t = stop_in_front_active s"
      "goal ?t = goal s" "position ?t = position s" "keep_distance ?t = keep_distance s"
      "distance_to_closest_point ?t = distance_to_closest_point s"
      "stop_in_front ?t = stop_in_front s"
      by simp_all
    ultimately show ?thesis by blast
  next
    case False
    with assms(1) have r: "reach_altitude s" by simp
    have "determineStrategy ext s =
        (planOnHistogram ext ?s0)\<lparr>position_old := position (planOnHistogram ext ?s0)\<rparr>"
      using False r by (simp add: determineStrategy_def Let_def c2 c3)
    moreover have "reach_altitude ?s0" "use_VFH_star ?s0 = use_VFH_star s"
      "first_brake ?s0 = first_brake s" "stop_in_front_active ?s0 = stop_in_front_active s"
      "goal ?s0 = goal s" "position ?s0 = position s" "keep_distance ?s0 = keep_distance s"
      "distance_to_closest_point ?s0 = distance_to_closest_point s"
      "stop_in_front ?s0 = stop_in_front s"
      using r by simp_all
    ultimately show ?thesis by blast
  qed
qed

text \<open>
  A tick that plans on the histogram with \<open>use_VFH_star\<close> off and a non-empty combined
  histogram ends in \<open>pickCandidate\<close>.
\<close>

lemma runPlanner_pick:
  assumes "reach_altitude s \<or> disable_rise_to_goal_altitude s"
    and "\<not> (length (final_cloud (runPlanner ext s)) > min_cloud_size s \<and> stop_in_front s)"
    and "\<not> (((counter_close_points_backoff (runPlanner ext s) > 200 \<and>
              length (final_cloud (runPlanner ext s)) > min_cloud_size s)
             \<or> back_off s) \<and> use_back_off s)"
    and "\<not> use_VFH_star s"
    and "\<not> hist_is_empty (runPlanner ext s)"
  shows "\<exists>u x. first_brake u = first_brake s \<and> \<not> stop_in_front_active u \<and>
             goal u = goal s \<and> position u = position s \<and> keep_distance u = keep_distance s \<and>
             distance_to_closest_point u = distance_to_closest_point (runPlanner ext s) \<and>
             stop_in_front u = stop_in_front s \<and>
             runPlanner ext s = (pickCandidate ext u)\<lparr>first_brake := True, position_old := x\<rparr>"
proof -
  let ?p = "runPlanner_filter ext s"
  have p: "reach_altitude ?p \<or> disable_rise_to_goal_altitude ?p"
    "\<not> (length (final_cloud ?p) > min_cloud_size ?p \<and> stop_in_front ?p)"
    "\<not> (((counter_close_points_backoff ?p > 200 \<and> length (final_cloud ?p) > min_cloud_size ?p)
             \<or> back_off ?p) \<and> use_back_off ?p)"
    using assms(1,2,3) by (simp_all add: runPlanner_filter_keeps runPlanner_keeps)
  from determineStrategy_plan [OF p, of ext] obtain t where
    t: "reach_altitude t" "use_VFH_star t = use_VFH_star ?p" "first_brake t = first_brake ?p"
      "stop_in_front_active t = stop_in_front_active ?p"
      "goal t = goal ?p" "position t = position ?p" "keep_distance t = keep_distance ?p"
      "distance_to_closest_point t = distance_to_closest_point ?p"
      "stop_in_front t = stop_in_front ?p"
      "runPlanner ext s = (planOnHistogram ext t)\<lparr>position_old := position (planOnHistogram ext t)\<rparr>"
    unfolding runPlanner_def by blast
  have t': "\<not> use_VFH_star t" "first_brake t = first_brake s" "\<not> stop_in_front_active t"
    "goal t = goal s" "position t = position s" "keep_distance t = keep_distance s"
    "distance_to_closest_point t = distance_to_closest_point (runPlanner ext s)"
    "stop_in_front t = stop_in_front s"
    using t(2-9) assms(4)
    by (simp_all add: runPlanner_filter_keeps runPlanner_filter_sets runPlanner_keeps)
  have e: "\<not> hist_is_empty (planOnHistogram ext t)"
    using assms(5) unfolding t(10) by simp
  from planOnHistogram_pick [OF t(1) t'(1) e] obtain u where
    u: "first_brake u = first_brake t" "stop_in_front_active u = stop_in_front_active t"
      "goal u = goal t" "position u = position t" "keep_distance u = keep_distance t"
      "distance_to_closest_point u = distance_to_closest_point t"
      "stop_in_front u = stop_in_front t"
      "planOnHistogram ext t = (pickCandidate ext u)\<lparr>first_brake := True\<rparr>"
    by blast
  have "runPlanner ext s =
      (pickCandidate ext u)\<lparr>first_brake := True,
        position_old := position (planOnHistogram ext t)\<rparr>"
    unfolding t(10) u(8) by simp
  with u(1-7) t' show ?thesis by auto
qed

lemma determineStrategy_back_off_fcu:
  assumes "reach_altitude s \<or> disable_rise_to_goal_altitude s"
    and "\<not> stop_in_front s"
    and "use_back_off s" and "back_off s" and "send_obstacles_fcu s"
  shows "\<exists>new prop w idx emin emax.
           hist_is_empty (determineStrategy ext s) =
             fst (combinedHistogram ext new prop w idx emin emax)"
    and "stop_in_front (determineStrategy ext s) = stop_in_front s"
    and "waypoint_type (determineStrategy ext s) = goBack"
proof -
  have "\<exists>b x. determineStrategy ext s =
        (create2DObstacleRepresentation ext True b)\<lparr>position_old := x\<rparr> \<and>
        stop_in_front b = stop_in_front s \<and> waypoint_type b = goBack"
  proof (cases "disable_rise_to_goal_altitude s")
    case True
    show ?thesis
    proof (cases "vnorm (vminus (position s) (back_off_point s)) > min_dist_backoff s + 1.0")
      case far: True
      show ?thesis
        by (intro exI, insert assms True far,
            simp add: determineStrategy_def Let_def, intro conjI, rule refl, simp_all)
    next
      case near: False
      show ?thesis
        by (intro exI, insert assms True near,
            simp add: determineStrategy_def Let_def, intro conjI, rule refl, simp_all)
    qed
  next
    case False
    with assms(1) have r: "reach_altitude s" by simp
    show ?thesis
    proof (cases "vnorm (vminus (position s) (back_off_point s)) > min_dist_backoff s + 1.0")
      case far: True
      show ?thesis
        by (intro exI, insert assms(2-5) r False far,
            simp add: determineStrategy_def Let_def, intro conjI, rule refl, simp_all)
    next
      case near: False
      show ?thesis
        by (intro exI, insert assms(2-5) r False near,
            simp add: determineStrategy_def Let_def, intro conjI, rule refl, simp_all)
    qed
  qed
  then obtain b x where b: "determineStrategy ext s =
        (create2DObstacleRepresentation ext True b)\<lparr>position_old := x\<rparr>"
      "stop_in_front b = stop_in_front s" "waypoint_type b = goBack"
    by blast
  show "\<exists>new prop w idx emin emax.
           hist_is_empty (determineStrategy ext s) =
             fst (combinedHistogram ext new prop w idx emin emax)"
    unfolding b(1) by (simp add: create2D_hist_is_empty) blast
  show "stop_in_front (determineStrategy ext s) = stop_in_front s"
    unfolding b(1) using b(2) by (simp add: create2D_keeps)
  show "waypoint_type (determineStrategy ext s) = goBack"
    unfolding b(1) using b(3) by (simp add: create2D_keeps)
qed

text \<open>
  C7, as the spec states it, fails: on a tick that backs off while the obstacle
  distances are sent to the flight controller, \<open>use_VFH_star\<close> is off, the combined
  histogram is built and is not empty, and the cost matrix yields no candidate; yet the
  waypoint type is \<open>goBack\<close>, neither \<open>direct\<close> nor \<open>costmap\<close>, and \<open>stop_in_front\<close>
  stays off.
\<close>

theorem costmap_or_stop_counterexample:
  "\<not> use_VFH_star (runPlanner ext0 lp_backing_fcu) \<and>
   \<not> hist_is_empty (runPlanner ext0 lp_backing_fcu) \<and>
   getBestCandidatesFromCostMatrix ext0 (cost_matrix (runPlanner ext0 lp_backing_fcu)) 1 = [] \<and>
   waypoint_type (runPlanner ext0 lp_backing_fcu) = goBack \<and>
   \<not> stop_in_front (runPlanner ext0 lp_backing_fcu)"
proof -
  let ?p = "runPlanner_filter ext0 lp_backing_fcu"
  have p: "reach_altitude ?p \<or> disable_rise_to_goal_altitude ?p" "\<not> stop_in_front ?p"
    "use_back_off ?p" "back_off ?p" "send_obstacles_fcu ?p" "\<not> use_VFH_star ?p"
    by (simp_all add: runPlanner_filter_keeps lp_backing_fcu_def lp_backing_def lp0_def)
  from determineStrategy_back_off_fcu(1) [OF p(1-5), of ext0]
  have 1: "\<not> hist_is_empty (runPlanner ext0 lp_backing_fcu)"
    unfolding runPlanner_def by (auto simp add: ext0_def)
  from determineStrategy_back_off_fcu(2,3) [OF p(1-5), of ext0] p(2)
  have 2: "\<not> stop_in_front (runPlanner ext0 lp_backing_fcu)"
    "waypoint_type (runPlanner ext0 lp_backing_fcu) = goBack"
    unfolding runPlanner_def by simp_all
  have 3: "\<not> use_VFH_star (runPlanner ext0 lp_backing_fcu)"
    using p(6) by (simp add: runPlanner_def determineStrategy_keeps)
  have 4: "getBestCandidatesFromCostMatrix ext0
      (cost_matrix (runPlanner ext0 lp_backing_fcu)) 1 = []"
    by (simp add: ext0_def)
  from 1 2 3 4 show ?thesis by simp
qed

text \<open>
  C7, amended. On a tick that reaches the planning on the histogram (past the
  reach-altitude phase, not taken by stop-in-front nor by back-off) with \<open>use_VFH_star\<close>
  off and a non-empty combined histogram, the candidates are the best candidate of the
  cost matrix. If there is none, the planner falls back to stopping in front: the
  waypoint type is \<open>direct\<close>, \<open>stop_in_front\<close> is switched on, and
  \<open>stopInFrontObstacles\<close> has run, so that with \<open>first_brake\<close> set
  \<open>stop_in_front_active\<close> is latched, the altitude of the goal is kept and (the goal not
  being straight above or below the vehicle, the closest point not nearer than
  \<open>keep_distance\<close>) the horizontal coordinates of the goal are the point at distance
  \<open>distance_to_closest - keep_distance\<close> from the horizontal position in the horizontal
  direction of the original goal, and with \<open>first_brake\<close> not set the goal is kept.
  Otherwise the waypoint type is \<open>costmap\<close>, the elevation and azimuth of the first
  candidate are stored as the costmap direction, and the goal and \<open>stop_in_front\<close> are
  unchanged.
\<close>

theorem costmap_or_stop:
  assumes "reach_altitude s \<or> disable_rise_to_goal_altitude s"
    and "\<not> (length (final_cloud (runPlanner ext s)) > min_cloud_size s \<and> stop_in_front s)"
    and "\<not> (((counter_close_points_backoff (runPlanner ext s) > 200 \<and>
              length (final_cloud (runPlanner ext s)) > min_cloud_size s)
             \<or> back_off s) \<and> use_back_off s)"
    and "\<not> use_VFH_star s"
    and "\<not> hist_is_empty (runPlanner ext s)"
  shows "candidate_vector (runPlanner ext s) =
           getBestCandidatesFromCostMatrix ext (cost_matrix (runPlanner ext s)) 1 \<and>
    (candidate_vector (runPlanner ext s) = [] \<longrightarrow>
       waypoint_type (runPlanner ext s) = direct \<and>
       stop_in_front (runPlanner ext s) \<and>
       stop_in_front_active (runPlanner ext s) = first_brake s \<and>
       (\<not> first_brake s \<longrightarrow> goal (runPlanner ext s) = goal s) \<and>
       (first_brake s \<longrightarrow>
          vz (goal (runPlanner ext s)) = vz (goal s) \<and>
          (norm2 (vx (goal s) - vx (position s), vy (goal s) - vy (position s)) \<noteq> 0 \<and>
           keep_distance s \<le> distance_to_closest_point (runPlanner ext s) \<longrightarrow>
             vx (goal (runPlanner ext s)) =
               vx (position s) + (distance_to_closest_point (runPlanner ext s) - keep_distance s)
                 * (vx (goal s) - vx (position s))
                 / norm2 (vx (goal s) - vx (position s), vy (goal s) - vy (position s)) \<and>
             vy (goal (runPlanner ext s)) =
               vy (position s) + (distance_to_closest_point (runPlanner ext s) - keep_distance s)
                 * (vy (goal s) - vy (position s))
                 / norm2 (vx (goal s) - vx (position s), vy (goal s) - vy (position s)) \<and>
             norm2 (vx (goal (runPlanner ext s)) - vx (position s),
                    vy (goal (runPlanner ext s)) - vy (position s))
               = distance_to_closest_point (runPlanner ext s) - keep_distance s))) \<and>
    (candidate_vector (runPlanner ext s) \<noteq> [] \<longrightarrow>
       waypoint_type (runPlanner ext s) = costmap \<and>
       costmap_direction_e (runPlanner ext s) =
         elevation_angle (hd (candidate_vector (runPlanner ext s))) \<and>
       costmap_direction_z (runPlanner ext s) =
         azimuth_angle (hd (candidate_vector (runPlanner ext s))) \<and>
       goal (runPlanner ext s) = goal s \<and>
       stop_in_front (runPlanner ext s) = stop_in_front s \<and>
       \<not> stop_in_front_active (runPlanner ext s))"
proof -
  from runPlanner_pick [OF assms] obtain u x where
    u: "first_brake u = first_brake s" "\<not> stop_in_front_active u"
      "goal u = goal s" "position u = position s" "keep_distance u = keep_distance s"
      "distance_to_closest_point u = distance_to_closest_point (runPlanner ext s)"
      "stop_in_front u = stop_in_front s"
    and r: "runPlanner ext s = (pickCandidate ext u)\<lparr>first_brake := True, position_old := x\<rparr>"
    by blast
  have sel: "candidate_vector (runPlanner ext s) = candidate_vector (pickCandidate ext u)"
    "cost_matrix (runPlanner ext s) = cost_matrix (pickCandidate ext u)"
    "waypoint_type (runPlanner ext s) = waypoint_type (pickCandidate ext u)"
    "stop_in_front (runPlanner ext s) = stop_in_front (pickCandidate ext u)"
    "stop_in_front_active (runPlanner ext s) = stop_in_front_active (pickCandidate ext u)"
    "goal (runPlanner ext s) = goal (pickCandidate ext u)"
    "costmap_direction_e (runPlanner ext s) = costmap_direction_e (pickCandidate ext u)"
    "costmap_direction_z (runPlanner ext s) = costmap_direction_z (pickCandidate ext u)"
    unfolding r by simp_all
  note pick = pickCandidate_result [of ext u]
  have cv: "candidate_vector (runPlanner ext s) =
           getBestCandidatesFromCostMatrix ext (cost_matrix (runPlanner ext s)) 1"
    unfolding sel by (rule pick(1))
  have none: "waypoint_type (runPlanner ext s) = direct \<and>
       stop_in_front (runPlanner ext s) \<and>
       stop_in_front_active (runPlanner ext s) = first_brake s \<and>
       goal (runPlanner ext s) = goal (stopInFrontObstacles u)"
    if "candidate_vector (runPlanner ext s) = []"
    using that pick(2) u(1,2) unfolding sel by simp
  have some: "waypoint_type (runPlanner ext s) = costmap \<and>
       costmap_direction_e (runPlanner ext s) =
         elevation_angle (hd (candidate_vector (runPlanner ext s))) \<and>
       costmap_direction_z (runPlanner ext s) =
         azimuth_angle (hd (candidate_vector (runPlanner ext s))) \<and>
       goal (runPlanner ext s) = goal s \<and>
       stop_in_front (runPlanner ext s) = stop_in_front s \<and>
       \<not> stop_in_front_active (runPlanner ext s)"
    if "candidate_vector (runPlanner ext s) \<noteq> []"
    using that pick(3) u(2,3,7) unfolding sel by simp
  have braked: "goal (stopInFrontObstacles u) = goal s" if "\<not> first_brake s"
    using that u(1,3) by (simp add: stopInFrontObstacles_cases)
  have alt: "vz (goal (stopInFrontObstacles u)) = vz (goal s)" if "first_brake s"
  proof -
    from that u(1) have "first_brake u" by simp
    from stopInFrontObstacles_goal(1) [OF this] show ?thesis
      unfolding u .
  qed
  have point: "vx (goal (stopInFrontObstacles u)) =
               vx (position s) + (distance_to_closest_point (runPlanner ext s) - keep_distance s)
                 * (vx (goal s) - vx (position s))
                 / norm2 (vx (goal s) - vx (position s), vy (goal s) - vy (position s)) \<and>
             vy (goal (stopInFrontObstacles u)) =
               vy (position s) + (distance_to_closest_point (runPlanner ext s) - keep_distance s)
                 * (vy (goal s) - vy (position s))
                 / norm2 (vx (goal s) - vx (position s), vy (goal s) - vy (position s)) \<and>
             norm2 (vx (goal (stopInFrontObstacles u)) - vx (position s),
                    vy (goal (stopInFrontObstacles u)) - vy (position s))
               = distance_to_closest_point (runPlanner ext s) - keep_distance s"
    if f: "first_brake s"
      and n: "norm2 (vx (goal s) - vx (position s), vy (goal s) - vy (position s)) \<noteq> 0"
      and k: "keep_distance s \<le> distance_to_closest_point (runPlanner ext s)"
  proof -
    from f u(1) have f': "first_brake u" by simp
    from n have n': "norm2 (vx (goal u) - vx (position u), vy (goal u) - vy (position u)) \<noteq> 0"
      unfolding u .
    from k have k': "keep_distance u \<le> distance_to_closest_point u"
      unfolding u .
    from stopInFrontObstacles_goal(2) [OF f' n' k'] show ?thesis
      unfolding u .
  qed
  show ?thesis
  proof (cases "candidate_vector (runPlanner ext s) = []")
    case True
    note n = none [OF True]
    from n have g: "goal (runPlanner ext s) = goal (stopInFrontObstacles u)" by simp
    from True cv n braked alt point show ?thesis
      unfolding g by blast
  next
    case False
    from False cv some [OF False] show ?thesis by blast
  qed
qed

lemma runPlanner_plan_hist_is_empty:
  assumes "reach_altitude s \<or> disable_rise_to_goal_altitude s"
    and "\<not> (length (final_cloud (runPlanner ext s)) > min_cloud_size s \<and> stop_in_front s)"
    and "\<not> (((counter_close_points_backoff (runPlanner ext s) > 200 \<and>
              length (final_cloud (runPlanner ext s)) > min_cloud_size s)
             \<or> back_off s) \<and> use_back_off s)"
  shows "\<exists>new prop w idx emin emax.
           hist_is_empty (runPlanner ext s) = fst (combinedHistogram ext new prop w idx emin emax)"
proof -
  let ?p = "runPlanner_filter ext s"
  have p: "reach_altitude ?p \<or> disable_rise_to_goal_altitude ?p"
    "\<not> (length (final_cloud ?p) > min_cloud_size ?p \<and> stop_in_front ?p)"
    "\<not> (((counter_close_points_backoff ?p > 200 \<and> length (final_cloud ?p) > min_cloud_size ?p)
             \<or> back_off ?p) \<and> use_back_off ?p)"
    using assms by (simp_all add: runPlanner_filter_keeps runPlanner_keeps)
  from determineStrategy_plan [OF p, of ext] obtain t where
    t: "runPlanner ext s = (planOnHistogram ext t)\<lparr>position_old := position (planOnHistogram ext t)\<rparr>"
    unfolding runPlanner_def by blast
  have "hist_is_empty (runPlanner ext s) =
      hist_is_empty (create2DObstacleRepresentation ext (send_obstacles_fcu t)
        (evaluateProgressRate ext t))"
    unfolding t by (simp add: planOnHistogram_hist_is_empty)
  then show ?thesis
    unfolding create2D_hist_is_empty by blast
qed

theorem costmap_or_stop_witness:
  "reach_altitude lp_plan \<and> \<not> stop_in_front lp_plan \<and> \<not> use_back_off lp_plan \<and>
   \<not> use_VFH_star lp_plan \<and> first_brake lp_plan \<and>
   position lp_plan = Vector3f 0 0 5 \<and> goal lp_plan = Vector3f 10 0 5 \<and>
   keep_distance lp_plan = 2 \<and> distance_to_closest_point (runPlanner ext0 lp_plan) = 3 \<and>
   \<not> hist_is_empty (runPlanner ext0 lp_plan) \<and>
   candidate_vector (runPlanner ext0 lp_plan) = [] \<and>
   waypoint_type (runPlanner ext0 lp_plan) = direct \<and>
   stop_in_front (runPlanner ext0 lp_plan) \<and>
   stop_in_front_active (runPlanner ext0 lp_plan) \<and>
   vx (goal (runPlanner ext0 lp_plan)) = 1 \<and>
   vy (goal (runPlanner ext0 lp_plan)) = 0 \<and>
   vz (goal (runPlanner ext0 lp_plan)) = 5 \<and>
   \<not> hist_is_empty (runPlanner ext_candidate lp_plan) \<and>
   candidate_vector (runPlanner ext_candidate lp_plan) =
     [\<lparr>cost = 1, elevation_angle = 3, azimuth_angle = 21\<rparr>] \<and>
   waypoint_type (runPlanner ext_candidate lp_plan) = costmap \<and>
   costmap_direction_e (runPlanner ext_candidate lp_plan) = 3 \<and>
   costmap_direction_z (runPlanner ext_candidate lp_plan) = 21 \<and>
   goal (runPlanner ext_candidate lp_plan) = Vector3f 10 0 5 \<and>
   \<not> stop_in_front (runPlanner ext_candidate lp_plan)"
proof -
  have s: "reach_altitude lp_plan" "\<not> stop_in_front lp_plan" "\<not> use_back_off lp_plan"
    "\<not> use_VFH_star lp_plan" "first_brake lp_plan"
    "position lp_plan = Vector3f 0 0 5" "goal lp_plan = Vector3f 10 0 5"
    "keep_distance lp_plan = 2"
    by (simp_all add: lp_plan_def lp0_def)
  have d: "distance_to_closest_point (runPlanner ext0 lp_plan) = 3"
    by (simp add: runPlanner_keeps runPlanner_filter_sets lp_plan_def lp0_def ext0_def fr0_def)
  have e0: "\<not> hist_is_empty (runPlanner ext0 lp_plan)"
    using runPlanner_plan_hist_is_empty [of lp_plan ext0] s(1-5)
    by (auto simp add: ext0_def)
  have e1: "\<not> hist_is_empty (runPlanner ext_candidate lp_plan)"
    using runPlanner_plan_hist_is_empty [of lp_plan ext_candidate] s(1-5)
    by (auto simp add: ext_candidate_def ext0_def)
  from costmap_or_stop [of lp_plan ext0] s d e0
  have 0: "candidate_vector (runPlanner ext0 lp_plan) = [] \<and>
      waypoint_type (runPlanner ext0 lp_plan) = direct \<and>
      stop_in_front (runPlanner ext0 lp_plan) \<and>
      stop_in_front_active (runPlanner ext0 lp_plan) \<and>
      vx (goal (runPlanner ext0 lp_plan)) = 1 \<and>
      vy (goal (runPlanner ext0 lp_plan)) = 0 \<and>
      vz (goal (runPlanner ext0 lp_plan)) = 5"
    by (simp add: ext0_def norm2_def sqrt_100)
  from costmap_or_stop [of lp_plan ext_candidate] s e1
  have 1: "candidate_vector (runPlanner ext_candidate lp_plan) =
        [\<lparr>cost = 1, elevation_angle = 3, azimuth_angle = 21\<rparr>] \<and>
      waypoint_type (runPlanner ext_candidate lp_plan) = costmap \<and>
      costmap_direction_e (runPlanner ext_candidate lp_plan) = 3 \<and>
      costmap_direction_z (runPlanner ext_candidate lp_plan) = 21 \<and>
      goal (runPlanner ext_candidate lp_plan) = Vector3f 10 0 5 \<and>
      \<not> stop_in_front (runPlanner ext_candidate lp_plan)"
    by (simp add: ext_candidate_def ext0_def)
  from s d e0 e1 0 1 show ?thesis by simp
qed

section \<open>Progress-rate adaptation\<close>

text \<open>
  C6, as the spec states it, fails in two ways. The vehicle has moved from 10 m to 13 m
  from the goal in one second, so that the incline of the call is 3. With an empty
  window of size ten, the window becomes \<open>[3]\<close>, its average 3 exceeds
  \<open>no_progress_slope\<close> 0.9, but the window is not full and the adapted weight is not
  decreased. With a window \<open>[2, 0, 0]\<close> of size three the window becomes \<open>[0, 0, 3]\<close>,
  full, of average 1, and the adapted weight 0.76 is decreased to 0.74, below 0.75.
\<close>

theorem progress_rate_counterexample:
  "reach_altitude lp_early \<and> adapt_cost_params lp_early \<and>
   goal_dist_incline (evaluateProgressRate ext0 lp_early) = [3] \<and>
   sum_list (goal_dist_incline (evaluateProgressRate ext0 lp_early))
     / of_nat (length (goal_dist_incline (evaluateProgressRate ext0 lp_early))) = 3 \<and>
   no_progress_slope lp_early = 0.9 \<and>
   height_change_cost_param_adapted (cost_params lp_early) = 4 \<and>
   height_change_cost_param_adapted (cost_params (evaluateProgressRate ext0 lp_early)) = 4 \<and>
   reach_altitude lp_floor \<and> adapt_cost_params lp_floor \<and>
   goal_dist_incline (evaluateProgressRate ext0 lp_floor) = [0, 0, 3] \<and>
   sum_list (goal_dist_incline (evaluateProgressRate ext0 lp_floor))
     / of_nat (length (goal_dist_incline (evaluateProgressRate ext0 lp_floor))) = 1 \<and>
   no_progress_slope lp_floor = 0.9 \<and>
   height_change_cost_param_adapted (cost_params lp_floor) = 0.76 \<and>
   height_change_cost_param_adapted (cost_params (evaluateProgressRate ext0 lp_floor)) = 0.74"
proof -
  have e: "vnorm (vminus (position lp_early) (goal lp_early)) = 13"
    "vnorm (vminus (position_old lp_early) (goal lp_early)) = 10"
    "vnorm (vminus (position lp_floor) (goal lp_floor)) = 13"
    "vnorm (vminus (position_old lp_floor) (goal lp_floor)) = 10"
    by (simp_all add: lp_early_def lp_floor_def lp_stall_def lp0_def vnorm_x)
  have 1: "reach_altitude lp_early \<and> adapt_cost_params lp_early \<and>
      goal_dist_incline (evaluateProgressRate ext0 lp_early) = [3] \<and>
      no_progress_slope lp_early = 0.9 \<and>
      height_change_cost_param_adapted (cost_params lp_early) = 4 \<and>
      height_change_cost_param_adapted (cost_params (evaluateProgressRate ext0 lp_early)) = 4"
    by (simp add: evaluateProgressRate_def Let_def window_push_def avg_incline_def e)
       (simp add: lp_early_def lp0_def ext0_def)
  have 2: "reach_altitude lp_floor \<and> adapt_cost_params lp_floor \<and>
      goal_dist_incline (evaluateProgressRate ext0 lp_floor) = [0, 0, 3] \<and>
      no_progress_slope lp_floor = 0.9 \<and>
      height_change_cost_param_adapted (cost_params lp_floor) = 0.76 \<and>
      height_change_cost_param_adapted (cost_params (evaluateProgressRate ext0 lp_floor)) = 0.74"
    by (simp add: evaluateProgressRate_def Let_def window_push_def avg_incline_def e)
       (simp add: lp_floor_def lp_stall_def lp0_def ext0_def)
  from 1 2 show ?thesis by simp
qed

text \<open>
  C6, amended. On a call of \<open>evaluateProgressRate\<close> (made on the ticks that plan on the
  histogram) with \<open>reach_altitude\<close> and \<open>adapt_cost_params\<close>, a non-zero time since the
  previous call and a window size of at least one: the incline of the call is the
  difference of the distances to the goal from the current and from the previous
  position, divided by the time since the previous call; it is appended to the window,
  whose oldest element is dropped when the window has grown past its size; the time of
  the call is stored. With the average of the new window (the sum of its elements
  divided by their number): if it exceeds \<open>no_progress_slope\<close>, the window is full (its
  length is the window size) and the adapted weight is above 0.75, the adapted weight
  decreases by 0.02 (so it stays at or above 0.73 when it was so before), and it is
  unchanged if the window is not full or the weight is at most 0.75; if the average is
  below \<open>no_progress_slope\<close> and the adapted weight is below the nominal weight minus
  0.03, it increases by 0.03 (never above the nominal weight when it was not before),
  and it is unchanged otherwise. When \<open>reach_altitude\<close> or \<open>adapt_cost_params\<close> does not
  hold, the adapted weight is set to the nominal weight and the window is left alone.
\<close>

theorem progress_rate_adaptation:
  "(reach_altitude s \<and> adapt_cost_params s \<and> now ext \<noteq> integral_time_old s \<and>
    0 < dist_incline_window_size s \<longrightarrow>
      (let incline = (vnorm (vminus (position s) (goal s))
                        - vnorm (vminus (position_old s) (goal s)))
                     / (now ext - integral_time_old s);
           w = goal_dist_incline (evaluateProgressRate ext s);
           avg = sum_list w / of_nat (length w);
           a = height_change_cost_param_adapted (cost_params s);
           a' = height_change_cost_param_adapted (cost_params (evaluateProgressRate ext s));
           nominal = height_change_cost_param (cost_params s)
       in w = (if length (goal_dist_incline s) < dist_incline_window_size s
               then goal_dist_incline s @ [incline]
               else tl (goal_dist_incline s) @ [incline]) \<and>
          integral_time_old (evaluateProgressRate ext s) = now ext \<and>
          (avg > no_progress_slope s \<and> length w = dist_incline_window_size s \<and> a > 0.75
             \<longrightarrow> a' = a - 0.02) \<and>
          (avg > no_progress_slope s \<and> \<not> (length w = dist_incline_window_size s \<and> a > 0.75)
             \<longrightarrow> a' = a) \<and>
          (avg < no_progress_slope s \<and> a < nominal - 0.03 \<longrightarrow> a' = a + 0.03) \<and>
          (avg < no_progress_slope s \<and> \<not> a < nominal - 0.03 \<longrightarrow> a' = a) \<and>
          (avg = no_progress_slope s \<longrightarrow> a' = a) \<and>
          (0.73 \<le> a \<longrightarrow> 0.73 \<le> a') \<and>
          (a \<le> nominal \<longrightarrow> a' \<le> nominal))) \<and>
   (\<not> (reach_altitude s \<and> adapt_cost_params s) \<longrightarrow>
      height_change_cost_param_adapted (cost_params (evaluateProgressRate ext s)) =
        height_change_cost_param (cost_params s) \<and>
      goal_dist_incline (evaluateProgressRate ext s) = goal_dist_incline s)"
proof -
  have off: "height_change_cost_param_adapted (cost_params (evaluateProgressRate ext s)) =
        height_change_cost_param (cost_params s) \<and>
      goal_dist_incline (evaluateProgressRate ext s) = goal_dist_incline s"
    if "\<not> (reach_altitude s \<and> adapt_cost_params s)"
  proof -
    from that have f: "(reach_altitude s \<and> adapt_cost_params s) = False" by simp
    show ?thesis by (simp add: evaluateProgressRate_def f)
  qed
  have push: "window_push n v x = (if length v < n then v @ [x] else tl v @ [x])"
    if "0 < n" for n v x
    using that by (cases v) (auto simp add: window_push_def)
  have on: "goal_dist_incline (evaluateProgressRate ext s) =
        window_push (dist_incline_window_size s) (goal_dist_incline s)
          ((vnorm (vminus (position s) (goal s)) - vnorm (vminus (position_old s) (goal s)))
             / (now ext - integral_time_old s))"
    "integral_time_old (evaluateProgressRate ext s) = now ext"
    "height_change_cost_param_adapted (cost_params (evaluateProgressRate ext s)) =
      (let w = goal_dist_incline (evaluateProgressRate ext s);
           a0 = height_change_cost_param_adapted (cost_params s);
           a1 = (if sum_list w / of_nat (length w) > no_progress_slope s
                    \<and> length w = dist_incline_window_size s
                 then (if a0 > 0.75 then a0 - 0.02 else a0) else a0)
       in if sum_list w / of_nat (length w) < no_progress_slope s
          then (if a1 < height_change_cost_param (cost_params s) - 0.03 then a1 + 0.03 else a1)
          else a1)"
    if "reach_altitude s \<and> adapt_cost_params s"
    using that by (simp_all add: evaluateProgressRate_def Let_def avg_incline_def)
  show ?thesis
  proof (cases "reach_altitude s \<and> adapt_cost_params s")
    case False
    with off show ?thesis by blast
  next
    case True
    show ?thesis
    proof (cases "0 < dist_incline_window_size s")
      case False
      with True show ?thesis by simp
    next
      case pos: True
      let ?w = "goal_dist_incline (evaluateProgressRate ext s)"
      let ?avg = "sum_list ?w / of_nat (length ?w)"
      let ?a = "height_change_cost_param_adapted (cost_params s)"
      let ?a' = "height_change_cost_param_adapted (cost_params (evaluateProgressRate ext s))"
      let ?nominal = "height_change_cost_param (cost_params s)"
      note w = on(1) [OF True, unfolded push [OF pos]]
      note t = on(2) [OF True]
      note a = on(3) [OF True]
      have rest: "(?avg > no_progress_slope s \<and> length ?w = dist_incline_window_size s \<and> ?a > 0.75
             \<longrightarrow> ?a' = ?a - 0.02) \<and>
          (?avg > no_progress_slope s \<and> \<not> (length ?w = dist_incline_window_size s \<and> ?a > 0.75)
             \<longrightarrow> ?a' = ?a) \<and>
          (?avg < no_progress_slope s \<and> ?a < ?nominal - 0.03 \<longrightarrow> ?a' = ?a + 0.03) \<and>
          (?avg < no_progress_slope s \<and> \<not> ?a < ?nominal - 0.03 \<longrightarrow> ?a' = ?a) \<and>
          (?avg = no_progress_slope s \<longrightarrow> ?a' = ?a) \<and>
          (0.73 \<le> ?a \<longrightarrow> 0.73 \<le> ?a') \<and>
          (?a \<le> ?nominal \<longrightarrow> ?a' \<le> ?nominal)"
        unfolding a Let_def by auto
      from True w t rest show ?thesis
        unfolding Let_def by blast
    qed
  qed
qed

theorem progress_rate_adaptation_witness:
  "reach_altitude lp_stall \<and> adapt_cost_params lp_stall \<and>
   now ext0 \<noteq> integral_time_old lp_stall \<and> dist_incline_window_size lp_stall = 3 \<and>
   goal_dist_incline lp_stall = [2, 0, 0] \<and>
   goal_dist_incline (evaluateProgressRate ext0 lp_stall) = [0, 0, 3] \<and>
   integral_time_old (evaluateProgressRate ext0 lp_stall) = 10 \<and>
   no_progress_slope lp_stall = 0.9 \<and>
   height_change_cost_param_adapted (cost_params lp_stall) = 4 \<and>
   height_change_cost_param_adapted (cost_params (evaluateProgressRate ext0 lp_stall)) = 3.98 \<and>
   reach_altitude lp_gain \<and> adapt_cost_params lp_gain \<and>
   now ext0 \<noteq> integral_time_old lp_gain \<and> dist_incline_window_size lp_gain = 3 \<and>
   goal_dist_incline lp_gain = [0, 3] \<and>
   goal_dist_incline (evaluateProgressRate ext0 lp_gain) = [0, 3, - 1] \<and>
   no_progress_slope lp_gain = 0.9 \<and>
   height_change_cost_param_adapted (cost_params lp_gain) = 3 \<and>
   height_change_cost_param (cost_params lp_gain) = 4 \<and>
   height_change_cost_param_adapted (cost_params (evaluateProgressRate ext0 lp_gain)) = 3.03 \<and>
   \<not> adapt_cost_params lp_fixed \<and>
   height_change_cost_param_adapted (cost_params lp_fixed) = 3 \<and>
   height_change_cost_param_adapted (cost_params (evaluateProgressRate ext0 lp_fixed)) = 4"
proof -
  have stall: "reach_altitude lp_stall" "adapt_cost_params lp_stall"
    "now ext0 \<noteq> integral_time_old lp_stall" "dist_incline_window_size lp_stall = 3"
    "goal_dist_incline lp_stall = [2, 0, 0]" "no_progress_slope lp_stall = 0.9"
    "height_change_cost_param_adapted (cost_params lp_stall) = 4"
    "height_change_cost_param (cost_params lp_stall) = 4"
    "now ext0 = 10" "integral_time_old lp_stall = 9"
    "vnorm (vminus (position lp_stall) (goal lp_stall)) = 13"
    "vnorm (vminus (position_old lp_stall) (goal lp_stall)) = 10"
    by (simp_all add: lp_stall_def lp0_def ext0_def vnorm_x)
  have gain: "reach_altitude lp_gain" "adapt_cost_params lp_gain"
    "now ext0 \<noteq> integral_time_old lp_gain" "dist_incline_window_size lp_gain = 3"
    "goal_dist_incline lp_gain = [0, 3]" "no_progress_slope lp_gain = 0.9"
    "height_change_cost_param_adapted (cost_params lp_gain) = 3"
    "height_change_cost_param (cost_params lp_gain) = 4"
    "integral_time_old lp_gain = 9"
    "vnorm (vminus (position lp_gain) (goal lp_gain)) = 9"
    "vnorm (vminus (position_old lp_gain) (goal lp_gain)) = 10"
    by (simp_all add: lp_gain_def lp0_def ext0_def vnorm_x)
  have fixed: "\<not> adapt_cost_params lp_fixed"
    "height_change_cost_param_adapted (cost_params lp_fixed) = 3"
    "height_change_cost_param (cost_params lp_fixed) = 4"
    by (simp_all add: lp_fixed_def lp0_def)
  from progress_rate_adaptation [of lp_stall ext0] stall
  have 1: "goal_dist_incline (evaluateProgressRate ext0 lp_stall) = [0, 0, 3] \<and>
      integral_time_old (evaluateProgressRate ext0 lp_stall) = 10 \<and>
      height_change_cost_param_adapted (cost_params (evaluateProgressRate ext0 lp_stall)) = 3.98"
    by (simp add: Let_def)
  from progress_rate_adaptation [of lp_gain ext0] gain stall(9)
  have 2: "goal_dist_incline (evaluateProgressRate ext0 lp_gain) = [0, 3, - 1] \<and>
      height_change_cost_param_adapted (cost_params (evaluateProgressRate ext0 lp_gain)) = 3.03"
    by (simp add: Let_def)
  from progress_rate_adaptation [of lp_fixed ext0] fixed
  have 3: "height_change_cost_param_adapted (cost_params (evaluateProgressRate ext0 lp_fixed)) = 4"
    by simp
  from stall gain fixed 1 2 3 show ?thesis by simp
qed

section \<open>Reprojection of the previous histogram\<close>

lemma set_reproject_all:
  "set (reproject_all ext h s) =
     (\<Union>e \<in> {0 .. GRID_LENGTH_E ext - 1}. \<Union>z \<in> {0 .. GRID_LENGTH_Z ext - 1}.
        set (reproject_cell ext h s e z))"
  by (simp add: reproject_all_def)

lemma set_reproject_cell:
  "(p, a) \<in> set (reproject_cell ext h s e z) \<longleftrightarrow>
     get_dist h e z > FLT_MIN \<and> p \<in> set (cell_corners ext h (position_old s) e z) \<and>
     a = get_age h e z \<and> reproject_keep s p a"
  by (auto simp add: reproject_cell_def)

lemma reproject_all_none:
  assumes "\<And>e z. \<not> get_dist h e z > FLT_MIN"
  shows "reproject_all ext h s = []"
  using assms by (simp add: reproject_all_def reproject_cell_def)

text \<open>
  C5, as the spec states it, fails: the spec calls a cell empty exactly when its
  distance is 0, but \<open>reprojectPoints\<close> passes over every cell whose distance is not
  above \<open>FLT_MIN\<close>. The only occupied cell of the histogram holds the distance
  \<open>FLT_MIN\<close>; its fourth corner, cast from the previous position, lies within
  (0.3, 2 radius) of the current position and the age of the cell is below
  \<open>reproj_age\<close>; yet no point is emitted.
\<close>

theorem reprojected_points_counterexample:
  "get_dist hist_tiny 15 30 \<noteq> 0 \<and>
   (0::int) \<le> 15 \<and> 15 < GRID_LENGTH_E ext_geo \<and> (0::int) \<le> 30 \<and> 30 < GRID_LENGTH_Z ext_geo \<and>
   histogramIndexToPolar ext_geo 15 30 (ALPHA_RES ext_geo) (get_dist hist_tiny 15 30)
     = PolarPoint 3 3 FLT_MIN \<and>
   c_div (ALPHA_RES ext_geo) 2 = 3 \<and>
   polarToCartesian ext_geo (PolarPoint (3 - 3) (3 - 3) FLT_MIN) (position_old lp_moved)
     = Vector3f FLT_MIN 0 5 \<and>
   0.3 < vnorm (vminus (position lp_moved) (Vector3f FLT_MIN 0 5)) \<and>
   vnorm (vminus (position lp_moved) (Vector3f FLT_MIN 0 5))
     < 2 * radius (histogram_box lp_moved) \<and>
   of_int (get_age hist_tiny 15 30) < reproj_age lp_moved \<and>
   reprojected_points (reprojectPoints ext_geo hist_tiny lp_moved) = [] \<and>
   reprojected_points_age (reprojectPoints ext_geo hist_tiny lp_moved) = []"
proof -
  have g: "GRID_LENGTH_E ext_geo = 30" "GRID_LENGTH_Z ext_geo = 60"
    by (simp_all add: GRID_LENGTH_E_def GRID_LENGTH_Z_def c_div_def ext_geo_def ext0_def)
  have c: "get_dist hist_tiny 15 30 \<noteq> 0"
    "histogramIndexToPolar ext_geo 15 30 (ALPHA_RES ext_geo) (get_dist hist_tiny 15 30)
       = PolarPoint 3 3 FLT_MIN"
    "c_div (ALPHA_RES ext_geo) 2 = 3"
    "polarToCartesian ext_geo (PolarPoint (3 - 3) (3 - 3) FLT_MIN) (position_old lp_moved)
       = Vector3f FLT_MIN 0 5"
    "of_int (get_age hist_tiny 15 30) < reproj_age lp_moved"
    by (simp_all add: hist_tiny_def ext_geo_def ext0_def lp_moved_def lp0_def FLT_MIN_def
        c_div_def)
  have "vnorm (vminus (position lp_moved) (Vector3f FLT_MIN 0 5)) = \<bar>1 - FLT_MIN\<bar>"
    by (simp add: lp_moved_def lp0_def vnorm_x)
  then have d: "0.3 < vnorm (vminus (position lp_moved) (Vector3f FLT_MIN 0 5))"
    "vnorm (vminus (position lp_moved) (Vector3f FLT_MIN 0 5))
       < 2 * radius (histogram_box lp_moved)"
    by (simp_all add: FLT_MIN_def lp_moved_def)
  have "\<not> get_dist hist_tiny e z > FLT_MIN" for e z
    by (simp add: hist_tiny_def FLT_MIN_def)
  then have "reproject_all ext_geo hist_tiny lp_moved = []"
    by (rule reproject_all_none)
  then have r: "reprojected_points (reprojectPoints ext_geo hist_tiny lp_moved) = []"
    "reprojected_points_age (reprojectPoints ext_geo hist_tiny lp_moved) = []"
    by (simp_all add: reprojectPoints_def Let_def)
  from g c d r show ?thesis by simp
qed

text \<open>
  C5, amended. The points and ages that \<open>reprojectPoints\<close> emits are parallel lists, and
  a point \<open>p\<close> is emitted with age \<open>a\<close> exactly when there is a cell \<open>(e, z)\<close> of the
  given histogram whose distance is above \<open>FLT_MIN\<close> such that: \<open>p\<close> is one of the four
  corners of the cell, that is the polar point of the cell (\<open>histogramIndexToPolar\<close> at
  the resolution \<open>ALPHA_RES\<close> and the distance of the cell) with its elevation and its
  azimuth each moved by plus or minus \<open>ALPHA_RES / 2\<close>, cast to Cartesian coordinates
  from the previous position; \<open>a\<close> is the age of the cell; the distance from the
  current position to \<open>p\<close> lies strictly between 0.3 and twice the box radius; and \<open>a\<close>
  is less than \<open>reproj_age\<close>.
\<close>

theorem reprojected_points_characterisation:
  "length (reprojected_points (reprojectPoints ext h s)) =
     length (reprojected_points_age (reprojectPoints ext h s)) \<and>
   ((p, a) \<in> set (zip (reprojected_points (reprojectPoints ext h s))
                       (reprojected_points_age (reprojectPoints ext h s))) \<longleftrightarrow>
    (\<exists>e z. 0 \<le> e \<and> e < GRID_LENGTH_E ext \<and> 0 \<le> z \<and> z < GRID_LENGTH_Z ext \<and>
       get_dist h e z > FLT_MIN \<and>
       (\<exists>c hr. c = histogramIndexToPolar ext e z (ALPHA_RES ext) (get_dist h e z) \<and>
          hr = of_int (c_div (ALPHA_RES ext) 2) \<and>
          (p = polarToCartesian ext (PolarPoint (pe c + hr) (pz c + hr) (pr c)) (position_old s) \<or>
           p = polarToCartesian ext (PolarPoint (pe c - hr) (pz c + hr) (pr c)) (position_old s) \<or>
           p = polarToCartesian ext (PolarPoint (pe c + hr) (pz c - hr) (pr c)) (position_old s) \<or>
           p = polarToCartesian ext (PolarPoint (pe c - hr) (pz c - hr) (pr c)) (position_old s))) \<and>
       a = get_age h e z \<and>
       0.3 < vnorm (vminus (position s) p) \<and>
       vnorm (vminus (position s) p) < 2 * radius (histogram_box s) \<and>
       of_int a < reproj_age s))"
proof -
  have z: "zip (reprojected_points (reprojectPoints ext h s))
               (reprojected_points_age (reprojectPoints ext h s)) = reproject_all ext h s"
    by (simp add: reprojectPoints_def Let_def zip_map_fst_snd)
  have len: "length (reprojected_points (reprojectPoints ext h s)) =
     length (reprojected_points_age (reprojectPoints ext h s))"
    by (simp add: reprojectPoints_def Let_def)
  have corner: "p \<in> set (cell_corners ext h (position_old s) e z) \<longleftrightarrow>
      (\<exists>c hr. c = histogramIndexToPolar ext e z (ALPHA_RES ext) (get_dist h e z) \<and>
          hr = of_int (c_div (ALPHA_RES ext) 2) \<and>
          (p = polarToCartesian ext (PolarPoint (pe c + hr) (pz c + hr) (pr c)) (position_old s) \<or>
           p = polarToCartesian ext (PolarPoint (pe c - hr) (pz c + hr) (pr c)) (position_old s) \<or>
           p = polarToCartesian ext (PolarPoint (pe c + hr) (pz c - hr) (pr c)) (position_old s) \<or>
           p = polarToCartesian ext (PolarPoint (pe c - hr) (pz c - hr) (pr c)) (position_old s)))"
    for e z
    by (simp add: cell_corners_def Let_def half_res_def)
  have "(p, a) \<in> set (reproject_all ext h s) \<longleftrightarrow>
    (\<exists>e z. 0 \<le> e \<and> e < GRID_LENGTH_E ext \<and> 0 \<le> z \<and> z < GRID_LENGTH_Z ext \<and>
       get_dist h e z > FLT_MIN \<and>
       p \<in> set (cell_corners ext h (position_old s) e z) \<and>
       a = get_age h e z \<and> reproject_keep s p a)"
    (is "?l \<longleftrightarrow> ?r")
  proof
    assume ?l
    then obtain e z where "e \<in> {0 .. GRID_LENGTH_E ext - 1}" "z \<in> {0 .. GRID_LENGTH_Z ext - 1}"
      "(p, a) \<in> set (reproject_cell ext h s e z)"
      unfolding set_reproject_all by blast
    then have "0 \<le> e \<and> e < GRID_LENGTH_E ext \<and> 0 \<le> z \<and> z < GRID_LENGTH_Z ext \<and>
       get_dist h e z > FLT_MIN \<and>
       p \<in> set (cell_corners ext h (position_old s) e z) \<and>
       a = get_age h e z \<and> reproject_keep s p a"
      by (auto simp add: set_reproject_cell)
    then show ?r by blast
  next
    assume ?r
    then obtain e z where ez: "0 \<le> e" "e < GRID_LENGTH_E ext" "0 \<le> z" "z < GRID_LENGTH_Z ext"
      and c: "get_dist h e z > FLT_MIN \<and>
       p \<in> set (cell_corners ext h (position_old s) e z) \<and>
       a = get_age h e z \<and> reproject_keep s p a"
      by blast
    from ez have "e \<in> {0 .. GRID_LENGTH_E ext - 1}" "z \<in> {0 .. GRID_LENGTH_Z ext - 1}"
      by simp_all
    moreover from c have "(p, a) \<in> set (reproject_cell ext h s e z)"
      unfolding set_reproject_cell by blast
    ultimately show ?l
      unfolding set_reproject_all by blast
  qed
  then have "(p, a) \<in> set (reproject_all ext h s) \<longleftrightarrow>
    (\<exists>e z. 0 \<le> e \<and> e < GRID_LENGTH_E ext \<and> 0 \<le> z \<and> z < GRID_LENGTH_Z ext \<and>
       get_dist h e z > FLT_MIN \<and>
       p \<in> set (cell_corners ext h (position_old s) e z) \<and>
       a = get_age h e z \<and>
       0.3 < vnorm (vminus (position s) p) \<and>
       vnorm (vminus (position s) p) < 2 * radius (histogram_box s) \<and>
       of_int a < reproj_age s)"
    by (auto simp add: reproject_keep_def Let_def)
  then show ?thesis
    unfolding z corner using len by simp
qed

text \<open>
  The cell (15, 30) of \<open>hist_cells\<close> has its centre at elevation 3 and azimuth 3, so
  its corners are at the elevations and azimuths 6 and 0; cast from the previous
  position (0, 0, 5) at the distance 4 they are (4, 6, 11), (4, 0, 11), (4, 6, 5) and
  (4, 0, 5), at 9, \<open>sqrt 45\<close>, \<open>sqrt 45\<close> and 3 from the current position (1, 0, 5). The
  first one is not within twice the radius 4; the others are emitted with the age 1 of
  the cell. The neighbour cell (15, 31), of age 20, shares the corner (4, 0, 11), which
  is not emitted with that age; and the centre (4, 3, 8) of the cell is not emitted.
\<close>

theorem reprojected_points_characterisation_witness:
  "position lp_moved = Vector3f 1 0 5 \<and> position_old lp_moved = Vector3f 0 0 5 \<and>
   radius (histogram_box lp_moved) = 4 \<and> reproj_age lp_moved = 10 \<and>
   get_dist hist_cells 15 30 = 4 \<and> get_age hist_cells 15 30 = 1 \<and>
   get_dist hist_cells 15 31 = 4 \<and> get_age hist_cells 15 31 = 20 \<and>
   (Vector3f 4 0 5, 1) \<in> set (zip (reprojected_points (reprojectPoints ext_geo hist_cells lp_moved))
       (reprojected_points_age (reprojectPoints ext_geo hist_cells lp_moved))) \<and>
   (Vector3f 4 0 11, 1) \<in> set (zip (reprojected_points (reprojectPoints ext_geo hist_cells lp_moved))
       (reprojected_points_age (reprojectPoints ext_geo hist_cells lp_moved))) \<and>
   (Vector3f 4 6 5, 1) \<in> set (zip (reprojected_points (reprojectPoints ext_geo hist_cells lp_moved))
       (reprojected_points_age (reprojectPoints ext_geo hist_cells lp_moved))) \<and>
   (Vector3f 4 6 11, 1) \<notin> set (zip (reprojected_points (reprojectPoints ext_geo hist_cells lp_moved))
       (reprojected_points_age (reprojectPoints ext_geo hist_cells lp_moved))) \<and>
   (Vector3f 4 0 11, 20) \<notin> set (zip (reprojected_points (reprojectPoints ext_geo hist_cells lp_moved))
       (reprojected_points_age (reprojectPoints ext_geo hist_cells lp_moved))) \<and>
   (Vector3f 4 3 8, 1) \<notin> set (zip (reprojected_points (reprojectPoints ext_geo hist_cells lp_moved))
       (reprojected_points_age (reprojectPoints ext_geo hist_cells lp_moved)))"
proof -
  let ?zip = "set (zip (reprojected_points (reprojectPoints ext_geo hist_cells lp_moved))
       (reprojected_points_age (reprojectPoints ext_geo hist_cells lp_moved)))"
  have par: "position lp_moved = Vector3f 1 0 5" "position_old lp_moved = Vector3f 0 0 5"
    "radius (histogram_box lp_moved) = 4" "reproj_age lp_moved = 10"
    by (simp_all add: lp_moved_def lp0_def)
  have cells: "get_dist hist_cells 15 30 = 4" "get_age hist_cells 15 30 = 1"
    "get_dist hist_cells 15 31 = 4" "get_age hist_cells 15 31 = 20"
    by (simp_all add: hist_cells_def)
  have occupied: "e = 15 \<and> (z = 30 \<or> z = 31)" if "get_dist hist_cells e z > FLT_MIN" for e z
    using that by (simp add: hist_cells_def FLT_MIN_def split: if_splits)
  have g: "GRID_LENGTH_E ext_geo = 30" "GRID_LENGTH_Z ext_geo = 60"
    "ALPHA_RES ext_geo = 6" "c_div 6 2 = 3"
    by (simp_all add: GRID_LENGTH_E_def GRID_LENGTH_Z_def c_div_def ext_geo_def ext0_def)
  have polar: "histogramIndexToPolar ext_geo 15 30 6 4 = PolarPoint 3 3 4"
    "histogramIndexToPolar ext_geo 15 31 6 4 = PolarPoint 3 9 4"
    by (simp_all add: ext_geo_def ext0_def)
  have cast: "polarToCartesian ext_geo (PolarPoint x y r) (Vector3f 0 0 5) = Vector3f r x (5 + y)"
    for x y r
    by (simp add: ext_geo_def)
  have d: "vnorm (vminus (Vector3f 1 0 5) (Vector3f 4 0 5)) = 3"
    "vnorm (vminus (Vector3f 1 0 5) (Vector3f 4 0 11)) = sqrt 45"
    "vnorm (vminus (Vector3f 1 0 5) (Vector3f 4 6 5)) = sqrt 45"
    "vnorm (vminus (Vector3f 1 0 5) (Vector3f 4 6 11)) = 9"
    by (simp_all add: vnorm_def vminus_def sqrt_9 sqrt_81)
  have b: "3 < sqrt 45 * 10" "sqrt 45 < 8"
    using sqrt_45_bounds by simp_all
  have flt: "FLT_MIN < 4"
    by (simp add: FLT_MIN_def)
  note inst = reprojected_points_characterisation [of ext_geo hist_cells lp_moved]
  have 1: "(Vector3f 4 0 5, 1) \<in> ?zip"
    apply (rule inst [THEN conjunct2, THEN iffD2])
    apply (rule exI [of _ 15])
    apply (rule exI [of _ 30])
    apply (simp add: par cells g polar cast d flt)
    done
  have 2: "(Vector3f 4 0 11, 1) \<in> ?zip"
    apply (rule inst [THEN conjunct2, THEN iffD2])
    apply (rule exI [of _ 15])
    apply (rule exI [of _ 30])
    apply (simp add: par cells g polar cast d b flt)
    done
  have 3: "(Vector3f 4 6 5, 1) \<in> ?zip"
    apply (rule inst [THEN conjunct2, THEN iffD2])
    apply (rule exI [of _ 15])
    apply (rule exI [of _ 30])
    apply (simp add: par cells g polar cast d b flt)
    done
  have 4: "(Vector3f 4 6 11, 1) \<notin> ?zip"
  proof
    assume "(Vector3f 4 6 11, 1) \<in> ?zip"
    from inst [THEN conjunct2, THEN iffD1, OF this] obtain e z where
      o: "get_dist hist_cells e z > FLT_MIN" and a: "1 = get_age hist_cells e z"
      and r: "vnorm (vminus (position lp_moved) (Vector3f 4 6 11))
                < 2 * radius (histogram_box lp_moved)"
      by blast
    from r show False by (simp add: par d)
  qed
  have 5: "(Vector3f 4 0 11, 20) \<notin> ?zip"
  proof
    assume "(Vector3f 4 0 11, 20) \<in> ?zip"
    from inst [THEN conjunct2, THEN iffD1, OF this] obtain e z where
      a: "20 = get_age hist_cells e z" and r: "of_int (20::int) < reproj_age lp_moved"
      by blast
    from r show False by (simp add: par)
  qed
  have 6: "(Vector3f 4 3 8, 1) \<notin> ?zip"
  proof
    assume "(Vector3f 4 3 8, 1) \<in> ?zip"
    from inst [THEN conjunct2, THEN iffD1, OF this] obtain e z c hr where
      o: "get_dist hist_cells e z > FLT_MIN"
      and c: "c = histogramIndexToPolar ext_geo e z (ALPHA_RES ext_geo) (get_dist hist_cells e z)"
        "hr = of_int (c_div (ALPHA_RES ext_geo) 2)"
        "Vector3f 4 3 8 = polarToCartesian ext_geo (PolarPoint (pe c + hr) (pz c + hr) (pr c))
            (position_old lp_moved) \<or>
         Vector3f 4 3 8 = polarToCartesian ext_geo (PolarPoint (pe c - hr) (pz c + hr) (pr c))
            (position_old lp_moved) \<or>
         Vector3f 4 3 8 = polarToCartesian ext_geo (PolarPoint (pe c + hr) (pz c - hr) (pr c))
            (position_old lp_moved) \<or>
         Vector3f 4 3 8 = polarToCartesian ext_geo (PolarPoint (pe c - hr) (pz c - hr) (pr c))
            (position_old lp_moved)"
      by blast
    from occupied [OF o] have "e = 15 \<and> z = 30 \<or> e = 15 \<and> z = 31" by blast
    then show False
    proof
      assume "e = 15 \<and> z = 30"
      with c show False by (simp add: par cells g polar cast)
    next
      assume "e = 15 \<and> z = 31"
      with c show False by (simp add: par cells g polar cast)
    qed
  qed
  from par cells 1 2 3 4 5 6 show ?thesis by simp
qed

section \<open>The obstacle-distance message\<close>

lemma ranges_updateObstacleDistanceMsg:
  "ranges (distance_data (updateObstacleDistanceMsg ext hist s)) =
     map (obstacle_range ext hist (z_FOV_idx_north ext (z_FOV_idx s)) 20)
       [0 .. GRID_LENGTH_Z ext - 1]"
  "angle_increment (distance_data (updateObstacleDistanceMsg ext hist s)) =
     of_int (ALPHA_RES ext) * pi / 180"
  "range_max (distance_data (updateObstacleDistanceMsg ext hist s)) = 20"
  "range_min (distance_data (updateObstacleDistanceMsg ext hist s)) = 0.2"
  by (simp_all add: updateObstacleDistanceMsg_def Let_def)

lemma ranges_nth:
  assumes "0 \<le> idx" and "idx < GRID_LENGTH_Z ext"
  shows "ranges (distance_data (updateObstacleDistanceMsg ext hist s)) ! nat idx =
     obstacle_range ext hist (z_FOV_idx_north ext (z_FOV_idx s)) 20 idx"
proof -
  have len: "nat idx < length [0 .. GRID_LENGTH_Z ext - 1]"
    using assms by simp
  have "[0 .. GRID_LENGTH_Z ext - 1] ! nat idx = 0 + int (nat idx)"
    using assms by (intro nth_upto) simp
  then have "[0 .. GRID_LENGTH_Z ext - 1] ! nat idx = idx"
    using assms by simp
  with len show ?thesis
    by (simp add: ranges_updateObstacleDistanceMsg(1))
qed

lemma grid_half:
  assumes "0 < ALPHA_RES ext"
  shows "0 \<le> c_div (GRID_LENGTH_Z ext) 2" and "c_div (GRID_LENGTH_Z ext) 2 \<le> GRID_LENGTH_Z ext"
    and "0 \<le> GRID_LENGTH_Z ext"
proof -
  from assms have z: "GRID_LENGTH_Z ext = 360 div ALPHA_RES ext"
    by (simp add: GRID_LENGTH_Z_def c_div_def)
  with assms show nonneg: "0 \<le> GRID_LENGTH_Z ext"
    by (simp add: pos_imp_zdiv_nonneg_iff)
  then have h: "c_div (GRID_LENGTH_Z ext) 2 = GRID_LENGTH_Z ext div 2"
    by (cases "GRID_LENGTH_Z ext = 0") (simp_all add: c_div_def)
  from nonneg show "0 \<le> c_div (GRID_LENGTH_Z ext) 2"
    unfolding h by simp
  from nonneg show "c_div (GRID_LENGTH_Z ext) 2 \<le> GRID_LENGTH_Z ext"
    unfolding h by simp
qed

lemma north_hist_inverse:
  assumes "0 < ALPHA_RES ext"
  shows "0 \<le> i \<Longrightarrow> i < GRID_LENGTH_Z ext \<Longrightarrow> hist_idx ext (north_idx ext i) = i"
    and "0 \<le> idx \<Longrightarrow> idx < GRID_LENGTH_Z ext \<Longrightarrow> north_idx ext (hist_idx ext idx) = idx"
  using grid_half [OF assms] by (auto simp add: north_idx_def hist_idx_def Let_def)

lemma in_north_iff:
  assumes "0 < ALPHA_RES ext"
    and "\<forall>i \<in> set fov. 0 \<le> i \<and> i < GRID_LENGTH_Z ext"
    and "0 \<le> idx" and "idx < GRID_LENGTH_Z ext"
  shows "idx \<in> set (z_FOV_idx_north ext fov) \<longleftrightarrow> hist_idx ext idx \<in> set fov"
proof
  assume "idx \<in> set (z_FOV_idx_north ext fov)"
  then obtain i where i: "i \<in> set fov" "idx = north_idx ext i"
    by (auto simp add: z_FOV_idx_north_def)
  with assms(2) have "0 \<le> i" "i < GRID_LENGTH_Z ext" by auto
  from north_hist_inverse(1) [OF assms(1) this] i show "hist_idx ext idx \<in> set fov"
    by simp
next
  assume h: "hist_idx ext idx \<in> set fov"
  from north_hist_inverse(2) [OF assms(1,3,4)]
  have "idx = north_idx ext (hist_idx ext idx)" by simp
  with h show "idx \<in> set (z_FOV_idx_north ext fov)"
    unfolding z_FOV_idx_north_def by (metis imageI set_map)
qed

text \<open>
  C4, as the spec states it, fails: at the resolution of 6 degrees the array has 60
  bins, not 360, and with an empty field of view bin 0, which is outside the field of
  view, holds 65535 and not the maximum range plus one, which is 21.
\<close>

theorem obstacle_distance_counterexample:
  "ALPHA_RES ext0 = 6 \<and> z_FOV_idx lp0 = [] \<and>
   length (ranges (distance_data (updateObstacleDistanceMsg ext0 hist_fcu lp0))) = 60 \<and>
   ranges (distance_data (updateObstacleDistanceMsg ext0 hist_fcu lp0)) ! 0 = 65535 \<and>
   range_max (distance_data (updateObstacleDistanceMsg ext0 hist_fcu lp0)) + 1 = 21"
proof -
  have grid: "GRID_LENGTH_Z ext0 = 60"
    by (simp add: GRID_LENGTH_Z_def c_div_def ext0_def)
  have 1: "length (ranges (distance_data (updateObstacleDistanceMsg ext0 hist_fcu lp0))) = 60"
    by (simp add: ranges_updateObstacleDistanceMsg grid)
  have "ranges (distance_data (updateObstacleDistanceMsg ext0 hist_fcu lp0)) ! nat 0 =
     obstacle_range ext0 hist_fcu (z_FOV_idx_north ext0 (z_FOV_idx lp0)) 20 0"
    by (rule ranges_nth) (simp_all add: grid)
  then have 2: "ranges (distance_data (updateObstacleDistanceMsg ext0 hist_fcu lp0)) ! 0 = 65535"
    by (simp add: obstacle_range_def z_FOV_idx_north_def UINT16_MAX_def lp0_def)
  have 3: "ALPHA_RES ext0 = 6" "z_FOV_idx lp0 = []"
    by (simp_all add: ext0_def lp0_def)
  from 1 2 3 show ?thesis
    by (simp add: ranges_updateObstacleDistanceMsg)
qed

text \<open>
  C4, amended. The array has \<open>GRID_LENGTH_Z = 360 / ALPHA_RES\<close> bins of \<open>ALPHA_RES\<close>
  degrees each. With the azimuth indices of the field of view inside the grid, the bin
  \<open>idx\<close> belongs to the histogram column \<open>hist_idx idx\<close> (the index turned by half a
  ring). If that column is in the field of view, the bin holds the distance of the
  compressed histogram in row 0 of that column, or the maximum range plus one (21) when
  that cell is empty; if it is not in the field of view, the bin holds 65535.
\<close>

theorem obstacle_distance_ranges:
  assumes "0 < ALPHA_RES ext"
    and "\<forall>i \<in> set (z_FOV_idx s). 0 \<le> i \<and> i < GRID_LENGTH_Z ext"
    and "0 \<le> idx" and "idx < GRID_LENGTH_Z ext"
  shows "length (ranges (distance_data (updateObstacleDistanceMsg ext hist s))) =
           nat (GRID_LENGTH_Z ext) \<and>
         GRID_LENGTH_Z ext = 360 div ALPHA_RES ext \<and>
         angle_increment (distance_data (updateObstacleDistanceMsg ext hist s)) =
           of_int (ALPHA_RES ext) * pi / 180 \<and>
         range_max (distance_data (updateObstacleDistanceMsg ext hist s)) = 20 \<and>
         ranges (distance_data (updateObstacleDistanceMsg ext hist s)) ! nat idx =
           (if hist_idx ext idx \<in> set (z_FOV_idx s)
            then (if get_dist hist 0 (hist_idx ext idx) = 0 then 21
                  else get_dist hist 0 (hist_idx ext idx))
            else 65535)"
proof -
  have len: "length (ranges (distance_data (updateObstacleDistanceMsg ext hist s))) =
           nat (GRID_LENGTH_Z ext)"
    by (simp add: ranges_updateObstacleDistanceMsg)
  have z: "GRID_LENGTH_Z ext = 360 div ALPHA_RES ext"
    using assms(1) by (simp add: GRID_LENGTH_Z_def c_div_def)
  have "ranges (distance_data (updateObstacleDistanceMsg ext hist s)) ! nat idx =
      (if hist_idx ext idx \<in> set (z_FOV_idx s)
            then (if get_dist hist 0 (hist_idx ext idx) = 0 then 21
                  else get_dist hist 0 (hist_idx ext idx))
            else 65535)"
    unfolding ranges_nth [OF assms(3,4)] obstacle_range_def in_north_iff [OF assms]
    by (simp add: UINT16_MAX_def)
  with len z show ?thesis
    by (simp add: ranges_updateObstacleDistanceMsg)
qed

theorem obstacle_distance_ranges_witness:
  "0 < ALPHA_RES ext0 \<and> GRID_LENGTH_Z ext0 = 60 \<and> z_FOV_idx lp_fov = [29, 30] \<and>
   hist_idx ext0 0 = 30 \<and> hist_idx ext0 59 = 29 \<and> hist_idx ext0 30 = 0 \<and>
   get_dist hist_fcu 0 30 = 7 \<and> get_dist hist_fcu 0 29 = 0 \<and>
   length (ranges (distance_data (updateObstacleDistanceMsg ext0 hist_fcu lp_fov))) = 60 \<and>
   ranges (distance_data (updateObstacleDistanceMsg ext0 hist_fcu lp_fov)) ! 0 = 7 \<and>
   ranges (distance_data (updateObstacleDistanceMsg ext0 hist_fcu lp_fov)) ! 59 = 21 \<and>
   ranges (distance_data (updateObstacleDistanceMsg ext0 hist_fcu lp_fov)) ! 30 = 65535"
proof -
  have grid: "0 < ALPHA_RES ext0" "GRID_LENGTH_Z ext0 = 60"
    by (simp_all add: GRID_LENGTH_Z_def c_div_def ext0_def)
  have fov: "z_FOV_idx lp_fov = [29, 30]"
    by (simp add: lp_fov_def)
  have idx: "hist_idx ext0 0 = 30" "hist_idx ext0 59 = 29" "hist_idx ext0 30 = 0"
    by (simp_all add: hist_idx_def Let_def grid c_div_def)
  have h: "get_dist hist_fcu 0 30 = 7" "get_dist hist_fcu 0 29 = 0"
    by (simp_all add: hist_fcu_def)
  have inside: "\<forall>i \<in> set (z_FOV_idx lp_fov). 0 \<le> i \<and> i < GRID_LENGTH_Z ext0"
    by (simp add: fov grid)
  from obstacle_distance_ranges [OF grid(1) inside, of 0 hist_fcu]
  have 1: "length (ranges (distance_data (updateObstacleDistanceMsg ext0 hist_fcu lp_fov))) = 60 \<and>
      ranges (distance_data (updateObstacleDistanceMsg ext0 hist_fcu lp_fov)) ! 0 = 7"
    by (simp add: grid fov idx h)
  from obstacle_distance_ranges [OF grid(1) inside, of 59 hist_fcu]
  have 2: "ranges (distance_data (updateObstacleDistanceMsg ext0 hist_fcu lp_fov)) ! 59 = 21"
    by (simp add: grid fov idx h)
  from obstacle_distance_ranges [OF grid(1) inside, of 30 hist_fcu]
  have 3: "ranges (distance_data (updateObstacleDistanceMsg ext0 hist_fcu lp_fov)) ! 30 = 65535"
    by (simp add: grid fov idx h)
  from grid fov idx h 1 2 3 show ?thesis by simp
qed

end
